theory Spec2Isabelle
  imports Complex_Main "HOL-Library.Monad_Syntax"
begin

section \<open>Configuration constants (config.js)\<close>

text \<open>The entries of \<open>TIMING\<close> (milliseconds) and \<open>PHYSICS\<close> that the modelled code reads.\<close>

definition TIMING_stageB_start :: real where "TIMING_stageB_start = 1500"
definition TIMING_stageC_start :: real where "TIMING_stageC_start = 4000"
definition TIMING_stageD_start :: real where "TIMING_stageD_start = 7000"
definition TIMING_stageD_end :: real where "TIMING_stageD_end = 9000"

definition TIMING_rippleDelay :: real where "TIMING_rippleDelay = 40"
definition TIMING_shimmerDuration :: real where "TIMING_shimmerDuration = 300"
definition TIMING_idleTimeout :: real where "TIMING_idleTimeout = 10000"
definition TIMING_curiosityDuration :: real where "TIMING_curiosityDuration = 5000"
definition TIMING_nightShiftThreshold :: real where "TIMING_nightShiftThreshold = 90000"
definition TIMING_nightTransitionDuration :: real where "TIMING_nightTransitionDuration = 60000"

definition PHYSICS_petalCount :: nat where "PHYSICS_petalCount = 36"
definition PHYSICS_petalTiltMax :: real where "PHYSICS_petalTiltMax = 4"
definition PHYSICS_petalSpinAngle :: real where "PHYSICS_petalSpinAngle = 10"
definition PHYSICS_centerPulseSpeed :: real where "PHYSICS_centerPulseSpeed = 0.8"
definition PHYSICS_centerPulseAmount :: real where "PHYSICS_centerPulseAmount = 0.02"
definition PHYSICS_centerBloomScale :: real where "PHYSICS_centerBloomScale = 1.03"
definition PHYSICS_windNoiseScale :: real where "PHYSICS_windNoiseScale = 0.002"

section \<open>Utils and Easing (config.js), and the JavaScript built-ins used\<close>

text \<open>
  JavaScript numbers are modelled as real numbers: the model is exact arithmetic, without
  rounding, NaN or infinities. A division is faithful where the divisor is not zero.
  \<open>Math.random()\<close> is an argument \<open>u\<close> with \<open>0 \<le> u < 1\<close> wherever the code draws.
\<close>

record vec2 =
  vx :: real
  vy :: real

definition hypot :: "real \<Rightarrow> real \<Rightarrow> real" where
  "hypot a b = sqrt (a * a + b * b)"

text \<open>\<open>Math.atan2(y, x)\<close>, with values in \<open>(-\<pi>, \<pi>]\<close>.\<close>

definition atan2 :: "real \<Rightarrow> real \<Rightarrow> real" where
  "atan2 y x =
     (if 0 < x then arctan (y / x)
      else if x < 0 then (if 0 \<le> y then arctan (y / x) + pi else arctan (y / x) - pi)
      else if 0 < y then pi / 2
      else if y < 0 then - (pi / 2)
      else 0)"

text \<open>
  The remainder operator \<open>%\<close> on integers: the sign follows the dividend; a zero
  divisor gives \<open>NaN\<close>, here \<open>None\<close>.
\<close>

definition js_rem :: "int \<Rightarrow> int \<Rightarrow> int option" where
  "js_rem a b = (if b = 0 then None else Some (sgn a * (\<bar>a\<bar> mod \<bar>b\<bar>)))"

definition Utils_lerp :: "real \<Rightarrow> real \<Rightarrow> real \<Rightarrow> real" where
  "Utils_lerp a b t = a + (b - a) * t"

definition Utils_randomRange :: "real \<Rightarrow> real \<Rightarrow> real \<Rightarrow> real" where
  "Utils_randomRange u lo hi = u * (hi - lo) + lo"

definition Utils_degToRad :: "real \<Rightarrow> real" where
  "Utils_degToRad deg = deg * (pi / 180)"


definition Easing_cubicOut :: "real \<Rightarrow> real" where
  "Easing_cubicOut t = 1 - (1 - t) ^ 3"

section \<open>EntranceAnimation\<close>

text \<open>
  The five callback slots of \<open>stageCallbacks\<close> hold a function or \<open>null\<close>; a slot is
  modelled by whether a callback is registered, and a call of a registered callback is
  an event that the operation returns, in call order. \<open>performance.now()\<close> is the
  argument \<open>now\<close> of each operation.
\<close>

datatype stage_name = StA | StB | StC | StD | StComplete

datatype stage_event = CbStageA | CbStageB | CbStageC | CbStageD | CbComplete

record stage_callbacks =
  cb_stageA :: bool
  cb_stageB :: bool
  cb_stageC :: bool
  cb_stageD :: bool
  cb_complete :: bool

record triggered_stages =
  trig_A :: bool
  trig_B :: bool
  trig_C :: bool
  trig_D :: bool

record entrance_animation =
  ea_startTime :: real
  ea_isPlaying :: bool
  ea_isComplete :: bool
  ea_currentStage :: "stage_name option"
  ea_stageCallbacks :: stage_callbacks
  ea_triggeredStages :: triggered_stages

definition EntranceAnimation_new :: entrance_animation where
  "EntranceAnimation_new =
     \<lparr> ea_startTime = 0, ea_isPlaying = False, ea_isComplete = False,
       ea_currentStage = None,
       ea_stageCallbacks = \<lparr> cb_stageA = False, cb_stageB = False, cb_stageC = False,
                              cb_stageD = False, cb_complete = False \<rparr>,
       ea_triggeredStages = \<lparr> trig_A = False, trig_B = False, trig_C = False,
                               trig_D = False \<rparr> \<rparr>"

definition onStageA :: "entrance_animation \<Rightarrow> entrance_animation" where
  "onStageA e = e\<lparr> ea_stageCallbacks := (ea_stageCallbacks e)\<lparr> cb_stageA := True \<rparr> \<rparr>"

definition onStageB :: "entrance_animation \<Rightarrow> entrance_animation" where
  "onStageB e = e\<lparr> ea_stageCallbacks := (ea_stageCallbacks e)\<lparr> cb_stageB := True \<rparr> \<rparr>"

definition onStageC :: "entrance_animation \<Rightarrow> entrance_animation" where
  "onStageC e = e\<lparr> ea_stageCallbacks := (ea_stageCallbacks e)\<lparr> cb_stageC := True \<rparr> \<rparr>"

definition onStageD :: "entrance_animation \<Rightarrow> entrance_animation" where
  "onStageD e = e\<lparr> ea_stageCallbacks := (ea_stageCallbacks e)\<lparr> cb_stageD := True \<rparr> \<rparr>"

definition onComplete :: "entrance_animation \<Rightarrow> entrance_animation" where
  "onComplete e = e\<lparr> ea_stageCallbacks := (ea_stageCallbacks e)\<lparr> cb_complete := True \<rparr> \<rparr>"

text \<open>\<open>if (cb) cb()\<close>: the event is emitted when the slot is registered.\<close>

definition fire :: "bool \<Rightarrow> 'ev \<Rightarrow> 'ev list" where
  "fire registered ev = (if registered then [ev] else [])"

definition EntranceAnimation_start ::
  "real \<Rightarrow> entrance_animation \<Rightarrow> entrance_animation \<times> stage_event list" where
  "EntranceAnimation_start now e =
     (let e1 = e\<lparr> ea_startTime := now, ea_isPlaying := True, ea_currentStage := Some StA \<rparr>;
          evA = fire (cb_stageA (ea_stageCallbacks e1)) CbStageA;
          e2 = e1\<lparr> ea_triggeredStages := (ea_triggeredStages e1)\<lparr> trig_A := True \<rparr> \<rparr>
      in (e2, evA))"

definition EntranceAnimation_update ::
  "real \<Rightarrow> entrance_animation \<Rightarrow> entrance_animation \<times> stage_event list" where
  "EntranceAnimation_update now e =
     (if \<not> ea_isPlaying e \<or> ea_isComplete e then (e, [])
      else
        let elapsed = now - ea_startTime e;
            (e1, evB) =
              (if \<not> trig_B (ea_triggeredStages e) \<and> elapsed \<ge> TIMING_stageB_start
               then (e\<lparr> ea_currentStage := Some StB,
                        ea_triggeredStages := (ea_triggeredStages e)\<lparr> trig_B := True \<rparr> \<rparr>,
                     fire (cb_stageB (ea_stageCallbacks e)) CbStageB)
               else (e, []));
            (e2, evC) =
              (if \<not> trig_C (ea_triggeredStages e1) \<and> elapsed \<ge> TIMING_stageC_start
               then (e1\<lparr> ea_currentStage := Some StC,
                         ea_triggeredStages := (ea_triggeredStages e1)\<lparr> trig_C := True \<rparr> \<rparr>,
                     fire (cb_stageC (ea_stageCallbacks e1)) CbStageC)
               else (e1, []));
            (e3, evD) =
              (if \<not> trig_D (ea_triggeredStages e2) \<and> elapsed \<ge> TIMING_stageD_start
               then (e2\<lparr> ea_currentStage := Some StD,
                         ea_triggeredStages := (ea_triggeredStages e2)\<lparr> trig_D := True \<rparr> \<rparr>,
                     fire (cb_stageD (ea_stageCallbacks e2)) CbStageD)
               else (e2, []));
            (e4, evE) =
              (if elapsed \<ge> TIMING_stageD_end
               then (e3\<lparr> ea_isPlaying := False, ea_isComplete := True,
                         ea_currentStage := Some StComplete \<rparr>,
                     fire (cb_complete (ea_stageCallbacks e3)) CbComplete)
               else (e3, []))
        in (e4, evB @ evC @ evD @ evE))"

text \<open>A sequence of \<open>update()\<close> calls, one per clock reading, with the callbacks fired.\<close>

fun EntranceAnimation_updates ::
  "real list \<Rightarrow> entrance_animation \<Rightarrow> entrance_animation \<times> stage_event list" where
  "EntranceAnimation_updates [] e = (e, [])"
| "EntranceAnimation_updates (now # nows) e =
     (let (e1, evs1) = EntranceAnimation_update now e;
          (e2, evs2) = EntranceAnimation_updates nows e1
      in (e2, evs1 @ evs2))"

text \<open>\<open>start()\<close> at clock \<open>t0\<close>, then the updates: everything fired, in order.\<close>

definition entrance_run ::
  "stage_callbacks \<Rightarrow> real \<Rightarrow> real list \<Rightarrow> entrance_animation \<times> stage_event list" where
  "entrance_run cbs t0 nows =
     (let (e0, evs0) = EntranceAnimation_start t0 (EntranceAnimation_new\<lparr> ea_stageCallbacks := cbs \<rparr>);
          (e1, evs1) = EntranceAnimation_updates nows e0
      in (e1, evs0 @ evs1))"

text \<open>Whether a callback of the given event is registered.\<close>

fun stage_registered :: "stage_callbacks \<Rightarrow> stage_event \<Rightarrow> bool" where
  "stage_registered cbs CbStageA = cb_stageA cbs"
| "stage_registered cbs CbStageB = cb_stageB cbs"
| "stage_registered cbs CbStageC = cb_stageC cbs"
| "stage_registered cbs CbStageD = cb_stageD cbs"
| "stage_registered cbs CbComplete = cb_complete cbs"

text \<open>The stages whose threshold some update has reached, in stage order; A is entered by \<open>start()\<close>.\<close>

definition stage_reached :: "real \<Rightarrow> real list \<Rightarrow> real \<Rightarrow> bool" where
  "stage_reached t0 nows threshold = (\<exists>now \<in> set nows. threshold \<le> now - t0)"

definition stages_entered :: "real \<Rightarrow> real list \<Rightarrow> stage_event list" where
  "stages_entered t0 nows =
     CbStageA #
     (if stage_reached t0 nows TIMING_stageB_start then [CbStageB] else []) @
     (if stage_reached t0 nows TIMING_stageC_start then [CbStageC] else []) @
     (if stage_reached t0 nows TIMING_stageD_start then [CbStageD] else []) @
     (if stage_reached t0 nows TIMING_stageD_end then [CbComplete] else [])"

text \<open>
  What the fields record after \<open>start()\<close> at \<open>t0\<close> and updates at the clock readings
  \<open>nows\<close>: used to prove the callback order.
\<close>

definition ea_inv :: "stage_callbacks \<Rightarrow> real \<Rightarrow> real list \<Rightarrow> entrance_animation \<Rightarrow> bool" where
  "ea_inv cbs t0 nows e \<longleftrightarrow>
     ea_startTime e = t0 \<and> ea_stageCallbacks e = cbs \<and>
     ea_isPlaying e = (\<not> ea_isComplete e) \<and>
     ea_isComplete e = stage_reached t0 nows TIMING_stageD_end \<and>
     trig_B (ea_triggeredStages e) = stage_reached t0 nows TIMING_stageB_start \<and>
     trig_C (ea_triggeredStages e) = stage_reached t0 nows TIMING_stageC_start \<and>
     trig_D (ea_triggeredStages e) = stage_reached t0 nows TIMING_stageD_start"

section \<open>StateManager\<close>

text \<open>
  Callback slots and fired callbacks are modelled as for the entrance sequencer; a fired
  callback carries its arguments. Every \<open>performance.now()\<close> is an argument: the
  constructor reads the clock twice, and \<open>recordInteraction\<close> reads it once itself and
  once more inside \<open>activateCuriosity\<close>.
\<close>

datatype state_event =
    OnIdleStart
  | OnIdleEnd
  | OnCuriosityStart real real
  | OnCuriosityEnd
  | OnNightShift real

record state_callbacks =
  cb_onIdleStart :: bool
  cb_onIdleEnd :: bool
  cb_onCuriosityStart :: bool
  cb_onCuriosityEnd :: bool
  cb_onNightShift :: bool

record state_manager =
  sm_lastInteractionTime :: real
  sm_isIdle :: bool
  sm_interactionCount :: nat
  sm_interactionTypes :: "string set"
  sm_curiosityActive :: bool
  sm_curiosityEndTime :: real
  sm_lastCursorX :: real
  sm_lastCursorY :: real
  sm_sessionStartTime :: real
  sm_nightShiftActive :: bool
  sm_nightShiftProgress :: real
  sm_callbacks :: state_callbacks

definition StateManager_new :: "real \<Rightarrow> real \<Rightarrow> state_manager" where
  "StateManager_new now now2 =
     \<lparr> sm_lastInteractionTime = now, sm_isIdle = False,
       sm_interactionCount = 0, sm_interactionTypes = {},
       sm_curiosityActive = False, sm_curiosityEndTime = 0,
       sm_lastCursorX = 0, sm_lastCursorY = 0,
       sm_sessionStartTime = now2, sm_nightShiftActive = False, sm_nightShiftProgress = 0,
       sm_callbacks = \<lparr> cb_onIdleStart = False, cb_onIdleEnd = False,
                        cb_onCuriosityStart = False, cb_onCuriosityEnd = False,
                        cb_onNightShift = False \<rparr> \<rparr>"

definition onCuriosityStart :: "state_manager \<Rightarrow> state_manager" where
  "onCuriosityStart s = s\<lparr> sm_callbacks := (sm_callbacks s)\<lparr> cb_onCuriosityStart := True \<rparr> \<rparr>"

definition onCuriosityEnd :: "state_manager \<Rightarrow> state_manager" where
  "onCuriosityEnd s = s\<lparr> sm_callbacks := (sm_callbacks s)\<lparr> cb_onCuriosityEnd := True \<rparr> \<rparr>"

definition onNightShift :: "state_manager \<Rightarrow> state_manager" where
  "onNightShift s = s\<lparr> sm_callbacks := (sm_callbacks s)\<lparr> cb_onNightShift := True \<rparr> \<rparr>"

definition onIdleStart :: "state_manager \<Rightarrow> state_manager" where
  "onIdleStart s = s\<lparr> sm_callbacks := (sm_callbacks s)\<lparr> cb_onIdleStart := True \<rparr> \<rparr>"

definition onIdleEnd :: "state_manager \<Rightarrow> state_manager" where
  "onIdleEnd s = s\<lparr> sm_callbacks := (sm_callbacks s)\<lparr> cb_onIdleEnd := True \<rparr> \<rparr>"

definition activateCuriosity :: "real \<Rightarrow> state_manager \<Rightarrow> state_manager \<times> state_event list" where
  "activateCuriosity now s =
     (let s1 = s\<lparr> sm_curiosityActive := True,
                  sm_curiosityEndTime := now + TIMING_curiosityDuration \<rparr>
      in (s1, fire (cb_onCuriosityStart (sm_callbacks s1))
                (OnCuriosityStart (sm_lastCursorX s1) (sm_lastCursorY s1))))"

definition recordInteraction ::
  "real \<Rightarrow> real \<Rightarrow> string \<Rightarrow> real \<Rightarrow> real \<Rightarrow> state_manager \<Rightarrow> state_manager \<times> state_event list" where
  "recordInteraction now now2 type cursorX cursorY s =
     (let wasIdle = sm_isIdle s;
          s1 = s\<lparr> sm_lastInteractionTime := now, sm_isIdle := False \<rparr>;
          evIdle = (if wasIdle then fire (cb_onIdleEnd (sm_callbacks s1)) OnIdleEnd else []);
          s2 = s1\<lparr> sm_interactionTypes := insert type (sm_interactionTypes s1),
                    sm_interactionCount := sm_interactionCount s1 + 1,
                    sm_lastCursorX := cursorX, sm_lastCursorY := cursorY \<rparr>
      in if card (sm_interactionTypes s2) \<ge> 3 \<and> \<not> sm_curiosityActive s2
         then (let (s3, evCur) = activateCuriosity now2 s2 in (s3, evIdle @ evCur))
         else (s2, evIdle))"

definition StateManager_update :: "real \<Rightarrow> state_manager \<Rightarrow> state_manager \<times> state_event list" where
  "StateManager_update now s =
     (let (s1, evIdle) =
            (if \<not> sm_isIdle s \<and> now - sm_lastInteractionTime s > TIMING_idleTimeout
             then (s\<lparr> sm_isIdle := True \<rparr>, fire (cb_onIdleStart (sm_callbacks s)) OnIdleStart)
             else (s, []));
          (s2, evCur) =
            (if sm_curiosityActive s1 \<and> now \<ge> sm_curiosityEndTime s1
             then (s1\<lparr> sm_curiosityActive := False, sm_interactionTypes := {} \<rparr>,
                   fire (cb_onCuriosityEnd (sm_callbacks s1)) OnCuriosityEnd)
             else (s1, []));
          sessionDuration = now - sm_sessionStartTime s2;
          s3 = (if \<not> sm_nightShiftActive s2 \<and> sessionDuration > TIMING_nightShiftThreshold
                then s2\<lparr> sm_nightShiftActive := True \<rparr> else s2);
          (s4, evNight) =
            (if sm_nightShiftActive s3
             then
               let nightStartTime = sm_sessionStartTime s3 + TIMING_nightShiftThreshold;
                   nightProgress = (now - nightStartTime) / TIMING_nightTransitionDuration
               in if nightProgress > sm_nightShiftProgress s3
                  then (let s' = s3\<lparr> sm_nightShiftProgress := min 1 nightProgress \<rparr>
                        in (s', fire (cb_onNightShift (sm_callbacks s'))
                                  (OnNightShift (sm_nightShiftProgress s'))))
                  else (s3, [])
             else (s3, []))
      in (s4, evIdle @ evCur @ evNight))"

definition getNightProgress :: "state_manager \<Rightarrow> real" where
  "getNightProgress s = sm_nightShiftProgress s"

definition getCuriosityActive :: "state_manager \<Rightarrow> bool" where
  "getCuriosityActive s = sm_curiosityActive s"

text \<open>A sequence of \<open>update()\<close> calls at the given clock readings.\<close>

fun StateManager_updates :: "real list \<Rightarrow> state_manager \<Rightarrow> state_manager \<times> state_event list" where
  "StateManager_updates [] s = (s, [])"
| "StateManager_updates (now # nows) s =
     (let (s1, evs1) = StateManager_update now s;
          (s2, evs2) = StateManager_updates nows s1
      in (s2, evs1 @ evs2))"

text \<open>
  A sequence of \<open>recordInteraction\<close> calls; an interaction is its two clock readings, its
  type and the cursor position.
\<close>

type_synonym interaction = "real \<times> real \<times> string \<times> real \<times> real"

definition interaction_type :: "interaction \<Rightarrow> string" where
  "interaction_type i = fst (snd (snd i))"

fun StateManager_records :: "interaction list \<Rightarrow> state_manager \<Rightarrow> state_manager \<times> state_event list" where
  "StateManager_records [] s = (s, [])"
| "StateManager_records ((now, now2, type, cx, cy) # is) s =
     (let (s1, evs1) = recordInteraction now now2 type cx cy s;
          (s2, evs2) = StateManager_records is s1
      in (s2, evs1 @ evs2))"

fun is_curiosity_start :: "state_event \<Rightarrow> bool" where
  "is_curiosity_start (OnCuriosityStart x y) = True"
| "is_curiosity_start _ = False"

fun is_night_shift :: "state_event \<Rightarrow> bool" where
  "is_night_shift (OnNightShift p) = True"
| "is_night_shift _ = False"

text \<open>The linear ramp of the night shift at session-elapsed time \<open>el\<close>, kept within 0..1.\<close>

definition night_ramp :: "real \<Rightarrow> real" where
  "night_ramp el = max 0 (min 1 ((el - TIMING_nightShiftThreshold) / TIMING_nightTransitionDuration))"

text \<open>
  The night-shift fields after updates of a session started at \<open>t0\<close>, the latest at
  session-elapsed time \<open>el\<close>.
\<close>

definition night_inv :: "real \<Rightarrow> real \<Rightarrow> state_manager \<Rightarrow> bool" where
  "night_inv t0 el s \<longleftrightarrow> sm_sessionStartTime s = t0 \<and> sm_nightShiftProgress s = night_ramp el \<and>
     (sm_nightShiftActive s \<longrightarrow> TIMING_nightShiftThreshold < el)"

section \<open>WindField (BeeSystem.js)\<close>

record wind_field =
  wf_width :: real
  wf_height :: real
  wf_baseWind :: vec2
  wf_currentWind :: vec2
  wf_gustWind :: vec2
  wf_noiseOffset :: real
  wf_cursorInfluence :: vec2
  wf_lastCursorX :: real
  wf_lastCursorY :: real
  wf_gustActive :: bool
  wf_gustProgress :: real
  wf_gustDuration :: real
  wf_gustDirection :: vec2
  wf_perm :: "nat list"




definition fade :: "real \<Rightarrow> real" where
  "fade t = t * t * t * (t * (t * 6 - 15) + 10)"

text \<open>\<open>hash & 3\<close> is \<open>hash mod 4\<close>; \<open>h & 1\<close> and \<open>h & 2\<close> test its two bits.\<close>

definition grad :: "nat \<Rightarrow> real \<Rightarrow> real \<Rightarrow> real" where
  "grad hash a b =
     (let h = hash mod 4;
          u = (if h < 2 then a else b);
          v = (if h < 2 then b else a)
      in (if h mod 2 = 0 then u else - u) + (if (h div 2) mod 2 = 0 then v else - v))"

text \<open>\<open>Math.floor(x) & 255\<close> is the floor modulo 256, never negative.\<close>

definition noise :: "nat list \<Rightarrow> real \<Rightarrow> real \<Rightarrow> real" where
  "noise perm x0 y0 =
     (let X = nat (\<lfloor>x0\<rfloor> mod 256);
          Y = nat (\<lfloor>y0\<rfloor> mod 256);
          x = x0 - of_int \<lfloor>x0\<rfloor>;
          y = y0 - of_int \<lfloor>y0\<rfloor>;
          u = fade x;
          v = fade y;
          A = perm ! X + Y;
          B = perm ! (X + 1) + Y
      in Utils_lerp
           (Utils_lerp (grad (perm ! A) x y) (grad (perm ! B) (x - 1) y) u)
           (Utils_lerp (grad (perm ! (A + 1)) x (y - 1)) (grad (perm ! (B + 1)) (x - 1) (y - 1)) u)
           v)"



definition getWindAt :: "real \<Rightarrow> real \<Rightarrow> wind_field \<Rightarrow> vec2" where
  "getWindAt x y w =
     (let spatialNoise = noise (wf_perm w) (x * PHYSICS_windNoiseScale + wf_noiseOffset w)
                           (y * PHYSICS_windNoiseScale)
      in \<lparr> vx = vx (wf_currentWind w) + spatialNoise * 0.1,
           vy = vy (wf_currentWind w) + spatialNoise * 0.05 \<rparr>)"

definition getStrength :: "wind_field \<Rightarrow> real" where
  "getStrength w = hypot (vx (wf_currentWind w)) (vy (wf_currentWind w))"




section \<open>Petal (PetalModule.js)\<close>

text \<open>
  A call on \<open>undefined\<close> (a missing argument, an index outside an array) throws a
  \<open>TypeError\<close>; an operation that can throw returns a sum, \<open>Inl\<close> the error.
\<close>

datatype js_error = TypeError

record petal =
  pt_index :: nat
  pt_totalPetals :: nat
  pt_baseAngle :: real
  pt_angle :: real
  pt_hueOffset :: real
  pt_lengthVariation :: real
  pt_widthVariation :: real
  pt_phase :: real
  pt_naturalFreq :: real
  pt_length :: real
  pt_width :: real
  pt_tiltAngle :: real
  pt_tiltVelocity :: real
  pt_targetTilt :: real
  pt_tiltStiffness :: real
  pt_tiltDamping :: real
  pt_spinAngle :: real
  pt_spinVelocity :: real
  pt_spinDamping :: real
  pt_bendAngle :: real
  pt_bendVelocity :: real
  pt_bendStiffness :: real
  pt_scale :: real
  pt_scaleVelocity :: real
  pt_targetScale :: real
  pt_isHovered :: bool
  pt_glowIntensity :: real
  pt_hueShift :: real
  pt_vibrationPhase :: real
  pt_bloomProgress :: real
  pt_visible :: bool
  pt_rippleActive :: bool
  pt_rippleProgress :: real
  pt_rippleIntensity :: real

text \<open>The seven \<open>Math.random()\<close> draws of the constructor, in the order it makes them.\<close>

record petal_draws =
  u_hueOffset :: real
  u_lengthVariation :: real
  u_widthVariation :: real
  u_phase :: real
  u_naturalFreq :: real
  u_tiltStiffness :: real
  u_bendStiffness :: real

definition Petal_new :: "nat \<Rightarrow> nat \<Rightarrow> real \<Rightarrow> real \<Rightarrow> real \<Rightarrow> petal_draws \<Rightarrow> petal" where
  "Petal_new index totalPetals centerX centerY baseRadius u =
     (let baseAngle = (real index / real totalPetals) * pi * 2;
          lengthVariation = Utils_randomRange (u_lengthVariation u) 0.88 1.12;
          widthVariation = Utils_randomRange (u_widthVariation u) 0.9 1.1
      in \<lparr> pt_index = index, pt_totalPetals = totalPetals,
           pt_baseAngle = baseAngle, pt_angle = baseAngle,
           pt_hueOffset = Utils_randomRange (u_hueOffset u) (-8) 8,
           pt_lengthVariation = lengthVariation,
           pt_widthVariation = widthVariation,
           pt_phase = Utils_randomRange (u_phase u) 0 (pi * 2),
           pt_naturalFreq = Utils_randomRange (u_naturalFreq u) 2.5 4.5,
           pt_length = baseRadius * 0.8 * lengthVariation,
           pt_width = baseRadius * 0.15 * widthVariation,
           pt_tiltAngle = 0, pt_tiltVelocity = 0, pt_targetTilt = 0,
           pt_tiltStiffness = 0.15 * Utils_randomRange (u_tiltStiffness u) 0.8 1.2,
           pt_tiltDamping = 0.12,
           pt_spinAngle = 0, pt_spinVelocity = 0, pt_spinDamping = 0.92,
           pt_bendAngle = 0, pt_bendVelocity = 0,
           pt_bendStiffness = Utils_randomRange (u_bendStiffness u) 0.08 0.15,
           pt_scale = 1, pt_scaleVelocity = 0, pt_targetScale = 1,
           pt_isHovered = False, pt_glowIntensity = 0, pt_hueShift = 0, pt_vibrationPhase = 0,
           pt_bloomProgress = 0, pt_visible = False,
           pt_rippleActive = False, pt_rippleProgress = 0, pt_rippleIntensity = 0 \<rparr>)"

text \<open>
  \<open>setTimeout(f, delay)\<close>: the operation returns the timers it sets, each the delay and
  what the deferred function does; \<open>Petal_timer\<close> is the deferred function's body.
\<close>

datatype petal_timer = SetVisible | ResetTargetScale

fun Petal_timer :: "petal_timer \<Rightarrow> petal \<Rightarrow> petal" where
  "Petal_timer SetVisible p = p\<lparr> pt_visible := True \<rparr>"
| "Petal_timer ResetTargetScale p = p\<lparr> pt_targetScale := 1 \<rparr>"

definition Petal_startBloom :: "real \<Rightarrow> petal \<Rightarrow> petal \<times> (real \<times> petal_timer) list" where
  "Petal_startBloom delay p = (p, [(delay, SetVisible)])"

text \<open>The angle at which the petal is drawn and hit-tested: \<open>this.angle + this.spinAngle\<close>.\<close>

definition displayAngle :: "petal \<Rightarrow> real" where
  "displayAngle p = pt_angle p + pt_spinAngle p"

definition getTipPosition :: "real \<Rightarrow> real \<Rightarrow> petal \<Rightarrow> vec2" where
  "getTipPosition centerX centerY p =
     \<lparr> vx = centerX + cos (displayAngle p) * pt_length p * pt_scale p * pt_bloomProgress p,
       vy = centerY + sin (displayAngle p) * pt_length p * pt_scale p * pt_bloomProgress p \<rparr>"

definition Petal_containsPoint :: "real \<Rightarrow> real \<Rightarrow> real \<Rightarrow> real \<Rightarrow> petal \<Rightarrow> bool" where
  "Petal_containsPoint px py centerX centerY p =
     (if \<not> pt_visible p \<or> pt_bloomProgress p < 0.5 then False
      else
        let petalLength = pt_length p * pt_scale p * pt_bloomProgress p;
            dx = px - centerX;
            dy = py - centerY;
            distance = hypot dx dy
        in if distance > petalLength \<or> distance < pt_length p * 0.1 then False
           else
             let pointAngle = atan2 dy dx;
                 angleDiff0 = \<bar>pointAngle - displayAngle p\<bar>;
                 angleDiff = (if angleDiff0 > pi then pi * 2 - angleDiff0 else angleDiff0);
                 widthAtPoint = (pt_width p * (1 - distance / petalLength * 0.5)) / distance
             in angleDiff < widthAtPoint)"

definition Petal_setHovered :: "bool \<Rightarrow> real \<Rightarrow> petal \<Rightarrow> petal" where
  "Petal_setHovered hovered u p =
     (let p1 = p\<lparr> pt_isHovered := hovered \<rparr>
      in if hovered
         then p1\<lparr> pt_targetTilt := Utils_degToRad (Utils_randomRange u 2 PHYSICS_petalTiltMax),
                  pt_hueShift := 2 \<rparr>
         else p1\<lparr> pt_targetTilt := 0, pt_hueShift := 0 \<rparr>)"

definition Petal_triggerClick :: "real \<Rightarrow> petal \<Rightarrow> petal \<times> (real \<times> petal_timer) list" where
  "Petal_triggerClick u p =
     (let spinDirection = (if u > 0.5 then 1 else - 1)
      in (p\<lparr> pt_spinVelocity := Utils_degToRad PHYSICS_petalSpinAngle * spinDirection,
             pt_targetScale := 1.05 \<rparr>,
          [(200, ResetTargetScale)]))"

definition Petal_triggerRipple :: "real \<Rightarrow> petal \<Rightarrow> petal" where
  "Petal_triggerRipple u p =
     p\<lparr> pt_rippleActive := True, pt_rippleProgress := 0,
        pt_spinVelocity := Utils_degToRad 3 * (if u > 0.5 then 1 else - 1) \<rparr>"

definition Petal_triggerBloom :: "petal \<Rightarrow> petal \<times> (real \<times> petal_timer) list" where
  "Petal_triggerBloom p = (p\<lparr> pt_targetScale := PHYSICS_centerBloomScale \<rparr>, [(400, ResetTargetScale)])"

text \<open>
  \<open>update(deltaTime, wind)\<close>, block by block in source order, each block a function of
  its own; \<open>now\<close> is the \<open>performance.now()\<close> of the call. With \<open>wind\<close> undefined the
  read of \<open>wind.x\<close> throws, which only a visible petal reaches. \<open>Math.pow(b, e)\<close> with a
  positive base is \<open>b powr e\<close>.
\<close>

definition Petal_bloom_step :: "real \<Rightarrow> petal \<Rightarrow> petal" where
  "Petal_bloom_step dt p =
     (if pt_bloomProgress p < 1
      then
        let bloomSpeed = 0.8;
            p1 = p\<lparr> pt_bloomProgress := pt_bloomProgress p + dt * bloomSpeed \<rparr>;
            p2 = p1\<lparr> pt_bloomProgress := min 1 (pt_bloomProgress p1) \<rparr>
        in if pt_bloomProgress p2 \<ge> 0.85
           then
             let t = (pt_bloomProgress p2 - 0.85) / 0.15;
                 elastic = sin (t * pi * 2.5) * exp (- t * 3)
             in p2\<lparr> pt_scale := 1 + elastic * 0.08 \<rparr>
           else p2
      else p)"

text \<open>Wind force on the bend angle, and its spring-damper.\<close>

definition Petal_bend_step :: "real \<Rightarrow> real \<Rightarrow> vec2 \<Rightarrow> petal \<Rightarrow> petal" where
  "Petal_bend_step dt time wnd p =
     (let windForce = vx wnd * 0.08 + vy wnd * 0.02;
          targetBend = windForce * (1 + sin (time * pt_naturalFreq p + pt_phase p) * 0.3);
          bendSpring = (targetBend - pt_bendAngle p) * pt_bendStiffness p;
          bendDamp = - pt_bendVelocity p * pt_tiltDamping p;
          p1 = p\<lparr> pt_bendVelocity := pt_bendVelocity p + (bendSpring + bendDamp) * dt * 60 \<rparr>
      in p1\<lparr> pt_bendAngle := pt_bendAngle p1 + pt_bendVelocity p1 * dt * 60 \<rparr>)"

text \<open>Natural micro-sway, and the combination of the angle components.\<close>

definition Petal_angle_step :: "real \<Rightarrow> petal \<Rightarrow> petal" where
  "Petal_angle_step time p =
     (let naturalSway = sin (time * pt_naturalFreq p * 0.3 + pt_phase p) * 0.008
      in p\<lparr> pt_angle := pt_baseAngle p + pt_bendAngle p + naturalSway \<rparr>)"

text \<open>Tilt spring-damper and hover vibration.\<close>

definition Petal_tilt_step :: "real \<Rightarrow> petal \<Rightarrow> petal" where
  "Petal_tilt_step dt p =
     (let tiltSpring = (pt_targetTilt p - pt_tiltAngle p) * pt_tiltStiffness p;
          tiltDamp = - pt_tiltVelocity p * pt_tiltDamping p;
          p1 = p\<lparr> pt_tiltVelocity := pt_tiltVelocity p + (tiltSpring + tiltDamp) * dt * 60 \<rparr>;
          p2 = p1\<lparr> pt_tiltAngle := pt_tiltAngle p1 + pt_tiltVelocity p1 * dt * 60 \<rparr>
      in if pt_isHovered p2
         then
           let p3 = p2\<lparr> pt_vibrationPhase := pt_vibrationPhase p2 + dt * 25 \<rparr>
           in p3\<lparr> pt_tiltAngle := pt_tiltAngle p3 + sin (pt_vibrationPhase p3) * 0.005 \<rparr>
         else p2)"

text \<open>Spin with damping, and the spring back to zero.\<close>

definition Petal_spin_step :: "real \<Rightarrow> petal \<Rightarrow> petal" where
  "Petal_spin_step dt p =
     (let p1 = p\<lparr> pt_spinAngle := pt_spinAngle p + pt_spinVelocity p * dt * 60 \<rparr>;
          p2 = p1\<lparr> pt_spinVelocity := pt_spinVelocity p1 * (pt_spinDamping p1 powr (dt * 60)) \<rparr>;
          spinReturn = - pt_spinAngle p2 * 0.05
      in p2\<lparr> pt_spinVelocity := pt_spinVelocity p2 + spinReturn * dt * 60 \<rparr>)"

text \<open>Scale spring.\<close>

definition Petal_scale_step :: "real \<Rightarrow> petal \<Rightarrow> petal" where
  "Petal_scale_step dt p =
     (let scaleDiff = pt_targetScale p - pt_scale p;
          p1 = p\<lparr> pt_scaleVelocity := pt_scaleVelocity p + scaleDiff * 0.15 * dt * 60 \<rparr>;
          p2 = p1\<lparr> pt_scaleVelocity := pt_scaleVelocity p1 * 0.85 \<rparr>
      in p2\<lparr> pt_scale := pt_scale p2 + pt_scaleVelocity p2 * dt * 60 \<rparr>)"

text \<open>Glow intensity.\<close>

definition Petal_glow_step :: "petal \<Rightarrow> petal" where
  "Petal_glow_step p =
     (let targetGlow = (if pt_isHovered p then 0.7 else 0)
      in p\<lparr> pt_glowIntensity := pt_glowIntensity p + (targetGlow - pt_glowIntensity p) * 0.08 \<rparr>)"

text \<open>Ripple effect with decay.\<close>

definition Petal_ripple_step :: "real \<Rightarrow> petal \<Rightarrow> petal" where
  "Petal_ripple_step dt p =
     (if pt_rippleActive p
      then
        let p1 = p\<lparr> pt_rippleProgress := pt_rippleProgress p + dt * 4 \<rparr>;
            p2 = p1\<lparr> pt_rippleIntensity :=
                       sin (pt_rippleProgress p1 * pi) * (1 - pt_rippleProgress p1) \<rparr>
        in if pt_rippleProgress p2 \<ge> 1
           then p2\<lparr> pt_rippleActive := False, pt_rippleProgress := 0, pt_rippleIntensity := 0 \<rparr>
           else p2
      else p)"

definition Petal_update :: "real \<Rightarrow> vec2 option \<Rightarrow> real \<Rightarrow> petal \<Rightarrow> js_error + petal" where
  "Petal_update deltaTime wind now p =
     (if \<not> pt_visible p then Inr p
      else
        let dt = deltaTime * 0.001;
            time = now * 0.001;
            p1 = Petal_bloom_step dt p
        in case wind of
             None \<Rightarrow> Inl TypeError
           | Some wnd \<Rightarrow>
               Inr (Petal_ripple_step dt
                     (Petal_glow_step
                       (Petal_scale_step dt
                         (Petal_spin_step dt
                           (Petal_tilt_step dt
                             (Petal_angle_step time
                               (Petal_bend_step dt time wnd p1))))))))"


text \<open>
  The canvas calls of \<open>draw\<close>, in call order. A colour \<open>hsl(h, s%, l%)\<close> is its three
  numbers and a colour \<open>rgba(r, g, b, a)\<close> its four; \<open>FillStyleGradient\<close> assigns the
  gradient just created to \<open>fillStyle\<close>.
\<close>

datatype canvas_call =
    Save
  | Restore
  | Translate real real
  | Rotate real
  | BeginPath
  | MoveTo real real
  | LineTo real real
  | BezierCurveTo real real real real real real
  | CreateLinearGradient real real real real
  | AddColorStop real real real real
  | FillStyleGradient
  | Fill
  | Stroke
  | ShadowColor real real real real
  | ShadowBlur real
  | ShadowOffsetY real
  | StrokeStyle real real real real
  | LineWidth real

text \<open>
  \<open>draw(ctx, centerX, centerY)\<close> writes no field of the petal: it is the list of its
  canvas calls. The canvas is rotated by the display angle and then by the tilt angle.
\<close>

definition Petal_draw :: "real \<Rightarrow> real \<Rightarrow> petal \<Rightarrow> canvas_call list" where
  "Petal_draw centerX centerY p =
     (if \<not> pt_visible p \<or> pt_bloomProgress p \<le> 0 then []
      else
        let currentLength = pt_length p * pt_scale p * pt_bloomProgress p;
            currentWidth = pt_width p * pt_scale p * pt_bloomProgress p;
            baseHue = 50 + pt_hueOffset p + pt_hueShift p;
            baseSat = 5;
            baseLit = 98
        in [Save, Translate centerX centerY, Rotate (displayAngle p), Rotate (pt_tiltAngle p),
            BeginPath, MoveTo 0 0,
            BezierCurveTo (currentLength * 0.3) (- currentWidth * 0.8)
                          (currentLength * 0.7) (- currentWidth * 0.6) currentLength 0,
            BezierCurveTo (currentLength * 0.7) (currentWidth * 0.6)
                          (currentLength * 0.3) (currentWidth * 0.8) 0 0,
            CreateLinearGradient 0 0 currentLength 0,
            AddColorStop 0 baseHue (baseSat + 10) (baseLit - 5),
            AddColorStop 0.3 baseHue baseSat baseLit,
            AddColorStop 0.7 baseHue baseSat baseLit,
            AddColorStop 1 baseHue (baseSat + 5) (baseLit - 2),
            FillStyleGradient, Fill,
            ShadowColor 0 0 0 0.05, ShadowBlur 3, ShadowOffsetY 2] @
           (if pt_glowIntensity p > 0.01
            then [StrokeStyle 255 250 220 (pt_glowIntensity p), LineWidth 2, Stroke,
                  ShadowColor 255 240 180 (pt_glowIntensity p * 0.5), ShadowBlur 10, Stroke]
            else []) @
           [BeginPath, MoveTo (currentLength * 0.1) 0, LineTo (currentLength * 0.85) 0,
            StrokeStyle 200 190 160 0.2, LineWidth 0.5, ShadowBlur 0, Stroke, Restore])"

text \<open>
  One operation on a petal: a method of \<open>Petal\<close> that writes a field, a timer that one of
  them set, or the assignment to \<open>bendStiffness\<close> that \<open>PetalManager.setCuriositySide\<close> and
  \<open>resetCuriosity\<close> make. (\<open>getTipPosition\<close>, \<open>containsPoint\<close> and \<open>draw\<close> write nothing.)
\<close>

inductive petal_op :: "petal \<Rightarrow> petal \<Rightarrow> bool" where
  op_startBloom: "petal_op p (fst (Petal_startBloom delay p))"
| op_timer: "petal_op p (Petal_timer t p)"
| op_setHovered: "petal_op p (Petal_setHovered hovered u p)"
| op_triggerClick: "petal_op p (fst (Petal_triggerClick u p))"
| op_triggerRipple: "petal_op p (Petal_triggerRipple u p)"
| op_triggerBloom: "petal_op p (fst (Petal_triggerBloom p))"
| op_update: "Petal_update deltaTime wind now p = Inr p' \<Longrightarrow> petal_op p p'"
| op_bendStiffness: "petal_op p (p\<lparr> pt_bendStiffness := k \<rparr>)"
section \<open>PetalManager (PetalModule.js)\<close>

text \<open>
  \<open>hoveredPetal\<close> holds a petal object of the \<open>petals\<close> array or \<open>null\<close>; the object is
  named by its place in the array, which never changes after construction.
\<close>

record petal_manager =
  pm_centerX :: real
  pm_centerY :: real
  pm_radius :: real
  pm_petals :: "petal list"
  pm_petalCount :: nat
  pm_hoveredPetal :: "nat option"
  pm_lastClickedIndex :: int

definition PetalManager_new :: "real \<Rightarrow> real \<Rightarrow> real \<Rightarrow> (nat \<Rightarrow> petal_draws) \<Rightarrow> petal_manager" where
  "PetalManager_new centerX centerY radius draws =
     \<lparr> pm_centerX = centerX, pm_centerY = centerY, pm_radius = radius,
       pm_petals = map (\<lambda>i. Petal_new i PHYSICS_petalCount centerX centerY radius (draws i))
                     [0..<PHYSICS_petalCount],
       pm_petalCount = PHYSICS_petalCount,
       pm_hoveredPetal = None,
       pm_lastClickedIndex = - 1 \<rparr>"

definition updatePosition :: "real \<Rightarrow> real \<Rightarrow> petal_manager \<Rightarrow> petal_manager" where
  "updatePosition centerX centerY m = m\<lparr> pm_centerX := centerX, pm_centerY := centerY \<rparr>"

datatype manager_timer =
    PetalTimer nat petal_timer
  | RippleNeighbor int int
  | RippleSecond int int

text \<open>\<open>startBloom\<close>: \<open>u i\<close> is the draw made for petal \<open>i\<close>.\<close>

definition PetalManager_startBloom ::
  "(nat \<Rightarrow> real) \<Rightarrow> petal_manager \<Rightarrow> petal_manager \<times> (real \<times> manager_timer) list" where
  "PetalManager_startBloom u m =
     (let baseDelay = 50; randomOffset = 30
      in (m, concat (map (\<lambda>i. let delay = real i * baseDelay + Utils_randomRange (u i) 0 randomOffset
                                in map (\<lambda>(d, t). (d, PetalTimer i t))
                                     (snd (Petal_startBloom delay (pm_petals m ! i))))
                      [0..<length (pm_petals m)])))"

text \<open>The loop of \<open>getPetalAtPoint\<close>, from the last petal down to the first.\<close>

fun petal_scan :: "nat \<Rightarrow> real \<Rightarrow> real \<Rightarrow> petal_manager \<Rightarrow> nat option" where
  "petal_scan 0 x y m = None"
| "petal_scan (Suc i) x y m =
     (if Petal_containsPoint x y (pm_centerX m) (pm_centerY m) (pm_petals m ! i)
      then Some i else petal_scan i x y m)"

definition getPetalAtPoint :: "real \<Rightarrow> real \<Rightarrow> petal_manager \<Rightarrow> nat option" where
  "getPetalAtPoint x y m = petal_scan (length (pm_petals m)) x y m"

text \<open>
  \<open>handleHover\<close> returns the manager, the petal hit and the \<open>setHovered\<close> calls it made
  (petal and argument), in call order. \<open>u\<close> is the draw of \<open>setHovered(true)\<close>.
\<close>

definition handleHover ::
  "real \<Rightarrow> real \<Rightarrow> real \<Rightarrow> petal_manager \<Rightarrow> petal_manager \<times> nat option \<times> (nat \<times> bool) list" where
  "handleHover x y u m =
     (let petal = getPetalAtPoint x y m
      in if pm_hoveredPetal m \<noteq> petal
         then
           let (m1, calls1) =
                 (case pm_hoveredPetal m of
                    Some h \<Rightarrow> (m\<lparr> pm_petals := (pm_petals m)[h := Petal_setHovered False u (pm_petals m ! h)] \<rparr>,
                               [(h, False)])
                  | None \<Rightarrow> (m, []));
               (m2, calls2) =
                 (case petal of
                    Some k \<Rightarrow> (m1\<lparr> pm_petals := (pm_petals m1)[k := Petal_setHovered True u (pm_petals m1 ! k)] \<rparr>,
                               [(k, True)])
                  | None \<Rightarrow> (m1, []))
           in (m2\<lparr> pm_hoveredPetal := petal \<rparr>, petal, calls1 @ calls2)
         else (m, petal, []))"

text \<open>
  \<open>triggerRipple(sourceIndex)\<close>: one timer per direction, direction \<open>-1\<close> with
  \<open>delays[0]\<close> and direction \<open>1\<close> with \<open>delays[1]\<close>.
\<close>

definition PetalManager_triggerRipple :: "int \<Rightarrow> petal_manager \<Rightarrow> (real \<times> manager_timer) list" where
  "PetalManager_triggerRipple sourceIndex m =
     (let delays = [TIMING_rippleDelay, TIMING_rippleDelay * 2]
      in map (\<lambda>(direction, i). (delays ! i, RippleNeighbor sourceIndex direction))
           (zip [- 1, 1] [0..<2]))"

definition handleClick ::
  "real \<Rightarrow> real \<Rightarrow> real \<Rightarrow> petal_manager
     \<Rightarrow> petal_manager \<times> nat option \<times> (real \<times> manager_timer) list" where
  "handleClick x y u m =
     (case getPetalAtPoint x y m of
        Some k \<Rightarrow>
          let (p', t1) = Petal_triggerClick u (pm_petals m ! k);
              m1 = m\<lparr> pm_petals := (pm_petals m)[k := p'] \<rparr>;
              m2 = m1\<lparr> pm_lastClickedIndex := int (pt_index p') \<rparr>;
              t2 = PetalManager_triggerRipple (int (pt_index p')) m2
          in (m2, Some k, map (\<lambda>(d, t). (d, PetalTimer k t)) t1 @ t2)
      | None \<Rightarrow> (m, None, []))"

text \<open>\<open>this.petals[i].triggerRipple()\<close>: an index outside the array throws.\<close>

definition ripple_at :: "int \<Rightarrow> real \<Rightarrow> petal_manager \<Rightarrow> js_error + petal_manager" where
  "ripple_at i u m =
     (if 0 \<le> i \<and> nat i < length (pm_petals m)
      then Inr (m\<lparr> pm_petals := (pm_petals m)[nat i := Petal_triggerRipple u (pm_petals m ! nat i)] \<rparr>)
      else Inl TypeError)"

text \<open>
  What a timer does when it fires; \<open>u\<close> is the draw of \<open>triggerRipple()\<close>. The first-level
  ripple timer sets the second-level one.
\<close>

fun PetalManager_timer ::
  "manager_timer \<Rightarrow> real \<Rightarrow> petal_manager \<Rightarrow> js_error + (petal_manager \<times> (real \<times> manager_timer) list)" where
  "PetalManager_timer (PetalTimer k t) u m =
     Inr (m\<lparr> pm_petals := (pm_petals m)[k := Petal_timer t (pm_petals m ! k)] \<rparr>, [])"
| "PetalManager_timer (RippleNeighbor sourceIndex direction) u m =
     (case js_rem (sourceIndex + direction + int (pm_petalCount m)) (int (pm_petalCount m)) of
        None \<Rightarrow> Inl TypeError
      | Some neighborIndex \<Rightarrow>
          (case ripple_at neighborIndex u m of
             Inl e \<Rightarrow> Inl e
           | Inr m1 \<Rightarrow> Inr (m1, [(TIMING_rippleDelay, RippleSecond neighborIndex direction)])))"
| "PetalManager_timer (RippleSecond neighborIndex direction) u m =
     (case js_rem (neighborIndex + direction + int (pm_petalCount m)) (int (pm_petalCount m)) of
        None \<Rightarrow> Inl TypeError
      | Some neighbor2Index \<Rightarrow>
          (case ripple_at neighbor2Index u m of
             Inl e \<Rightarrow> Inl e
           | Inr m1 \<Rightarrow> Inr (m1, [])))"

definition triggerAllBloom :: "petal_manager \<Rightarrow> petal_manager \<times> (real \<times> manager_timer) list" where
  "triggerAllBloom m =
     (m\<lparr> pm_petals := map (\<lambda>p. fst (Petal_triggerBloom p)) (pm_petals m) \<rparr>,
      concat (map (\<lambda>i. map (\<lambda>(d, t). (d, PetalTimer i t)) (snd (Petal_triggerBloom (pm_petals m ! i))))
                [0..<length (pm_petals m)]))"

definition setCuriositySide :: "real \<Rightarrow> petal_manager \<Rightarrow> petal_manager" where
  "setCuriositySide angle m =
     m\<lparr> pm_petals :=
          map (\<lambda>petal.
                 let angleDiff0 = \<bar>pt_baseAngle petal - angle\<bar>;
                     angleDiff = (if angleDiff0 > pi then pi * 2 - angleDiff0 else angleDiff0)
                 in petal\<lparr> pt_bendStiffness := (if angleDiff < pi / 2 then 1.5 else 1) \<rparr>)
              (pm_petals m) \<rparr>"

text \<open>\<open>resetCuriosity\<close>: \<open>u i\<close> is the draw made for petal \<open>i\<close>.\<close>

definition resetCuriosity :: "(nat \<Rightarrow> real) \<Rightarrow> petal_manager \<Rightarrow> petal_manager" where
  "resetCuriosity u m =
     m\<lparr> pm_petals :=
          map (\<lambda>i. (pm_petals m ! i)\<lparr> pt_bendStiffness := Utils_randomRange (u i) 0.8 1.2 \<rparr>)
              [0..<length (pm_petals m)] \<rparr>"

text \<open>\<open>update\<close>: every petal in turn, \<open>now i\<close> the clock reading of petal \<open>i\<close>; a throw ends it.\<close>

definition PetalManager_update ::
  "real \<Rightarrow> vec2 option \<Rightarrow> (nat \<Rightarrow> real) \<Rightarrow> petal_manager \<Rightarrow> js_error + petal_manager" where
  "PetalManager_update deltaTime wind now m =
     (let rs = map (\<lambda>i. Petal_update deltaTime wind (now i) (pm_petals m ! i))
                 [0..<length (pm_petals m)]
      in if list_ex isl rs then Inl TypeError
         else Inr (m\<lparr> pm_petals := map projr rs \<rparr>))"

text \<open>
  The branch of \<open>DaisyFlower.handleHover\<close> taken over the flower centre: it unhovers the
  hovered petal and clears the field itself.
\<close>

definition DaisyFlower_clearPetalHover :: "real \<Rightarrow> petal_manager \<Rightarrow> petal_manager" where
  "DaisyFlower_clearPetalHover u m =
     (case pm_hoveredPetal m of
        Some h \<Rightarrow> m\<lparr> pm_petals := (pm_petals m)[h := Petal_setHovered False u (pm_petals m ! h)],
                      pm_hoveredPetal := None \<rparr>
      | None \<Rightarrow> m)"

text \<open>
  The managers that the operations can produce from a new one, and the relation between
  the \<open>isHovered\<close> flags and the \<open>hoveredPetal\<close> field that they all keep.
\<close>

inductive pm_reachable :: "petal_manager \<Rightarrow> bool" where
  reach_new: "pm_reachable (PetalManager_new centerX centerY radius draws)"
| reach_position: "pm_reachable m \<Longrightarrow> pm_reachable (updatePosition centerX centerY m)"
| reach_hover: "pm_reachable m \<Longrightarrow> pm_reachable (fst (handleHover x y u m))"
| reach_click: "pm_reachable m \<Longrightarrow> pm_reachable (fst (handleClick x y u m))"
| reach_timer: "pm_reachable m \<Longrightarrow> PetalManager_timer t u m = Inr (m', ts) \<Longrightarrow> pm_reachable m'"
| reach_bloom: "pm_reachable m \<Longrightarrow> pm_reachable (fst (triggerAllBloom m))"
| reach_curiosity: "pm_reachable m \<Longrightarrow> pm_reachable (setCuriositySide angle m)"
| reach_reset: "pm_reachable m \<Longrightarrow> pm_reachable (resetCuriosity us m)"
| reach_update: "pm_reachable m \<Longrightarrow> PetalManager_update deltaTime wind now m = Inr m' \<Longrightarrow> pm_reachable m'"
| reach_clear: "pm_reachable m \<Longrightarrow> pm_reachable (DaisyFlower_clearPetalHover u m)"

definition hover_consistent :: "petal_manager \<Rightarrow> bool" where
  "hover_consistent m \<longleftrightarrow>
     list_all (\<lambda>i. pt_isHovered (pm_petals m ! i) = (pm_hoveredPetal m = Some i))
       [0..<length (pm_petals m)] \<and>
     (case pm_hoveredPetal m of None \<Rightarrow> True | Some h \<Rightarrow> h < length (pm_petals m))"

text \<open>The \<open>setHovered\<close> calls that a change of the hovered petal from \<open>old\<close> to \<open>new\<close> makes.\<close>

definition hover_calls :: "nat option \<Rightarrow> nat option \<Rightarrow> (nat \<times> bool) list" where
  "hover_calls old new =
     (if old = new then []
      else (case old of None \<Rightarrow> [] | Some h \<Rightarrow> [(h, False)]) @
           (case new of None \<Rightarrow> [] | Some k \<Rightarrow> [(k, True)]))"

text \<open>
  An example state: a new manager at the origin with radius 100 and every draw 0.5, after
  the bloom timer of petal 0 has fired and one update of 1000 ms in still air at clock
  1000.
\<close>

definition demo_draws :: petal_draws where
  "demo_draws = \<lparr> u_hueOffset = 0.5, u_lengthVariation = 0.5, u_widthVariation = 0.5,
                  u_phase = 0.5, u_naturalFreq = 0.5, u_tiltStiffness = 0.5,
                  u_bendStiffness = 0.5 \<rparr>"

definition demo_manager :: petal_manager where
  "demo_manager =
     projr (PetalManager_update 1000 (Some \<lparr> vx = 0, vy = 0 \<rparr>) (\<lambda>i. 1000)
       (fst (projr (PetalManager_timer (PetalTimer 0 SetVisible) 0
          (PetalManager_new 0 0 100 (\<lambda>i. demo_draws))))))"

text \<open>
  One operation on a manager: a method of \<open>PetalManager\<close> that writes a field of the
  manager or of a petal, a timer that one of them set, or the clearing of the hover that
  \<open>DaisyFlower.handleHover\<close> makes. (\<open>getPetalAtPoint\<close> and \<open>draw\<close> write nothing.)
\<close>

inductive pm_op :: "petal_manager \<Rightarrow> petal_manager \<Rightarrow> bool" where
  pm_position: "pm_op m (updatePosition centerX centerY m)"
| pm_startBloom: "pm_op m (fst (PetalManager_startBloom us m))"
| pm_hover: "pm_op m (fst (handleHover x y u m))"
| pm_click: "pm_op m (fst (handleClick x y u m))"
| pm_timer: "PetalManager_timer t u m = Inr (m', ts) \<Longrightarrow> pm_op m m'"
| pm_bloom: "pm_op m (fst (triggerAllBloom m))"
| pm_curiosity: "pm_op m (setCuriositySide angle m)"
| pm_reset: "pm_op m (resetCuriosity us m)"
| pm_update: "PetalManager_update deltaTime wind now m = Inr m' \<Longrightarrow> pm_op m m'"
| pm_clear: "pm_op m (DaisyFlower_clearPetalHover u m)"

text \<open>
  \<open>DaisyFlower.setCuriositySide(cursorX, cursorY)\<close>, the only caller of
  \<open>PetalManager.setCuriositySide\<close>, for a flower at \<open>(flowerX, flowerY)\<close> that has its
  petal manager: the angle it passes is an \<open>atan2\<close>, between \<open>-\<pi>\<close> and \<open>\<pi>\<close>.
\<close>

definition DaisyFlower_setCuriositySide ::
  "real \<Rightarrow> real \<Rightarrow> real \<Rightarrow> real \<Rightarrow> petal_manager \<Rightarrow> petal_manager" where
  "DaisyFlower_setCuriositySide cursorX cursorY flowerX flowerY m =
     (let angle = atan2 (cursorY - flowerY) (cursorX - flowerX)
      in setCuriositySide angle m)"

text \<open>
  What the constructor sets and every operation keeps: 36 petals, each holding its own
  place in the array as \<open>index\<close>.
\<close>

definition indexed_ok :: "petal_manager \<Rightarrow> bool" where
  "indexed_ok m \<longleftrightarrow>
     pm_petalCount m = PHYSICS_petalCount \<and> length (pm_petals m) = PHYSICS_petalCount \<and>
     list_all (\<lambda>i. pt_index (pm_petals m ! i) = i) [0..<length (pm_petals m)]"

text \<open>
  A flower at full bloom and at rest: a new manager at the origin with radius 100, every
  draw 0.5 except the length draw of petal 35 (0.75, so that petal 35 is the longer one),
  every petal visible with bloom progress 1, scale 1, no bend and no spin.
\<close>

definition bloom_draws :: "nat \<Rightarrow> petal_draws" where
  "bloom_draws i = demo_draws\<lparr> u_lengthVariation := (if i = 35 then 0.75 else 0.5) \<rparr>"

definition full_bloom_manager :: petal_manager where
  "full_bloom_manager =
     (let m = PetalManager_new 0 0 100 bloom_draws
      in m\<lparr> pm_petals := map (\<lambda>p. p\<lparr> pt_visible := True, pt_bloomProgress := 1 \<rparr>) (pm_petals m) \<rparr>)"

section \<open>Stem (Stem.js)\<close>

record segment =
  sg_x :: real
  sg_y :: real
  sg_prevX :: real
  sg_prevY :: real
  sg_velocityX :: real
  sg_velocityY :: real
  sg_flexibility :: real

record leaf =
  lf_segmentIndex :: nat
  lf_size :: real
  lf_baseAngle :: real
  lf_angle :: real
  lf_angleVelocity :: real
  lf_unfold :: real
  lf_side :: real

record stem =
  st_baseX :: real
  st_baseY :: real
  st_height :: real
  st_segmentCount :: nat
  st_segments :: "segment list"
  st_stiffness :: real
  st_damping :: real
  st_gravity :: real
  st_windResponse :: real
  st_angle :: real
  st_angularVelocity :: real
  st_secondaryWave :: real
  st_waveSpeed :: real
  st_leaves :: "leaf list"
  st_growthProgress :: real
  st_visible :: bool
  st_slowMoActive :: bool
  st_slowMoProgress :: real

definition initSegments :: "real \<Rightarrow> nat \<Rightarrow> segment list" where
  "initSegments height segmentCount =
     (let segmentHeight = height / real segmentCount
      in map (\<lambda>i. \<lparr> sg_x = 0, sg_y = - real i * segmentHeight,
                     sg_prevX = 0, sg_prevY = - real i * segmentHeight,
                     sg_velocityX = 0, sg_velocityY = 0,
                     sg_flexibility = 0.3 + (real i / real segmentCount) * 0.7 \<rparr>)
           [0..<segmentCount + 1])"

definition Stem_new :: "real \<Rightarrow> real \<Rightarrow> real \<Rightarrow> stem" where
  "Stem_new baseX baseY height =
     \<lparr> st_baseX = baseX, st_baseY = baseY, st_height = height,
       st_segmentCount = 8,
       st_segments = initSegments height 8,
       st_stiffness = 0.4, st_damping = 0.88, st_gravity = 0.01, st_windResponse = 0.15,
       st_angle = 0, st_angularVelocity = 0,
       st_secondaryWave = 0, st_waveSpeed = 2.5,
       st_leaves =
         [\<lparr> lf_segmentIndex = 2, lf_size = 18, lf_baseAngle = - 0.5, lf_angle = - 0.5,
            lf_angleVelocity = 0, lf_unfold = 0, lf_side = - 1 \<rparr>,
          \<lparr> lf_segmentIndex = 4, lf_size = 14, lf_baseAngle = 0.6, lf_angle = 0.6,
            lf_angleVelocity = 0, lf_unfold = 0, lf_side = 1 \<rparr>,
          \<lparr> lf_segmentIndex = 5, lf_size = 10, lf_baseAngle = - 0.4, lf_angle = - 0.4,
            lf_angleVelocity = 0, lf_unfold = 0, lf_side = - 1 \<rparr>],
       st_growthProgress = 0, st_visible = False,
       st_slowMoActive = False, st_slowMoProgress = 0 \<rparr>"

definition startGrowth :: "stem \<Rightarrow> stem" where
  "startGrowth s = s\<lparr> st_visible := True, st_growthProgress := 0 \<rparr>"

text \<open>Sequencing of steps that can throw.\<close>

definition bind_js :: "js_error + 'a \<Rightarrow> ('a \<Rightarrow> js_error + 'b) \<Rightarrow> js_error + 'b" where
  "bind_js r f = (case r of Inl e \<Rightarrow> Inl e | Inr v \<Rightarrow> f v)"

text \<open>A \<open>for\<close> loop over the indices \<open>is\<close> whose body can throw.\<close>

fun for_indices :: "(nat \<Rightarrow> 'a \<Rightarrow> js_error + 'a) \<Rightarrow> nat list \<Rightarrow> 'a \<Rightarrow> js_error + 'a" where
  "for_indices body [] a = Inr a"
| "for_indices body (i # is) a = bind_js (body i a) (for_indices body is)"

text \<open>Reading a field of \<open>this.segments[i]\<close>: an index outside the array throws.\<close>

definition segment_at :: "segment list \<Rightarrow> nat \<Rightarrow> js_error + segment" where
  "segment_at segs i = (if i < length segs then Inr (segs ! i) else Inl TypeError)"

text \<open>The same with an index that may be negative, which is outside the array too.\<close>

definition segment_at_int :: "segment list \<Rightarrow> int \<Rightarrow> js_error + segment" where
  "segment_at_int segs i = (if 0 \<le> i then segment_at segs (nat i) else Inl TypeError)"

text \<open>The growth block: progress and the unfolding of the leaves.\<close>

definition Stem_growth_step :: "real \<Rightarrow> stem \<Rightarrow> stem" where
  "Stem_growth_step dt s =
     (if st_growthProgress s < 1
      then
        let growthSpeed = 0.35;
            s1 = s\<lparr> st_growthProgress := st_growthProgress s + dt * growthSpeed \<rparr>;
            s2 = s1\<lparr> st_growthProgress := min 1 (st_growthProgress s1) \<rparr>
        in s2\<lparr> st_leaves :=
                 map (\<lambda>leaf.
                        let threshold = 0.3 + (real (lf_segmentIndex leaf) / real (st_segmentCount s2)) * 0.4
                        in if st_growthProgress s2 > threshold
                           then
                             let unfoldProgress = (st_growthProgress s2 - threshold) / 0.25
                             in leaf\<lparr> lf_unfold := Easing_cubicOut (min 1 unfoldProgress) \<rparr>
                           else leaf)
                     (st_leaves s2) \<rparr>
      else s)"

definition Stem_slowMo_step :: "real \<Rightarrow> stem \<Rightarrow> stem" where
  "Stem_slowMo_step dt s =
     (if st_slowMoActive s
      then
        let s1 = s\<lparr> st_slowMoProgress := st_slowMoProgress s + dt \<rparr>
        in if st_slowMoProgress s1 > 3
           then s1\<lparr> st_slowMoActive := False, st_slowMoProgress := 0 \<rparr>
           else s1
      else s)"

text \<open>The body of the force loop for segment \<open>i\<close>.\<close>

definition Stem_force_body :: "real \<Rightarrow> real \<Rightarrow> vec2 option \<Rightarrow> stem \<Rightarrow> nat \<Rightarrow> segment list
    \<Rightarrow> js_error + segment list" where
  "Stem_force_body dt time wind s i segs =
     (case wind of
        None \<Rightarrow> Inl TypeError
      | Some wnd \<Rightarrow>
          bind_js (segment_at segs i) (\<lambda>seg.
            let heightRatio = real i / real (st_segmentCount s);
                windForce = vx wnd * st_windResponse s * sg_flexibility seg;
                windForceY = vy wnd * st_windResponse s * 0.3;
                swayPhase = time * 1.2 + real i * 0.3;
                naturalSway = sin swayPhase * 0.3 * sg_flexibility seg;
                slowMoForce =
                  (if st_slowMoActive s
                   then
                     let envelope = exp (- st_slowMoProgress s * 0.8)
                     in sin (st_slowMoProgress s * 4) * envelope * 3 * heightRatio
                   else 0);
                vx' = (sg_x seg - sg_prevX seg) * st_damping s;
                vy' = (sg_y seg - sg_prevY seg) * st_damping s;
                seg1 = seg\<lparr> sg_prevX := sg_x seg, sg_prevY := sg_y seg \<rparr>;
                seg2 = seg1\<lparr> sg_x := sg_x seg1 + (vx' + (windForce + naturalSway + slowMoForce) * dt * 60) \<rparr>;
                seg3 = seg2\<lparr> sg_y := sg_y seg2 + (vy' + (windForceY - st_gravity s) * dt * 60) \<rparr>
            in Inr (segs[i := seg3])))"

text \<open>The body of the constraint loop for segment \<open>i\<close>; \<open>Math.sqrt(\<dots>) || 0.001\<close>.\<close>

definition Stem_constraint_body :: "real \<Rightarrow> stem \<Rightarrow> nat \<Rightarrow> segment list \<Rightarrow> js_error + segment list" where
  "Stem_constraint_body segmentLength s i segs =
     bind_js (segment_at segs i) (\<lambda>seg.
     bind_js (segment_at segs (i - 1)) (\<lambda>prevSeg.
       let dx = sg_x seg - sg_x prevSeg;
           dy = sg_y seg - sg_y prevSeg;
           d0 = sqrt (dx * dx + dy * dy);
           distance = (if d0 = 0 then 0.001 else d0);
           diff = (segmentLength - distance) / distance;
           offsetX = dx * diff * 0.5;
           offsetY = dy * diff * 0.5;
           seg1 = (if i > 0
                   then seg\<lparr> sg_x := sg_x seg + offsetX * st_stiffness s,
                             sg_y := sg_y seg + offsetY * st_stiffness s \<rparr>
                   else seg);
           uprightForce = - sg_x seg1 * 0.02 * (1 - sg_flexibility seg1 * 0.5);
           seg2 = seg1\<lparr> sg_x := sg_x seg1 + uprightForce \<rparr>
       in Inr (segs[i := seg2])))"

text \<open>The leaf physics of one leaf.\<close>

definition Stem_leaf_body :: "stem \<Rightarrow> int \<Rightarrow> leaf \<Rightarrow> js_error + leaf" where
  "Stem_leaf_body s activeSegments lf =
     (if lf_unfold lf \<le> 0 then Inr lf
      else
        bind_js (segment_at_int (st_segments s) (min (int (lf_segmentIndex lf)) activeSegments)) (\<lambda>seg.
          let segVelocity = sg_x seg - sg_prevX seg;
              targetAngle = lf_baseAngle lf + segVelocity * 0.5 + st_secondaryWave s * lf_side lf;
              angleDiff = targetAngle - lf_angle lf;
              l1 = lf\<lparr> lf_angleVelocity := lf_angleVelocity lf + angleDiff * 0.15 \<rparr>;
              l2 = l1\<lparr> lf_angleVelocity := lf_angleVelocity l1 * 0.85 \<rparr>
          in Inr (l2\<lparr> lf_angle := lf_angle l2 + lf_angleVelocity l2 \<rparr>)))"

fun map_js :: "('a \<Rightarrow> js_error + 'b) \<Rightarrow> 'a list \<Rightarrow> js_error + 'b list" where
  "map_js f [] = Inr []"
| "map_js f (x # xs) = bind_js (f x) (\<lambda>y. bind_js (map_js f xs) (\<lambda>ys. Inr (y # ys)))"

text \<open>
  \<open>update(deltaTime, wind)\<close>; \<open>now\<close> is its \<open>performance.now()\<close>. The number of active
  segments is \<open>Math.ceil(segmentCount * growthProgress)\<close>; the loops run over
  \<open>1..activeSegments\<close>, the constraint loop three times.
\<close>

definition Stem_update :: "real \<Rightarrow> vec2 option \<Rightarrow> real \<Rightarrow> stem \<Rightarrow> js_error + stem" where
  "Stem_update deltaTime wind now s =
     (if \<not> st_visible s then Inr s
      else
        let dt = deltaTime * 0.001;
            time = now * 0.001;
            s1 = Stem_growth_step dt s;
            s2 = s1\<lparr> st_secondaryWave := sin (time * st_waveSpeed s1) * 0.02 \<rparr>;
            s3 = Stem_slowMo_step dt s2;
            activeSegments = \<lceil>real (st_segmentCount s3) * st_growthProgress s3\<rceil>;
            loop = [1..<nat activeSegments + 1];
            segmentLength = st_height s3 / real (st_segmentCount s3)
        in bind_js (for_indices (Stem_force_body dt time wind s3) loop (st_segments s3)) (\<lambda>segs1.
           bind_js (for_indices (Stem_constraint_body segmentLength s3) (loop @ loop @ loop) segs1) (\<lambda>segs2.
           bind_js (segment_at segs2 0) (\<lambda>seg0.
             let segs3 = segs2[0 := seg0\<lparr> sg_x := 0, sg_y := 0 \<rparr>]
             in bind_js (segment_at_int segs3 activeSegments) (\<lambda>topSeg.
                  let s4 = s3\<lparr> st_segments := segs3,
                               st_angle := atan2 (sg_x topSeg) (- sg_y topSeg) \<rparr>
                  in bind_js (map_js (Stem_leaf_body s4 activeSegments) (st_leaves s4)) (\<lambda>leaves.
                       Inr (s4\<lparr> st_leaves := leaves \<rparr>)))))))"

section \<open>CorePulse (Stem.js)\<close>

record shimmer_particle =
  sh_angle :: real
  sh_distance :: real
  sh_targetDistance :: real
  sh_alpha :: real

record orbit_particle =
  ob_angle :: real
  ob_speed :: real
  ob_distance :: real
  ob_size :: real
  ob_alpha :: real

record texture_seed =
  tx_angle :: real
  tx_distance :: real
  tx_size :: real
  tx_brightness :: real

record core_pulse =
  cp_x :: real
  cp_y :: real
  cp_radius :: real
  cp_baseRadius :: real
  cp_pulsePhase :: real
  cp_pulseIntensity :: real
  cp_breathingDepth :: real
  cp_shimmerActive :: bool
  cp_shimmerProgress :: real
  cp_shimmerParticles :: "shimmer_particle list"
  cp_glowIntensity :: real
  cp_targetGlow :: real
  cp_magnetOffset :: vec2
  cp_visible :: bool
  cp_fillProgress :: real
  cp_textureSeeds :: "texture_seed list"
  cp_orbitParticles :: "orbit_particle list"
  cp_orbitActive :: bool

text \<open>The constructor draws four numbers for each of the 50 texture seeds: \<open>u i k\<close>.\<close>

definition CorePulse_new :: "real \<Rightarrow> real \<Rightarrow> real \<Rightarrow> (nat \<Rightarrow> nat \<Rightarrow> real) \<Rightarrow> core_pulse" where
  "CorePulse_new x y radius u =
     \<lparr> cp_x = x, cp_y = y, cp_radius = radius, cp_baseRadius = radius,
       cp_pulsePhase = 0, cp_pulseIntensity = PHYSICS_centerPulseAmount, cp_breathingDepth = 1,
       cp_shimmerActive = False, cp_shimmerProgress = 0, cp_shimmerParticles = [],
       cp_glowIntensity = 0, cp_targetGlow = 0,
       cp_magnetOffset = \<lparr> vx = 0, vy = 0 \<rparr>,
       cp_visible = False, cp_fillProgress = 0,
       cp_textureSeeds =
         map (\<lambda>i. \<lparr> tx_angle = Utils_randomRange (u i 0) 0 (pi * 2),
                      tx_distance = Utils_randomRange (u i 1) 0.2 0.9,
                      tx_size = Utils_randomRange (u i 2) 1 3,
                      tx_brightness = Utils_randomRange (u i 3) 0.8 1.2 \<rparr>) [0..<50],
       cp_orbitParticles = [], cp_orbitActive = False \<rparr>"

definition startFill :: "core_pulse \<Rightarrow> core_pulse" where
  "startFill c = c\<lparr> cp_visible := True, cp_fillProgress := 0 \<rparr>"

definition CorePulse_containsPoint :: "real \<Rightarrow> real \<Rightarrow> core_pulse \<Rightarrow> bool" where
  "CorePulse_containsPoint px py c =
     (if \<not> cp_visible c \<or> cp_fillProgress c < 0.5 then False
      else
        let dx = px - (cp_x c + vx (cp_magnetOffset c));
            dy = py - (cp_y c + vy (cp_magnetOffset c))
        in hypot dx dy < cp_radius c * cp_fillProgress c)"

text \<open>
  \<open>update(deltaTime, musicIntensity = 0)\<close>; an omitted intensity is \<open>None\<close>. No step
  of it reads a field of a value that can be undefined (the first orbit particle is read
  only when the array is not empty), so it cannot throw and returns the state itself.
\<close>

definition CorePulse_update :: "real \<Rightarrow> real option \<Rightarrow> core_pulse \<Rightarrow> core_pulse" where
  "CorePulse_update deltaTime musicIntensity0 c =
     (if \<not> cp_visible c then c
      else
        let musicIntensity = (case musicIntensity0 of None \<Rightarrow> 0 | Some v \<Rightarrow> v);
            c1 = (if cp_fillProgress c < 1
                  then
                    let f = c\<lparr> cp_fillProgress := cp_fillProgress c + deltaTime * 0.0008 \<rparr>
                    in f\<lparr> cp_fillProgress := min 1 (cp_fillProgress f) \<rparr>
                  else c);
            c2 = c1\<lparr> cp_pulsePhase := cp_pulsePhase c1 + deltaTime * 0.001 * PHYSICS_centerPulseSpeed \<rparr>;
            breathe = sin (cp_pulsePhase c2) * cp_pulseIntensity c2 * cp_breathingDepth c2;
            c3 = c2\<lparr> cp_radius := cp_baseRadius c2 * (1 + breathe) * cp_fillProgress c2 \<rparr>;
            c4 = (if musicIntensity > 0
                  then c3\<lparr> cp_radius := cp_radius c3 * (1 + musicIntensity * 0.02) \<rparr>
                  else c3);
            c5 = c4\<lparr> cp_glowIntensity := Utils_lerp (cp_glowIntensity c4) (cp_targetGlow c4) 0.1 \<rparr>;
            c6 = c5\<lparr> cp_magnetOffset := \<lparr> vx = vx (cp_magnetOffset c5) * 0.95,
                                            vy = vy (cp_magnetOffset c5) * 0.95 \<rparr> \<rparr>;
            c7 = (if cp_shimmerActive c6
                  then
                    let h = c6\<lparr> cp_shimmerProgress := cp_shimmerProgress c6 + deltaTime / TIMING_shimmerDuration \<rparr>;
                        h1 = h\<lparr> cp_shimmerParticles :=
                                  map (\<lambda>p. p\<lparr> sh_distance := Utils_lerp (sh_distance p) (sh_targetDistance p) 0.1,
                                              sh_alpha := 1 - cp_shimmerProgress h \<rparr>)
                                      (cp_shimmerParticles h) \<rparr>
                    in if cp_shimmerProgress h1 \<ge> 1
                       then h1\<lparr> cp_shimmerActive := False, cp_shimmerParticles := [] \<rparr>
                       else h1
                  else c6)
        in if cp_orbitActive c7
           then c7\<lparr> cp_orbitParticles :=
                       map (\<lambda>p. p\<lparr> ob_angle := ob_angle p + deltaTime * 0.002 * ob_speed p,
                                   ob_alpha := Utils_lerp (ob_alpha p) 0.6 0.05 \<rparr>)
                           (cp_orbitParticles c7) \<rparr>
           else
             let c8 = c7\<lparr> cp_orbitParticles :=
                            map (\<lambda>p. p\<lparr> ob_alpha := ob_alpha p * 0.9 \<rparr>) (cp_orbitParticles c7) \<rparr>
             in if length (cp_orbitParticles c8) \<noteq> 0 \<and> ob_alpha (hd (cp_orbitParticles c8)) < 0.01
                then c8\<lparr> cp_orbitParticles := [] \<rparr>
                else c8)"

section \<open>EntranceAnimation: callback order\<close>

lemmas timing_defs = TIMING_stageB_start_def TIMING_stageC_start_def TIMING_stageD_start_def TIMING_stageD_end_def

lemma EntranceAnimation_update_fired:
  assumes "ea_isPlaying e" "\<not> ea_isComplete e"
  shows "snd (EntranceAnimation_update now e) =
     (if \<not> trig_B (ea_triggeredStages e) \<and> TIMING_stageB_start \<le> now - ea_startTime e
      then fire (cb_stageB (ea_stageCallbacks e)) CbStageB else []) @
     (if \<not> trig_C (ea_triggeredStages e) \<and> TIMING_stageC_start \<le> now - ea_startTime e
      then fire (cb_stageC (ea_stageCallbacks e)) CbStageC else []) @
     (if \<not> trig_D (ea_triggeredStages e) \<and> TIMING_stageD_start \<le> now - ea_startTime e
      then fire (cb_stageD (ea_stageCallbacks e)) CbStageD else []) @
     (if TIMING_stageD_end \<le> now - ea_startTime e
      then fire (cb_complete (ea_stageCallbacks e)) CbComplete else [])"
  using assms by (simp add: EntranceAnimation_update_def Let_def)

lemma EntranceAnimation_update_state:
  assumes "ea_isPlaying e" "\<not> ea_isComplete e"
  shows "ea_startTime (fst (EntranceAnimation_update now e)) = ea_startTime e"
    "ea_stageCallbacks (fst (EntranceAnimation_update now e)) = ea_stageCallbacks e"
    "ea_isComplete (fst (EntranceAnimation_update now e)) = (TIMING_stageD_end \<le> now - ea_startTime e)"
    "ea_isPlaying (fst (EntranceAnimation_update now e)) = (\<not> TIMING_stageD_end \<le> now - ea_startTime e)"
    "trig_B (ea_triggeredStages (fst (EntranceAnimation_update now e))) =
       (trig_B (ea_triggeredStages e) \<or> TIMING_stageB_start \<le> now - ea_startTime e)"
    "trig_C (ea_triggeredStages (fst (EntranceAnimation_update now e))) =
       (trig_C (ea_triggeredStages e) \<or> TIMING_stageC_start \<le> now - ea_startTime e)"
    "trig_D (ea_triggeredStages (fst (EntranceAnimation_update now e))) =
       (trig_D (ea_triggeredStages e) \<or> TIMING_stageD_start \<le> now - ea_startTime e)"
  using assms by (simp_all add: EntranceAnimation_update_def Let_def)

lemma updates_append:
  "EntranceAnimation_updates (xs @ ys) e =
     (let (e1, evs1) = EntranceAnimation_updates xs e;
          (e2, evs2) = EntranceAnimation_updates ys e1
      in (e2, evs1 @ evs2))"
  by (induction xs arbitrary: e) (auto split: prod.splits)

lemma reached_snoc: "stage_reached t0 (nows @ [now]) th = (stage_reached t0 nows th \<or> th \<le> now - t0)"
  by (auto simp: stage_reached_def)

lemma reached_mono: "th \<le> th' \<Longrightarrow> stage_reached t0 nows th' \<Longrightarrow> stage_reached t0 nows th"
  unfolding stage_reached_def by (meson order_trans)

lemma EntranceAnimation_update_done: "ea_isComplete e \<Longrightarrow> EntranceAnimation_update now e = (e, [])"
  by (simp add: EntranceAnimation_update_def)

lemma step_inv:
  assumes "ea_inv cbs t0 nows e"
  shows "ea_inv cbs t0 (nows @ [now]) (fst (EntranceAnimation_update now e))"
proof (cases "ea_isComplete e")
  case True
  with assms show ?thesis
    using reached_mono[of TIMING_stageB_start TIMING_stageD_end t0 nows]
      reached_mono[of TIMING_stageC_start TIMING_stageD_end t0 nows]
      reached_mono[of TIMING_stageD_start TIMING_stageD_end t0 nows]
    by (simp add: EntranceAnimation_update_done ea_inv_def reached_snoc timing_defs)
next
  case False
  with assms have p: "ea_isPlaying e" by (simp add: ea_inv_def)
  show ?thesis using assms False
    by (simp add: ea_inv_def EntranceAnimation_update_state[OF p False] reached_snoc)
qed

lemma step_fired:
  assumes "ea_inv cbs t0 nows e"
  shows "filter (stage_registered cbs) (stages_entered t0 nows) @ snd (EntranceAnimation_update now e)
           = filter (stage_registered cbs) (stages_entered t0 (nows @ [now]))"
proof (cases "ea_isComplete e")
  case True
  with assms have r: "stage_reached t0 nows TIMING_stageD_end" by (simp add: ea_inv_def)
  have "stage_reached t0 nows TIMING_stageB_start" "stage_reached t0 nows TIMING_stageC_start"
    "stage_reached t0 nows TIMING_stageD_start"
    using r reached_mono[of _ TIMING_stageD_end t0 nows] by (simp_all add: timing_defs)
  with r True show ?thesis
    by (simp add: EntranceAnimation_update_done stages_entered_def reached_snoc)
next
  case False
  with assms have p: "ea_isPlaying e" by (simp add: ea_inv_def)
  define b1 where "b1 = stage_reached t0 nows TIMING_stageB_start"
  define b2 where "b2 = stage_reached t0 nows TIMING_stageC_start"
  define b3 where "b3 = stage_reached t0 nows TIMING_stageD_start"
  define b4 where "b4 = stage_reached t0 nows TIMING_stageD_end"
  have nb4: "\<not> b4" using assms False by (simp add: ea_inv_def b4_def)
  have mono: "b3 \<longrightarrow> b2" "b2 \<longrightarrow> b1"
    using reached_mono[of TIMING_stageC_start TIMING_stageD_start t0 nows]
      reached_mono[of TIMING_stageB_start TIMING_stageC_start t0 nows]
    by (simp_all add: timing_defs b1_def b2_def b3_def)
  have flags: "trig_B (ea_triggeredStages e) = b1" "trig_C (ea_triggeredStages e) = b2"
    "trig_D (ea_triggeredStages e) = b3" "ea_startTime e = t0" "ea_stageCallbacks e = cbs"
    using assms by (simp_all add: ea_inv_def b1_def b2_def b3_def)
  define c1 where "c1 = (TIMING_stageB_start \<le> now - t0)"
  define c2 where "c2 = (TIMING_stageC_start \<le> now - t0)"
  define c3 where "c3 = (TIMING_stageD_start \<le> now - t0)"
  define c4 where "c4 = (TIMING_stageD_end \<le> now - t0)"
  have cm: "c4 \<longrightarrow> c3" "c3 \<longrightarrow> c2" "c2 \<longrightarrow> c1"
    by (simp_all add: c1_def c2_def c3_def c4_def timing_defs)
  have "snd (EntranceAnimation_update now e) =
      (if \<not> b1 \<and> c1 then fire (cb_stageB cbs) CbStageB else []) @
      (if \<not> b2 \<and> c2 then fire (cb_stageC cbs) CbStageC else []) @
      (if \<not> b3 \<and> c3 then fire (cb_stageD cbs) CbStageD else []) @
      (if c4 then fire (cb_complete cbs) CbComplete else [])"
    by (simp only: EntranceAnimation_update_fired[OF p False] flags c1_def c2_def c3_def c4_def)
  moreover have "stages_entered t0 nows = CbStageA # (if b1 then [CbStageB] else []) @
      (if b2 then [CbStageC] else []) @ (if b3 then [CbStageD] else []) @ (if b4 then [CbComplete] else [])"
    by (simp only: stages_entered_def b1_def b2_def b3_def b4_def)
  moreover have "stages_entered t0 (nows @ [now]) = CbStageA # (if b1 \<or> c1 then [CbStageB] else []) @
      (if b2 \<or> c2 then [CbStageC] else []) @ (if b3 \<or> c3 then [CbStageD] else []) @
      (if b4 \<or> c4 then [CbComplete] else [])"
    by (simp only: stages_entered_def reached_snoc b1_def b2_def b3_def b4_def c1_def c2_def c3_def c4_def)
  ultimately show ?thesis
    using nb4 mono cm by (auto simp: fire_def)
qed


lemma updates_inv_fired:
  "ea_inv cbs t0 pre e \<Longrightarrow>
     ea_inv cbs t0 (pre @ nows) (fst (EntranceAnimation_updates nows e)) \<and>
     filter (stage_registered cbs) (stages_entered t0 pre) @ snd (EntranceAnimation_updates nows e)
       = filter (stage_registered cbs) (stages_entered t0 (pre @ nows))"
proof (induction nows arbitrary: pre e)
  case Nil
  then show ?case by simp
next
  case (Cons now nows)
  let ?e1 = "fst (EntranceAnimation_update now e)"
  have i1: "ea_inv cbs t0 (pre @ [now]) ?e1" by (rule step_inv[OF Cons.prems])
  have ih: "ea_inv cbs t0 (pre @ now # nows) (fst (EntranceAnimation_updates nows ?e1)) \<and>
     filter (stage_registered cbs) (stages_entered t0 (pre @ [now])) @ snd (EntranceAnimation_updates nows ?e1)
       = filter (stage_registered cbs) (stages_entered t0 (pre @ now # nows))"
    using Cons.IH[OF i1] by simp
  have f1: "filter (stage_registered cbs) (stages_entered t0 pre) @ snd (EntranceAnimation_update now e)
      = filter (stage_registered cbs) (stages_entered t0 (pre @ [now]))"
    by (rule step_fired[OF Cons.prems])
  have "filter (stage_registered cbs) (stages_entered t0 pre) @
      (snd (EntranceAnimation_update now e) @ snd (EntranceAnimation_updates nows ?e1))
      = filter (stage_registered cbs) (stages_entered t0 (pre @ now # nows))"
    using ih f1 by (simp only: flip: append_assoc)
  then show ?case using ih
    by (simp add: case_prod_beta Let_def)
qed

lemma start_inv:
  "ea_inv cbs t0 [] (fst (EntranceAnimation_start t0 (EntranceAnimation_new\<lparr> ea_stageCallbacks := cbs \<rparr>)))"
  by (simp add: ea_inv_def EntranceAnimation_start_def EntranceAnimation_new_def Let_def stage_reached_def)

lemma start_fired:
  "snd (EntranceAnimation_start t0 (EntranceAnimation_new\<lparr> ea_stageCallbacks := cbs \<rparr>))
     = filter (stage_registered cbs) (stages_entered t0 [])"
  by (simp add: EntranceAnimation_start_def EntranceAnimation_new_def Let_def stage_reached_def
      stages_entered_def fire_def)

lemma stages_entered_prefix:
  "\<exists>n. 1 \<le> n \<and> stages_entered t0 nows = take n [CbStageA, CbStageB, CbStageC, CbStageD, CbComplete]"
proof -
  have m: "stage_reached t0 nows TIMING_stageD_end \<longrightarrow> stage_reached t0 nows TIMING_stageD_start"
    "stage_reached t0 nows TIMING_stageD_start \<longrightarrow> stage_reached t0 nows TIMING_stageC_start"
    "stage_reached t0 nows TIMING_stageC_start \<longrightarrow> stage_reached t0 nows TIMING_stageB_start"
    using reached_mono[of TIMING_stageD_start TIMING_stageD_end t0 nows]
      reached_mono[of TIMING_stageC_start TIMING_stageD_start t0 nows]
      reached_mono[of TIMING_stageB_start TIMING_stageC_start t0 nows]
    by (simp_all add: timing_defs)
  consider (a) "\<not> stage_reached t0 nows TIMING_stageB_start"
    | (b) "stage_reached t0 nows TIMING_stageB_start" "\<not> stage_reached t0 nows TIMING_stageC_start"
    | (c) "stage_reached t0 nows TIMING_stageC_start" "\<not> stage_reached t0 nows TIMING_stageD_start"
    | (d) "stage_reached t0 nows TIMING_stageD_start" "\<not> stage_reached t0 nows TIMING_stageD_end"
    | (e) "stage_reached t0 nows TIMING_stageD_end"
    by blast
  then show ?thesis
  proof cases
    case a then show ?thesis using m by (intro exI[of _ 1]) (simp add: stages_entered_def)
  next
    case b then show ?thesis using m by (intro exI[of _ 2]) (simp add: stages_entered_def)
  next
    case c then show ?thesis using m by (intro exI[of _ 3]) (simp add: stages_entered_def)
  next
    case d then show ?thesis using m by (intro exI[of _ 4]) (simp add: stages_entered_def)
  next
    case e then show ?thesis using m by (intro exI[of _ 5]) (simp add: stages_entered_def)
  qed
qed

text \<open>
  Claim C1. After \<open>start()\<close> at clock \<open>t0\<close> and any sequence of \<open>update()\<close> calls at any
  clock readings, the callbacks fired are exactly the registered callbacks of the stages
  entered so far (A by \<open>start()\<close>, B, C, D and Complete once some update has seen the
  elapsed time reach 1500, 4000, 7000 and 9000 ms), each once and in the order
  A, B, C, D, Complete; the stages entered always form an initial segment of that order.
  Updates that follow a transition add nothing, and nothing fires after Complete.
\<close>

theorem entrance_callbacks_once_in_order:
  "snd (entrance_run cbs t0 nows) = filter (stage_registered cbs) (stages_entered t0 nows) \<and>
   (\<exists>n. 1 \<le> n \<and> stages_entered t0 nows = take n [CbStageA, CbStageB, CbStageC, CbStageD, CbComplete]) \<and>
   (ea_isComplete (fst (entrance_run cbs t0 nows)) \<longleftrightarrow> stage_reached t0 nows TIMING_stageD_end) \<and>
   (ea_isComplete (fst (entrance_run cbs t0 nows)) \<longrightarrow>
      EntranceAnimation_update now (fst (entrance_run cbs t0 nows)) = (fst (entrance_run cbs t0 nows), []))"
proof -
  let ?e0 = "fst (EntranceAnimation_start t0 (EntranceAnimation_new\<lparr> ea_stageCallbacks := cbs \<rparr>))"
  have r: "ea_inv cbs t0 nows (fst (EntranceAnimation_updates nows ?e0))"
    "filter (stage_registered cbs) (stages_entered t0 []) @ snd (EntranceAnimation_updates nows ?e0)
       = filter (stage_registered cbs) (stages_entered t0 nows)"
    using updates_inv_fired[OF start_inv, of cbs t0 nows] by simp_all
  have fst_run: "fst (entrance_run cbs t0 nows) = fst (EntranceAnimation_updates nows ?e0)"
    by (simp add: entrance_run_def case_prod_beta Let_def)
  have snd_run: "snd (entrance_run cbs t0 nows) =
      snd (EntranceAnimation_start t0 (EntranceAnimation_new\<lparr> ea_stageCallbacks := cbs \<rparr>)) @
      snd (EntranceAnimation_updates nows ?e0)"
    by (simp add: entrance_run_def case_prod_beta Let_def)
  have c1: "snd (entrance_run cbs t0 nows) = filter (stage_registered cbs) (stages_entered t0 nows)"
    using r(2) by (simp only: snd_run start_fired)
  have c3: "ea_isComplete (fst (entrance_run cbs t0 nows)) \<longleftrightarrow> stage_reached t0 nows TIMING_stageD_end"
    using r(1) by (simp add: fst_run ea_inv_def)
  show ?thesis
    using c1 c3 stages_entered_prefix[of t0 nows] EntranceAnimation_update_done by blast
qed

text \<open>
  The spec's test: updates at elapsed 0, 1499, 1500, 4000, 7000 and 9000 ms, all five
  callbacks registered. After the first three updates A and B have fired once each; after
  all six, each of the five has fired once, in order; a later update fires nothing.
\<close>

theorem entrance_callbacks_once_in_order_witness:
  "snd (entrance_run \<lparr> cb_stageA = True, cb_stageB = True, cb_stageC = True, cb_stageD = True,
        cb_complete = True \<rparr> 0 [0, 1499, 1500]) = [CbStageA, CbStageB] \<and>
   snd (entrance_run \<lparr> cb_stageA = True, cb_stageB = True, cb_stageC = True, cb_stageD = True,
        cb_complete = True \<rparr> 0 [0, 1499, 1500, 4000, 7000, 9000, 9500])
     = [CbStageA, CbStageB, CbStageC, CbStageD, CbComplete] \<and>
   ea_isComplete (fst (entrance_run \<lparr> cb_stageA = True, cb_stageB = True, cb_stageC = True,
        cb_stageD = True, cb_complete = True \<rparr> 0 [0, 1499, 1500, 4000, 7000, 9000, 9500])) \<and>
   snd (EntranceAnimation_update 10000 (fst (entrance_run \<lparr> cb_stageA = True, cb_stageB = True,
        cb_stageC = True, cb_stageD = True, cb_complete = True \<rparr> 0
        [0, 1499, 1500, 4000, 7000, 9000, 9500]))) = []"
  using entrance_callbacks_once_in_order[of "\<lparr> cb_stageA = True, cb_stageB = True, cb_stageC = True,
        cb_stageD = True, cb_complete = True \<rparr>" 0 "[0, 1499, 1500]" 10000]
    entrance_callbacks_once_in_order[of "\<lparr> cb_stageA = True, cb_stageB = True, cb_stageC = True,
        cb_stageD = True, cb_complete = True \<rparr>" 0 "[0, 1499, 1500, 4000, 7000, 9000, 9500]" 10000]
  by (simp add: stages_entered_def stage_reached_def timing_defs)

section \<open>StateManager: night shift\<close>

lemmas sm_timing_defs = TIMING_idleTimeout_def TIMING_curiosityDuration_def TIMING_nightShiftThreshold_def TIMING_nightTransitionDuration_def

lemma StateManager_update_night:
  "sm_nightShiftProgress (fst (StateManager_update now s)) =
     (if (sm_nightShiftActive s \<or> now - sm_sessionStartTime s > TIMING_nightShiftThreshold) \<and>
         (now - (sm_sessionStartTime s + TIMING_nightShiftThreshold)) / TIMING_nightTransitionDuration > sm_nightShiftProgress s
      then min 1 ((now - (sm_sessionStartTime s + TIMING_nightShiftThreshold)) / TIMING_nightTransitionDuration)
      else sm_nightShiftProgress s)"
  "sm_nightShiftActive (fst (StateManager_update now s)) = (sm_nightShiftActive s \<or> now - sm_sessionStartTime s > TIMING_nightShiftThreshold)"
  "sm_sessionStartTime (fst (StateManager_update now s)) = sm_sessionStartTime s"
  by (simp_all add: StateManager_update_def Let_def split: prod.splits if_splits)

lemma night_ramp_mono: "a \<le> b \<Longrightarrow> night_ramp a \<le> night_ramp b"
  by (auto simp: night_ramp_def sm_timing_defs max_def min_def divide_simps)

lemma night_step:
  assumes "night_inv t0 el s" "el \<le> now - t0"
  shows "night_inv t0 (now - t0) (fst (StateManager_update now s))"
  using assms unfolding night_inv_def StateManager_update_night
  by (auto simp: night_ramp_def sm_timing_defs max_def min_def divide_simps split: if_splits)

lemma night_updates:
  "night_inv t0 el s \<Longrightarrow> sorted ((t0 + el) # nows) \<Longrightarrow>
     night_inv t0 (last ((t0 + el) # nows) - t0) (fst (StateManager_updates nows s))"
proof (induction nows arbitrary: el s)
  case Nil
  then show ?case by simp
next
  case (Cons now nows)
  have le: "el \<le> now - t0" using Cons.prems(2) by simp
  have i1: "night_inv t0 (now - t0) (fst (StateManager_update now s))"
    by (rule night_step[OF Cons.prems(1) le])
  have s1: "sorted ((t0 + (now - t0)) # nows)" using Cons.prems(2) by simp
  show ?case using Cons.IH[OF i1 s1]
    by (simp add: case_prod_beta Let_def)
qed

text \<open>
  The ramp. After updates at non-decreasing clock readings on a manager whose session
  started at \<open>t0\<close>, \<open>getNightProgress()\<close> is the linear ramp of the latest session-elapsed
  time, kept within 0..1: 0 until the elapsed time exceeds the threshold, then
  \<open>(elapsed - threshold) / nightTransitionDuration\<close>, and 1 from the end of the transition
  window on. It never decreases (\<open>night_ramp_mono\<close>).
\<close>

lemma night_progress_ramp:
  assumes "sorted nows"
  shows "getNightProgress (fst (StateManager_updates nows (StateManager_new t t0))) =
     (if nows = [] then 0 else night_ramp (last nows - t0))"
proof (cases nows)
  case Nil
  then show ?thesis by (simp add: getNightProgress_def StateManager_new_def)
next
  case (Cons a as)
  define el where "el = min 0 (a - t0)"
  have i0: "night_inv t0 el (StateManager_new t t0)"
    by (simp add: night_inv_def StateManager_new_def night_ramp_def el_def sm_timing_defs)
  have s0: "sorted ((t0 + el) # nows)" using assms Cons by (auto simp: el_def)
  show ?thesis using night_updates[OF i0 s0] Cons
    by (simp add: night_inv_def getNightProgress_def)
qed


text \<open>Updates at 80 s and 120 s give progress 0.5; a further one at 200 s gives 1.\<close>

lemma night_progress_ramp_witness:
  "getNightProgress (fst (StateManager_updates [80000, 120000] (StateManager_new 0 0))) = 0.5 \<and>
   getNightProgress (fst (StateManager_updates [80000, 120000, 200000] (StateManager_new 0 0))) = 1"
  using night_progress_ramp[of "[80000, 120000]" 0 0]
    night_progress_ramp[of "[80000, 120000, 200000]" 0 0]
  by (simp add: night_ramp_def sm_timing_defs)

text \<open>
  Claim C6. The ramp itself is as claimed (\<open>night_progress_ramp\<close>: after updates at
  non-decreasing clock readings the progress is the clamped linear ramp of the latest
  session-elapsed time, hence 0 up to the threshold, non-decreasing and at most 1). The
  callback is not: once the progress has saturated at 1, the unclamped \<open>nightProgress\<close>
  still exceeds the stored, clamped progress, so every later update calls \<open>onNightShift(1)\<close>
  again although the progress did not increase. Session started at clock 0, updates at
  150000 ms and 150016 ms.
\<close>

theorem night_shift_callback_after_saturation:
  "getNightProgress (fst (StateManager_update 150000 (onNightShift (StateManager_new 0 0)))) = 1 \<and>
   getNightProgress (fst (StateManager_update 150016
      (fst (StateManager_update 150000 (onNightShift (StateManager_new 0 0)))))) = 1 \<and>
   snd (StateManager_update 150016
      (fst (StateManager_update 150000 (onNightShift (StateManager_new 0 0))))) = [OnNightShift 1]"
  by (simp add: StateManager_update_def StateManager_new_def onNightShift_def Let_def fire_def
      sm_timing_defs getNightProgress_def)

section \<open>StateManager: curiosity\<close>

lemma record_step:
  "sm_interactionTypes (fst (recordInteraction now now2 ty cx cy s)) = insert ty (sm_interactionTypes s)"
  "sm_curiosityActive (fst (recordInteraction now now2 ty cx cy s)) =
     (sm_curiosityActive s \<or> 3 \<le> card (insert ty (sm_interactionTypes s)))"
  "sm_callbacks (fst (recordInteraction now now2 ty cx cy s)) = sm_callbacks s"
  "filter is_curiosity_start (snd (recordInteraction now now2 ty cx cy s)) =
     (if \<not> sm_curiosityActive s \<and> 3 \<le> card (insert ty (sm_interactionTypes s))
      then fire (cb_onCuriosityStart (sm_callbacks s)) (OnCuriosityStart cx cy) else [])"
  "sm_curiosityEndTime (fst (recordInteraction now now2 ty cx cy s)) =
     (if \<not> sm_curiosityActive s \<and> 3 \<le> card (insert ty (sm_interactionTypes s))
      then now2 + TIMING_curiosityDuration else sm_curiosityEndTime s)"
  by (auto simp: recordInteraction_def activateCuriosity_def Let_def fire_def)

lemma records_inv:
  assumes "finite (sm_interactionTypes s)"
    and "sm_curiosityActive s = (3 \<le> card (sm_interactionTypes s))"
  shows "sm_interactionTypes (fst (StateManager_records is s)) = sm_interactionTypes s \<union> set (map interaction_type is) \<and>
     sm_curiosityActive (fst (StateManager_records is s)) = (3 \<le> card (sm_interactionTypes s \<union> set (map interaction_type is))) \<and>
     sm_callbacks (fst (StateManager_records is s)) = sm_callbacks s \<and>
     length (filter is_curiosity_start (snd (StateManager_records is s))) =
       (if cb_onCuriosityStart (sm_callbacks s) \<and> \<not> sm_curiosityActive s \<and>
           3 \<le> card (sm_interactionTypes s \<union> set (map interaction_type is)) then 1 else 0)"
  using assms
proof (induction "is" arbitrary: s)
  case Nil
  then show ?case by simp
next
  case (Cons i "is")
  obtain now now2 ty cx cy where i: "i = (now, now2, ty, cx, cy)" by (cases i) auto
  let ?s1 = "fst (recordInteraction now now2 ty cx cy s)"
  have fin: "finite (sm_interactionTypes ?s1)" using Cons.prems(1) by (simp add: record_step)
  have mono: "card (sm_interactionTypes s) \<le> card (insert ty (sm_interactionTypes s))"
    using Cons.prems(1) by (simp add: card_insert_le)
  have act: "sm_curiosityActive ?s1 = (3 \<le> card (sm_interactionTypes ?s1))"
    using Cons.prems mono by (auto simp: record_step)
  have mono2: "card (insert ty (sm_interactionTypes s)) \<le> card (insert ty (sm_interactionTypes s) \<union> set (map interaction_type is))"
    using Cons.prems(1) by (intro card_mono) auto
  note ih = Cons.IH[OF fin act]
  show ?case using ih mono mono2 Cons.prems(2)
    by (auto simp: i case_prod_beta Let_def record_step interaction_type_def fire_def)
qed


text \<open>
  Claim C7. Starting from a new manager with \<open>onCuriosityStart\<close> registered, after any
  sequence of \<open>recordInteraction\<close> calls the tracked set holds the types recorded,
  curiosity is active exactly when at least 3 distinct types were recorded, and
  \<open>onCuriosityStart\<close> has fired once in that case and never otherwise: the third
  distinct type fires it, a fourth does not fire it again. The activating call sets the end
  time to its clock reading plus \<open>curiosityDuration\<close>; a call while curiosity is active
  fires nothing and leaves the end time alone; an \<open>update()\<close> before the end time keeps
  curiosity active, and one at or after it deactivates curiosity and clears the set.
\<close>

theorem curiosity_activates_once:
  "(sm_interactionTypes (fst (StateManager_records is (onCuriosityStart (StateManager_new t0 t1))))
      = set (map interaction_type is) \<and>
    getCuriosityActive (fst (StateManager_records is (onCuriosityStart (StateManager_new t0 t1))))
      = (3 \<le> card (set (map interaction_type is))) \<and>
    length (filter is_curiosity_start
        (snd (StateManager_records is (onCuriosityStart (StateManager_new t0 t1)))))
      = (if 3 \<le> card (set (map interaction_type is)) then 1 else 0)) \<and>
   (\<not> sm_curiosityActive s \<and> 3 \<le> card (insert ty (sm_interactionTypes s)) \<longrightarrow>
      sm_curiosityActive (fst (recordInteraction now now2 ty cx cy s)) \<and>
      sm_curiosityEndTime (fst (recordInteraction now now2 ty cx cy s)) = now2 + TIMING_curiosityDuration) \<and>
   (sm_curiosityActive s \<longrightarrow>
      sm_curiosityActive (fst (recordInteraction now now2 ty cx cy s)) \<and>
      sm_curiosityEndTime (fst (recordInteraction now now2 ty cx cy s)) = sm_curiosityEndTime s \<and>
      filter is_curiosity_start (snd (recordInteraction now now2 ty cx cy s)) = []) \<and>
   (sm_curiosityActive s \<and> now < sm_curiosityEndTime s \<longrightarrow>
      sm_curiosityActive (fst (StateManager_update now s)) \<and>
      sm_interactionTypes (fst (StateManager_update now s)) = sm_interactionTypes s) \<and>
   (sm_curiosityActive s \<and> sm_curiosityEndTime s \<le> now \<longrightarrow>
      \<not> sm_curiosityActive (fst (StateManager_update now s)) \<and>
      sm_interactionTypes (fst (StateManager_update now s)) = {})"
proof -
  let ?s0 = "onCuriosityStart (StateManager_new t0 t1)"
  have f: "finite (sm_interactionTypes ?s0)"
    and a: "sm_curiosityActive ?s0 = (3 \<le> card (sm_interactionTypes ?s0))"
    and c: "cb_onCuriosityStart (sm_callbacks ?s0)" "\<not> sm_curiosityActive ?s0"
      "sm_interactionTypes ?s0 = {}"
    by (simp_all add: onCuriosityStart_def StateManager_new_def)
  have p1: "sm_interactionTypes (fst (StateManager_records is ?s0)) = set (map interaction_type is) \<and>
    getCuriosityActive (fst (StateManager_records is ?s0)) = (3 \<le> card (set (map interaction_type is))) \<and>
    length (filter is_curiosity_start (snd (StateManager_records is ?s0)))
      = (if 3 \<le> card (set (map interaction_type is)) then 1 else 0)"
    using records_inv[OF f a, of "is"] c by (simp add: getCuriosityActive_def)
  have p2: "\<not> sm_curiosityActive s \<and> 3 \<le> card (insert ty (sm_interactionTypes s)) \<longrightarrow>
      sm_curiosityActive (fst (recordInteraction now now2 ty cx cy s)) \<and>
      sm_curiosityEndTime (fst (recordInteraction now now2 ty cx cy s)) = now2 + TIMING_curiosityDuration"
    by (simp add: record_step)
  have p3: "sm_curiosityActive s \<longrightarrow>
      sm_curiosityActive (fst (recordInteraction now now2 ty cx cy s)) \<and>
      sm_curiosityEndTime (fst (recordInteraction now now2 ty cx cy s)) = sm_curiosityEndTime s \<and>
      filter is_curiosity_start (snd (recordInteraction now now2 ty cx cy s)) = []"
    by (simp add: record_step)
  have p4: "sm_curiosityActive s \<and> now < sm_curiosityEndTime s \<longrightarrow>
      sm_curiosityActive (fst (StateManager_update now s)) \<and>
      sm_interactionTypes (fst (StateManager_update now s)) = sm_interactionTypes s"
    by (simp add: StateManager_update_def Let_def case_prod_beta)
  have p5: "sm_curiosityActive s \<and> sm_curiosityEndTime s \<le> now \<longrightarrow>
      \<not> sm_curiosityActive (fst (StateManager_update now s)) \<and>
      sm_interactionTypes (fst (StateManager_update now s)) = {}"
    by (simp add: StateManager_update_def Let_def case_prod_beta)
  from p1 p2 p3 p4 p5 show ?thesis by blast
qed

text \<open>
  Four distinct types recorded at 1000, 2000, 3000 and 4000 ms (the third call's second
  clock reading is 3001): one \<open>onCuriosityStart\<close>, end time 8001, and the update at 8001
  deactivates curiosity and clears the set.
\<close>

theorem curiosity_activates_once_witness:
  "getCuriosityActive (fst (StateManager_records
      [(1000, 1000, ''petalClick'', 10, 20), (2000, 2000, ''centerClick'', 11, 21),
       (3000, 3001, ''hover'', 12, 22), (4000, 4000, ''drag'', 13, 23)]
      (onCuriosityStart (StateManager_new 0 0)))) \<and>
   length (filter is_curiosity_start (snd (StateManager_records
      [(1000, 1000, ''petalClick'', 10, 20), (2000, 2000, ''centerClick'', 11, 21),
       (3000, 3001, ''hover'', 12, 22), (4000, 4000, ''drag'', 13, 23)]
      (onCuriosityStart (StateManager_new 0 0))))) = 1 \<and>
   sm_curiosityEndTime (fst (StateManager_records
      [(1000, 1000, ''petalClick'', 10, 20), (2000, 2000, ''centerClick'', 11, 21),
       (3000, 3001, ''hover'', 12, 22), (4000, 4000, ''drag'', 13, 23)]
      (onCuriosityStart (StateManager_new 0 0)))) = 8001 \<and>
   \<not> sm_curiosityActive (fst (StateManager_update 8001 (fst (StateManager_records
      [(1000, 1000, ''petalClick'', 10, 20), (2000, 2000, ''centerClick'', 11, 21),
       (3000, 3001, ''hover'', 12, 22), (4000, 4000, ''drag'', 13, 23)]
      (onCuriosityStart (StateManager_new 0 0)))))) \<and>
   sm_interactionTypes (fst (StateManager_update 8001 (fst (StateManager_records
      [(1000, 1000, ''petalClick'', 10, 20), (2000, 2000, ''centerClick'', 11, 21),
       (3000, 3001, ''hover'', 12, 22), (4000, 4000, ''drag'', 13, 23)]
      (onCuriosityStart (StateManager_new 0 0)))))) = {}"
proof -
  let ?is = "[(1000, 1000, ''petalClick'', 10, 20), (2000, 2000, ''centerClick'', 11, 21),
       (3000, 3001, ''hover'', 12, 22), (4000, 4000, ''drag'', 13, 23)] :: interaction list"
  let ?s = "fst (StateManager_records ?is (onCuriosityStart (StateManager_new 0 0)))"
  have c: "card (set (map interaction_type ?is)) = 4"
    by (simp add: interaction_type_def)
  have e: "sm_curiosityEndTime ?s = 8001"
    by (simp add: recordInteraction_def activateCuriosity_def onCuriosityStart_def
        StateManager_new_def Let_def fire_def sm_timing_defs)
  note t = curiosity_activates_once[of ?is 0 0 ?s ty 8001 now2 cx cy]
  have a: "getCuriosityActive ?s" using t c by simp
  have n: "length (filter is_curiosity_start
      (snd (StateManager_records ?is (onCuriosityStart (StateManager_new 0 0))))) = 1"
    using t c by simp
  have u: "\<not> sm_curiosityActive (fst (StateManager_update 8001 ?s)) \<and>
      sm_interactionTypes (fst (StateManager_update 8001 ?s)) = {}"
    using t a e by (simp add: getCuriosityActive_def)
  from a n e u show ?thesis by blast
qed

section \<open>WindField: the gust envelope\<close>









section \<open>Petal: what an update keeps\<close>

lemma Petal_bloom_step_keeps [simp]:
  "pt_isHovered (Petal_bloom_step dt p) = pt_isHovered p"
  "pt_length (Petal_bloom_step dt p) = pt_length p"
  "pt_width (Petal_bloom_step dt p) = pt_width p"
  "pt_baseAngle (Petal_bloom_step dt p) = pt_baseAngle p"
  "pt_visible (Petal_bloom_step dt p) = pt_visible p"
  "pt_naturalFreq (Petal_bloom_step dt p) = pt_naturalFreq p"
  "pt_phase (Petal_bloom_step dt p) = pt_phase p"
  "pt_lengthVariation (Petal_bloom_step dt p) = pt_lengthVariation p"
  "pt_widthVariation (Petal_bloom_step dt p) = pt_widthVariation p"
  "pt_index (Petal_bloom_step dt p) = pt_index p"
  "pt_angle (Petal_bloom_step dt p) = pt_angle p"
  "pt_spinAngle (Petal_bloom_step dt p) = pt_spinAngle p"
  "pt_spinVelocity (Petal_bloom_step dt p) = pt_spinVelocity p"
  "pt_bendAngle (Petal_bloom_step dt p) = pt_bendAngle p"
  "pt_bendVelocity (Petal_bloom_step dt p) = pt_bendVelocity p"
  "pt_bendStiffness (Petal_bloom_step dt p) = pt_bendStiffness p"
  by (simp_all add: Petal_bloom_step_def Let_def)

lemma Petal_bend_step_keeps [simp]:
  "pt_isHovered (Petal_bend_step dt time wnd p) = pt_isHovered p"
  "pt_length (Petal_bend_step dt time wnd p) = pt_length p"
  "pt_width (Petal_bend_step dt time wnd p) = pt_width p"
  "pt_baseAngle (Petal_bend_step dt time wnd p) = pt_baseAngle p"
  "pt_visible (Petal_bend_step dt time wnd p) = pt_visible p"
  "pt_naturalFreq (Petal_bend_step dt time wnd p) = pt_naturalFreq p"
  "pt_phase (Petal_bend_step dt time wnd p) = pt_phase p"
  "pt_lengthVariation (Petal_bend_step dt time wnd p) = pt_lengthVariation p"
  "pt_widthVariation (Petal_bend_step dt time wnd p) = pt_widthVariation p"
  "pt_index (Petal_bend_step dt time wnd p) = pt_index p"
  "pt_angle (Petal_bend_step dt time wnd p) = pt_angle p"
  "pt_spinAngle (Petal_bend_step dt time wnd p) = pt_spinAngle p"
  "pt_spinVelocity (Petal_bend_step dt time wnd p) = pt_spinVelocity p"
  "pt_bendStiffness (Petal_bend_step dt time wnd p) = pt_bendStiffness p"
  "pt_scale (Petal_bend_step dt time wnd p) = pt_scale p"
  "pt_bloomProgress (Petal_bend_step dt time wnd p) = pt_bloomProgress p"
  by (simp_all add: Petal_bend_step_def Let_def)

lemma Petal_angle_step_keeps [simp]:
  "pt_isHovered (Petal_angle_step time p) = pt_isHovered p"
  "pt_length (Petal_angle_step time p) = pt_length p"
  "pt_width (Petal_angle_step time p) = pt_width p"
  "pt_baseAngle (Petal_angle_step time p) = pt_baseAngle p"
  "pt_visible (Petal_angle_step time p) = pt_visible p"
  "pt_naturalFreq (Petal_angle_step time p) = pt_naturalFreq p"
  "pt_phase (Petal_angle_step time p) = pt_phase p"
  "pt_lengthVariation (Petal_angle_step time p) = pt_lengthVariation p"
  "pt_widthVariation (Petal_angle_step time p) = pt_widthVariation p"
  "pt_index (Petal_angle_step time p) = pt_index p"
  "pt_spinAngle (Petal_angle_step time p) = pt_spinAngle p"
  "pt_spinVelocity (Petal_angle_step time p) = pt_spinVelocity p"
  "pt_bendAngle (Petal_angle_step time p) = pt_bendAngle p"
  "pt_bendVelocity (Petal_angle_step time p) = pt_bendVelocity p"
  "pt_bendStiffness (Petal_angle_step time p) = pt_bendStiffness p"
  "pt_scale (Petal_angle_step time p) = pt_scale p"
  "pt_bloomProgress (Petal_angle_step time p) = pt_bloomProgress p"
  by (simp_all add: Petal_angle_step_def Let_def)

lemma Petal_tilt_step_keeps [simp]:
  "pt_isHovered (Petal_tilt_step dt p) = pt_isHovered p"
  "pt_length (Petal_tilt_step dt p) = pt_length p"
  "pt_width (Petal_tilt_step dt p) = pt_width p"
  "pt_baseAngle (Petal_tilt_step dt p) = pt_baseAngle p"
  "pt_visible (Petal_tilt_step dt p) = pt_visible p"
  "pt_naturalFreq (Petal_tilt_step dt p) = pt_naturalFreq p"
  "pt_phase (Petal_tilt_step dt p) = pt_phase p"
  "pt_lengthVariation (Petal_tilt_step dt p) = pt_lengthVariation p"
  "pt_widthVariation (Petal_tilt_step dt p) = pt_widthVariation p"
  "pt_index (Petal_tilt_step dt p) = pt_index p"
  "pt_angle (Petal_tilt_step dt p) = pt_angle p"
  "pt_spinAngle (Petal_tilt_step dt p) = pt_spinAngle p"
  "pt_spinVelocity (Petal_tilt_step dt p) = pt_spinVelocity p"
  "pt_bendAngle (Petal_tilt_step dt p) = pt_bendAngle p"
  "pt_bendVelocity (Petal_tilt_step dt p) = pt_bendVelocity p"
  "pt_bendStiffness (Petal_tilt_step dt p) = pt_bendStiffness p"
  "pt_scale (Petal_tilt_step dt p) = pt_scale p"
  "pt_bloomProgress (Petal_tilt_step dt p) = pt_bloomProgress p"
  by (simp_all add: Petal_tilt_step_def Let_def)

lemma Petal_spin_step_keeps [simp]:
  "pt_isHovered (Petal_spin_step dt p) = pt_isHovered p"
  "pt_length (Petal_spin_step dt p) = pt_length p"
  "pt_width (Petal_spin_step dt p) = pt_width p"
  "pt_baseAngle (Petal_spin_step dt p) = pt_baseAngle p"
  "pt_visible (Petal_spin_step dt p) = pt_visible p"
  "pt_naturalFreq (Petal_spin_step dt p) = pt_naturalFreq p"
  "pt_phase (Petal_spin_step dt p) = pt_phase p"
  "pt_lengthVariation (Petal_spin_step dt p) = pt_lengthVariation p"
  "pt_widthVariation (Petal_spin_step dt p) = pt_widthVariation p"
  "pt_index (Petal_spin_step dt p) = pt_index p"
  "pt_angle (Petal_spin_step dt p) = pt_angle p"
  "pt_bendAngle (Petal_spin_step dt p) = pt_bendAngle p"
  "pt_bendVelocity (Petal_spin_step dt p) = pt_bendVelocity p"
  "pt_bendStiffness (Petal_spin_step dt p) = pt_bendStiffness p"
  "pt_scale (Petal_spin_step dt p) = pt_scale p"
  "pt_bloomProgress (Petal_spin_step dt p) = pt_bloomProgress p"
  by (simp_all add: Petal_spin_step_def Let_def)

lemma Petal_scale_step_keeps [simp]:
  "pt_isHovered (Petal_scale_step dt p) = pt_isHovered p"
  "pt_length (Petal_scale_step dt p) = pt_length p"
  "pt_width (Petal_scale_step dt p) = pt_width p"
  "pt_baseAngle (Petal_scale_step dt p) = pt_baseAngle p"
  "pt_visible (Petal_scale_step dt p) = pt_visible p"
  "pt_naturalFreq (Petal_scale_step dt p) = pt_naturalFreq p"
  "pt_phase (Petal_scale_step dt p) = pt_phase p"
  "pt_lengthVariation (Petal_scale_step dt p) = pt_lengthVariation p"
  "pt_widthVariation (Petal_scale_step dt p) = pt_widthVariation p"
  "pt_index (Petal_scale_step dt p) = pt_index p"
  "pt_angle (Petal_scale_step dt p) = pt_angle p"
  "pt_spinAngle (Petal_scale_step dt p) = pt_spinAngle p"
  "pt_spinVelocity (Petal_scale_step dt p) = pt_spinVelocity p"
  "pt_bendAngle (Petal_scale_step dt p) = pt_bendAngle p"
  "pt_bendVelocity (Petal_scale_step dt p) = pt_bendVelocity p"
  "pt_bendStiffness (Petal_scale_step dt p) = pt_bendStiffness p"
  "pt_bloomProgress (Petal_scale_step dt p) = pt_bloomProgress p"
  by (simp_all add: Petal_scale_step_def Let_def)

lemma Petal_glow_step_keeps [simp]:
  "pt_isHovered (Petal_glow_step p) = pt_isHovered p"
  "pt_length (Petal_glow_step p) = pt_length p"
  "pt_width (Petal_glow_step p) = pt_width p"
  "pt_baseAngle (Petal_glow_step p) = pt_baseAngle p"
  "pt_visible (Petal_glow_step p) = pt_visible p"
  "pt_naturalFreq (Petal_glow_step p) = pt_naturalFreq p"
  "pt_phase (Petal_glow_step p) = pt_phase p"
  "pt_lengthVariation (Petal_glow_step p) = pt_lengthVariation p"
  "pt_widthVariation (Petal_glow_step p) = pt_widthVariation p"
  "pt_index (Petal_glow_step p) = pt_index p"
  "pt_angle (Petal_glow_step p) = pt_angle p"
  "pt_spinAngle (Petal_glow_step p) = pt_spinAngle p"
  "pt_spinVelocity (Petal_glow_step p) = pt_spinVelocity p"
  "pt_bendAngle (Petal_glow_step p) = pt_bendAngle p"
  "pt_bendVelocity (Petal_glow_step p) = pt_bendVelocity p"
  "pt_bendStiffness (Petal_glow_step p) = pt_bendStiffness p"
  "pt_scale (Petal_glow_step p) = pt_scale p"
  "pt_bloomProgress (Petal_glow_step p) = pt_bloomProgress p"
  by (simp_all add: Petal_glow_step_def Let_def)

lemma Petal_ripple_step_keeps [simp]:
  "pt_isHovered (Petal_ripple_step dt p) = pt_isHovered p"
  "pt_length (Petal_ripple_step dt p) = pt_length p"
  "pt_width (Petal_ripple_step dt p) = pt_width p"
  "pt_baseAngle (Petal_ripple_step dt p) = pt_baseAngle p"
  "pt_visible (Petal_ripple_step dt p) = pt_visible p"
  "pt_naturalFreq (Petal_ripple_step dt p) = pt_naturalFreq p"
  "pt_phase (Petal_ripple_step dt p) = pt_phase p"
  "pt_lengthVariation (Petal_ripple_step dt p) = pt_lengthVariation p"
  "pt_widthVariation (Petal_ripple_step dt p) = pt_widthVariation p"
  "pt_index (Petal_ripple_step dt p) = pt_index p"
  "pt_angle (Petal_ripple_step dt p) = pt_angle p"
  "pt_spinAngle (Petal_ripple_step dt p) = pt_spinAngle p"
  "pt_spinVelocity (Petal_ripple_step dt p) = pt_spinVelocity p"
  "pt_bendAngle (Petal_ripple_step dt p) = pt_bendAngle p"
  "pt_bendVelocity (Petal_ripple_step dt p) = pt_bendVelocity p"
  "pt_bendStiffness (Petal_ripple_step dt p) = pt_bendStiffness p"
  "pt_scale (Petal_ripple_step dt p) = pt_scale p"
  "pt_bloomProgress (Petal_ripple_step dt p) = pt_bloomProgress p"
  by (simp_all add: Petal_ripple_step_def Let_def)

lemma Petal_angle_step_angle [simp]:
  "pt_angle (Petal_angle_step time p) =
     pt_baseAngle p + pt_bendAngle p + sin (time * pt_naturalFreq p * 0.3 + pt_phase p) * 0.008"
  by (simp add: Petal_angle_step_def Let_def)

lemma Petal_update_keeps:
  assumes "Petal_update dt wind now p = Inr p'"
  shows "pt_isHovered p' = pt_isHovered p" "pt_length p' = pt_length p" "pt_width p' = pt_width p"
    "pt_baseAngle p' = pt_baseAngle p" "pt_visible p' = pt_visible p"
    "pt_lengthVariation p' = pt_lengthVariation p" "pt_widthVariation p' = pt_widthVariation p"
    "pt_index p' = pt_index p"
  using assms
  by (auto simp: Petal_update_def Let_def split: if_splits option.splits)

lemma Petal_update_angle:
  assumes "pt_visible p" "Petal_update dt wind now p = Inr p'"
  shows "pt_angle p' = pt_baseAngle p' + pt_bendAngle p' +
           sin (now * 0.001 * pt_naturalFreq p * 0.3 + pt_phase p) * 0.008"
  using assms
  by (auto simp: Petal_update_def Let_def split: if_splits option.splits)

section \<open>PetalManager: hover\<close>

lemma hover_consistent_iff:
  "hover_consistent m \<longleftrightarrow>
     (\<forall>i < length (pm_petals m). pt_isHovered (pm_petals m ! i) = (pm_hoveredPetal m = Some i)) \<and>
     (\<forall>h. pm_hoveredPetal m = Some h \<longrightarrow> h < length (pm_petals m))"
  by (auto simp: hover_consistent_def list_all_iff split: option.splits)

lemma petal_scan_bound: "petal_scan n x y m = Some k \<Longrightarrow> k < n"
  by (induction n) (auto split: if_splits)

lemma getPetalAtPoint_bound: "getPetalAtPoint x y m = Some k \<Longrightarrow> k < length (pm_petals m)"
  unfolding getPetalAtPoint_def by (rule petal_scan_bound)

lemma containsPoint_fields:
  assumes "pt_visible p' = pt_visible p" "pt_bloomProgress p' = pt_bloomProgress p"
    "pt_angle p' = pt_angle p" "pt_spinAngle p' = pt_spinAngle p" "pt_length p' = pt_length p"
    "pt_scale p' = pt_scale p" "pt_width p' = pt_width p"
  shows "Petal_containsPoint px py cx cy p' = Petal_containsPoint px py cx cy p"
  by (simp only: Petal_containsPoint_def displayAngle_def assms)

lemma containsPoint_setHovered [simp]:
  "Petal_containsPoint px py cx cy (Petal_setHovered b u p) = Petal_containsPoint px py cx cy p"
  by (rule containsPoint_fields) (simp_all add: Petal_setHovered_def Let_def)

lemma petal_scan_cong:
  assumes "pm_centerX m' = pm_centerX m" "pm_centerY m' = pm_centerY m"
    and "\<forall>i < n. Petal_containsPoint x y (pm_centerX m) (pm_centerY m) (pm_petals m' ! i)
          = Petal_containsPoint x y (pm_centerX m) (pm_centerY m) (pm_petals m ! i)"
  shows "petal_scan n x y m' = petal_scan n x y m"
  using assms by (induction n) auto

lemma at_most_one_hovered:
  assumes "hover_consistent m"
  shows "length (filter pt_isHovered (pm_petals m)) \<le> 1"
proof -
  have "{i. i < length (pm_petals m) \<and> pt_isHovered (pm_petals m ! i)}
      \<subseteq> (case pm_hoveredPetal m of None \<Rightarrow> {} | Some h \<Rightarrow> {h})"
    using assms by (auto simp: hover_consistent_iff split: option.splits)
  then have "card {i. i < length (pm_petals m) \<and> pt_isHovered (pm_petals m ! i)}
      \<le> card (case pm_hoveredPetal m of None \<Rightarrow> {} | Some h \<Rightarrow> {h})"
    by (intro card_mono) (auto split: option.splits)
  also have "\<dots> \<le> 1" by (simp split: option.splits)
  finally show ?thesis by (simp add: length_filter_conv_card)
qed

lemma handleHover_result:
  "fst (snd (handleHover x y u m)) = getPetalAtPoint x y m"
  "pm_hoveredPetal (fst (handleHover x y u m)) = getPetalAtPoint x y m"
  "snd (snd (handleHover x y u m)) = hover_calls (pm_hoveredPetal m) (getPetalAtPoint x y m)"
  "length (pm_petals (fst (handleHover x y u m))) = length (pm_petals m)"
  "pm_centerX (fst (handleHover x y u m)) = pm_centerX m"
  "pm_centerY (fst (handleHover x y u m)) = pm_centerY m"
  by (auto simp: handleHover_def Let_def hover_calls_def split: option.splits prod.splits)

lemma handleHover_petals:
  "i < length (pm_petals m) \<Longrightarrow>
   pm_petals (fst (handleHover x y u m)) ! i =
     (if pm_hoveredPetal m = getPetalAtPoint x y m then pm_petals m ! i
      else if getPetalAtPoint x y m = Some i then Petal_setHovered True u (pm_petals m ! i)
      else if pm_hoveredPetal m = Some i then Petal_setHovered False u (pm_petals m ! i)
      else pm_petals m ! i)"
  by (auto simp: handleHover_def Let_def nth_list_update split: option.splits prod.splits)

lemma setHovered_flag [simp]: "pt_isHovered (Petal_setHovered b u p) = b"
  by (simp add: Petal_setHovered_def Let_def)

lemma handleHover_consistent:
  assumes "hover_consistent m"
  shows "hover_consistent (fst (handleHover x y u m))"
  using assms getPetalAtPoint_bound[of x y m]
  unfolding hover_consistent_iff handleHover_result
  by (auto simp: handleHover_petals)

lemma handleHover_same_hit:
  "getPetalAtPoint x y (fst (handleHover x y u m)) = getPetalAtPoint x y m"
  unfolding getPetalAtPoint_def handleHover_result
  by (rule petal_scan_cong) (auto simp: handleHover_result handleHover_petals)



lemma hover_consistent_keep:
  assumes "hover_consistent m" "length (pm_petals m') = length (pm_petals m)"
    "pm_hoveredPetal m' = pm_hoveredPetal m"
    "\<And>i. i < length (pm_petals m) \<Longrightarrow> pt_isHovered (pm_petals m' ! i) = pt_isHovered (pm_petals m ! i)"
  shows "hover_consistent m'"
  using assms unfolding hover_consistent_iff by simp

lemma list_update_flag:
  assumes "pt_isHovered p' = pt_isHovered (ps ! k)"
  shows "pt_isHovered (ps[k := p'] ! i) = pt_isHovered (ps ! i)"
proof (cases "k < length ps")
  case True
  then show ?thesis using assms by (simp add: nth_list_update)
next
  case False
  then have "ps[k := p'] = ps" by (simp add: list_update_beyond)
  then show ?thesis by simp
qed

lemma Petal_misc_keeps [simp]:
  "pt_isHovered (fst (Petal_triggerClick u p)) = pt_isHovered p"
  "pt_isHovered (Petal_triggerRipple u p) = pt_isHovered p"
  "pt_isHovered (fst (Petal_triggerBloom p)) = pt_isHovered p"
  "pt_isHovered (Petal_timer t p) = pt_isHovered p"
  by (cases t; simp add: Petal_triggerClick_def Petal_triggerRipple_def Petal_triggerBloom_def Let_def)+

lemma new_consistent: "hover_consistent (PetalManager_new cx cy r draws)"
  by (simp add: hover_consistent_iff PetalManager_new_def Petal_new_def Let_def)

lemma click_consistent: "hover_consistent m \<Longrightarrow> hover_consistent (fst (handleClick x y u m))"
  unfolding hover_consistent_iff
  by (auto simp: handleClick_def Let_def list_update_flag case_prod_beta split: option.splits)

lemma ripple_at_consistent:
  "hover_consistent m \<Longrightarrow> ripple_at i u m = Inr m' \<Longrightarrow> hover_consistent m'"
  unfolding hover_consistent_iff
  by (auto simp: ripple_at_def list_update_flag split: if_splits)

lemma timer_consistent:
  assumes "hover_consistent m" "PetalManager_timer t u m = Inr (m', ts)"
  shows "hover_consistent m'"
proof (cases t)
  case (PetalTimer k pt)
  with assms show ?thesis
    unfolding hover_consistent_iff by (auto simp: list_update_flag)
next
  case (RippleNeighbor src dir)
  with assms show ?thesis
    by (auto split: option.splits sum.splits dest: ripple_at_consistent)
next
  case (RippleSecond nb dir)
  with assms show ?thesis
    by (auto split: option.splits sum.splits dest: ripple_at_consistent)
qed

lemma bloom_consistent: "hover_consistent m \<Longrightarrow> hover_consistent (fst (triggerAllBloom m))"
  unfolding hover_consistent_iff by (auto simp: triggerAllBloom_def)

lemma curiosity_consistent: "hover_consistent m \<Longrightarrow> hover_consistent (setCuriositySide a m)"
  unfolding hover_consistent_iff by (auto simp: setCuriositySide_def Let_def)

lemma reset_consistent: "hover_consistent m \<Longrightarrow> hover_consistent (resetCuriosity us m)"
  unfolding hover_consistent_iff by (auto simp: resetCuriosity_def)

lemma position_consistent: "hover_consistent m \<Longrightarrow> hover_consistent (updatePosition cx cy m)"
  unfolding hover_consistent_iff by (auto simp: updatePosition_def)

lemma PetalManager_update_nth:
  assumes "PetalManager_update dt wind now m = Inr m'"
  shows "length (pm_petals m') = length (pm_petals m)"
    and "pm_hoveredPetal m' = pm_hoveredPetal m"
    and "i < length (pm_petals m) \<Longrightarrow> Petal_update dt wind (now i) (pm_petals m ! i) = Inr (pm_petals m' ! i)"
proof -
  let ?rs = "map (\<lambda>i. Petal_update dt wind (now i) (pm_petals m ! i)) [0..<length (pm_petals m)]"
  have ne: "\<not> list_ex isl ?rs" and m': "m' = m\<lparr> pm_petals := map projr ?rs \<rparr>"
    using assms by (auto simp: PetalManager_update_def Let_def split: if_splits)
  show "length (pm_petals m') = length (pm_petals m)" "pm_hoveredPetal m' = pm_hoveredPetal m"
    by (simp_all add: m')
  assume i: "i < length (pm_petals m)"
  then have "\<not> isl (Petal_update dt wind (now i) (pm_petals m ! i))"
    using ne by (auto simp: list_ex_iff)
  then show "Petal_update dt wind (now i) (pm_petals m ! i) = Inr (pm_petals m' ! i)"
    using i by (cases "Petal_update dt wind (now i) (pm_petals m ! i)") (simp_all add: m')
qed

lemma update_consistent:
  assumes "hover_consistent m" "PetalManager_update dt wind now m = Inr m'"
  shows "hover_consistent m'"
  using assms(1) PetalManager_update_nth[OF assms(2)]
  by (intro hover_consistent_keep[of m m']) (auto dest: Petal_update_keeps(1))

lemma clear_consistent: "hover_consistent m \<Longrightarrow> hover_consistent (DaisyFlower_clearPetalHover u m)"
  unfolding hover_consistent_iff
  by (auto simp: DaisyFlower_clearPetalHover_def nth_list_update split: option.splits)

lemma reachable_consistent: "pm_reachable m \<Longrightarrow> hover_consistent m"
proof (induction rule: pm_reachable.induct)
  case (reach_new centerX centerY radius draws)
  show ?case by (rule new_consistent)
next
  case (reach_position m centerX centerY)
  then show ?case by (simp add: position_consistent)
next
  case (reach_hover m x y u)
  then show ?case by (simp add: handleHover_consistent)
next
  case (reach_click m x y u)
  then show ?case by (simp add: click_consistent)
next
  case (reach_timer m t u m' ts)
  then show ?case by (blast intro: timer_consistent)
next
  case (reach_bloom m)
  then show ?case by (simp add: bloom_consistent)
next
  case (reach_curiosity m angle)
  then show ?case by (simp add: curiosity_consistent)
next
  case (reach_reset m us)
  then show ?case by (simp add: reset_consistent)
next
  case (reach_update m deltaTime wind now m')
  then show ?case by (blast intro: update_consistent)
next
  case (reach_clear m u)
  then show ?case by (simp add: clear_consistent)
qed


text \<open>
  Claim C10. On every manager that the operations can produce, \<open>handleHover(x, y)\<close>
  returns the petal found by the hit test and leaves \<open>hoveredPetal\<close> equal to it (the hit
  test gives the same petal on the new state); when the hit petal differs from the
  hovered one it calls \<open>setHovered(false)\<close> on the previously hovered petal, if any, and
  then \<open>setHovered(true)\<close> on the petal hit, if any, and otherwise calls nothing; afterwards
  a petal's \<open>isHovered\<close> flag is set exactly when it is \<open>hoveredPetal\<close>, so at most one
  petal is hovered.
\<close>

theorem handleHover_single_hovered_petal:
  assumes "pm_reachable m"
  shows "fst (snd (handleHover x y u m)) = getPetalAtPoint x y m \<and>
         pm_hoveredPetal (fst (handleHover x y u m)) = fst (snd (handleHover x y u m)) \<and>
         getPetalAtPoint x y (fst (handleHover x y u m)) = getPetalAtPoint x y m \<and>
         snd (snd (handleHover x y u m)) = hover_calls (pm_hoveredPetal m) (getPetalAtPoint x y m) \<and>
         hover_consistent (fst (handleHover x y u m)) \<and>
         length (filter pt_isHovered (pm_petals (fst (handleHover x y u m)))) \<le> 1"
proof -
  have c: "hover_consistent m" using assms by (rule reachable_consistent)
  have c': "hover_consistent (fst (handleHover x y u m))" by (rule handleHover_consistent[OF c])
  show ?thesis
    using c' at_most_one_hovered[OF c'] handleHover_same_hit[of x y u m]
    by (simp add: handleHover_result)
qed

text \<open>The example state, and a hover over petal 0 there.\<close>

lemma PetalManager_update_Some:
  "PetalManager_update dt (Some w) now m =
     Inr (m\<lparr> pm_petals := map (\<lambda>i. projr (Petal_update dt (Some w) (now i) (pm_petals m ! i)))
                              [0..<length (pm_petals m)] \<rparr>)"
proof -
  have "\<not> isl (Petal_update dt (Some w) t p)" for t p
    by (simp add: Petal_update_def Let_def)
  then show ?thesis
    by (simp add: PetalManager_update_def Let_def list_ex_iff comp_def)
qed

lemma demo_reachable: "pm_reachable demo_manager"
proof -
  let ?m0 = "PetalManager_new 0 0 100 (\<lambda>i. demo_draws)"
  have r0: "pm_reachable ?m0" by (rule reach_new)
  obtain m1 where t: "PetalManager_timer (PetalTimer 0 SetVisible) 0 ?m0 = Inr (m1, [])" by simp
  have r1: "pm_reachable m1" by (rule reach_timer[OF r0 t])
  have m1: "fst (projr (PetalManager_timer (PetalTimer 0 SetVisible) 0 ?m0)) = m1" using t by simp
  have u: "PetalManager_update 1000 (Some \<lparr> vx = 0, vy = 0 \<rparr>) (\<lambda>i. 1000) m1 = Inr demo_manager"
    unfolding demo_manager_def m1 by (simp add: PetalManager_update_Some)
  show ?thesis by (rule reach_update[OF r1 u])
qed

lemma demo_petals:
  "length (pm_petals demo_manager) = 36"
  "pm_centerX demo_manager = 0" "pm_centerY demo_manager = 0"
  "pm_hoveredPetal demo_manager = None"
  "0 < i \<Longrightarrow> i < 36 \<Longrightarrow> \<not> pt_visible (pm_petals demo_manager ! i)"
  by (simp_all add: demo_manager_def PetalManager_update_Some PetalManager_new_def
      PHYSICS_petalCount_def Petal_update_def Petal_new_def Let_def nth_list_update)

lemma demo_petal0:
  "pt_visible (pm_petals demo_manager ! 0)"
  "pt_bloomProgress (pm_petals demo_manager ! 0) = 0.8"
  "pt_scale (pm_petals demo_manager ! 0) = 1"
  "pt_length (pm_petals demo_manager ! 0) = 80"
  "pt_width (pm_petals demo_manager ! 0) = 15"
  "pt_spinAngle (pm_petals demo_manager ! 0) = 0"
  "pt_angle (pm_petals demo_manager ! 0) = sin (1.05 + pi) * 0.008"
  by (simp_all add: demo_manager_def PetalManager_update_Some PetalManager_new_def
      PHYSICS_petalCount_def Petal_update_def Petal_new_def Let_def demo_draws_def
      Utils_randomRange_def upt_conv_Cons
      Petal_bloom_step_def Petal_bend_step_def Petal_angle_step_def Petal_tilt_step_def
      Petal_spin_step_def Petal_scale_step_def Petal_glow_step_def Petal_ripple_step_def)

lemma hypot_axis [simp]: "hypot a 0 = \<bar>a\<bar>"
  by (simp add: hypot_def)

lemma atan2_axis [simp]: "0 < a \<Longrightarrow> atan2 0 a = 0"
  by (simp add: atan2_def)

lemma demo_petal0_angle: "\<bar>pt_angle (pm_petals demo_manager ! 0)\<bar> \<le> 0.008"
proof -
  have "\<bar>sin (1.05 + pi)\<bar> * 0.008 \<le> 1 * 0.008"
    by (intro mult_right_mono) simp_all
  then show ?thesis by (simp only: demo_petal0(7) abs_mult) simp
qed

lemma demo_hit0: "Petal_containsPoint 40 0 0 0 (pm_petals demo_manager ! 0)"
proof -
  define a where "a = pt_angle (pm_petals demo_manager ! 0)"
  have a: "\<bar>a\<bar> \<le> 0.008" unfolding a_def by (rule demo_petal0_angle)
  have p: "\<not> pi < \<bar>a\<bar>" using a pi_ge_two by simp
  have q: "\<bar>a\<bar> * 40 < 15 * (1 - 20 / 64)" using a by simp
  show ?thesis
    unfolding Petal_containsPoint_def displayAngle_def a_def[symmetric] Let_def
    using p q by (simp add: demo_petal0(1-6))
qed

lemma petal_scan_first:
  assumes "0 < n" "Petal_containsPoint x y (pm_centerX m) (pm_centerY m) (pm_petals m ! 0)"
    "\<And>i. 0 < i \<Longrightarrow> i < n \<Longrightarrow> \<not> Petal_containsPoint x y (pm_centerX m) (pm_centerY m) (pm_petals m ! i)"
  shows "petal_scan n x y m = Some 0"
  using assms
proof (induction n)
  case 0
  then show ?case by simp
next
  case (Suc n)
  show ?case
  proof (cases "n = 0")
    case True
    then show ?thesis using Suc.prems(2) by simp
  next
    case False
    then have "\<not> Petal_containsPoint x y (pm_centerX m) (pm_centerY m) (pm_petals m ! n)"
      using Suc.prems(3)[of n] by simp
    moreover have "petal_scan n x y m = Some 0"
      using False Suc.prems by (intro Suc.IH) auto
    ultimately show ?thesis by simp
  qed
qed

lemma demo_hit: "getPetalAtPoint 40 0 demo_manager = Some 0"
  unfolding getPetalAtPoint_def demo_petals
proof (rule petal_scan_first)
  show "0 < (36::nat)" by simp
  show "Petal_containsPoint 40 0 (pm_centerX demo_manager) (pm_centerY demo_manager)
      (pm_petals demo_manager ! 0)"
    by (simp only: demo_petals demo_hit0)
  fix i :: nat assume "0 < i" "i < 36"
  then have "\<not> pt_visible (pm_petals demo_manager ! i)" by (rule demo_petals(5))
  then show "\<not> Petal_containsPoint 40 0 (pm_centerX demo_manager) (pm_centerY demo_manager)
      (pm_petals demo_manager ! i)"
    by (simp add: Petal_containsPoint_def)
qed


theorem handleHover_single_hovered_petal_witness:
  "fst (snd (handleHover 40 0 0.5 demo_manager)) = Some 0 \<and>
   pm_hoveredPetal (fst (handleHover 40 0 0.5 demo_manager)) = Some 0 \<and>
   snd (snd (handleHover 40 0 0.5 demo_manager)) = [(0, True)] \<and>
   length (filter pt_isHovered (pm_petals (fst (handleHover 40 0 0.5 demo_manager)))) \<le> 1"
  using handleHover_single_hovered_petal[OF demo_reachable, of 40 0 "0.5"]
  by (simp add: demo_hit demo_petals(4) hover_calls_def)

section \<open>Updates and hit tests before a subsystem is visible\<close>


lemma Petal_update_invisible: "\<not> pt_visible p \<Longrightarrow> Petal_update dt wind now p = Inr p"
  by (simp add: Petal_update_def)

lemma Stem_update_invisible: "\<not> st_visible s \<Longrightarrow> Stem_update dt wind now s = Inr s"
  by (simp add: Stem_update_def)

lemma CorePulse_update_invisible: "\<not> cp_visible c \<Longrightarrow> CorePulse_update dt mi c = c"
  by (simp add: CorePulse_update_def)

lemma new_invisible:
  "\<not> st_visible (Stem_new bx by h)" "\<not> pt_visible (Petal_new i n cx cy r u)"
  "\<not> cp_visible (CorePulse_new x y r v)"
  by (simp_all add: Stem_new_def Petal_new_def CorePulse_new_def Let_def)

lemma PetalManager_update_invisible:
  assumes "list_all (\<lambda>p. \<not> pt_visible p) (pm_petals m)"
  shows "PetalManager_update dt wind now m = Inr m"
proof -
  have a: "map (\<lambda>i. Petal_update dt wind (now i) (pm_petals m ! i)) [0..<length (pm_petals m)]
      = map Inr (pm_petals m)"
    using assms by (intro nth_equalityI) (simp_all add: list_all_length Petal_update_invisible)
  show ?thesis
    unfolding PetalManager_update_def Let_def a
    by (simp add: list_ex_iff comp_def)
qed


text \<open>
  Claim C9. \<open>update()\<close> on a stem, a petal or the core that is not visible returns the
  state unchanged and does not throw, whatever its arguments (also with \<open>wind\<close>
  undefined); this is the state from the constructor until \<open>startGrowth\<close>, the bloom timer
  set by \<open>startBloom\<close>, or \<open>startFill\<close>. \<open>containsPoint\<close> is false at every point for a
  petal that is not visible or whose bloom progress is below 0.5, and for a core that is not
  visible or whose fill progress is below 0.5.
\<close>

theorem updates_and_hit_tests_before_visible:
  "(\<not> st_visible s \<longrightarrow> Stem_update dt wind now s = Inr s) \<and>
   (\<not> pt_visible p \<longrightarrow> Petal_update dt wind now p = Inr p) \<and>
   (\<not> cp_visible c \<longrightarrow> CorePulse_update dt mi c = c) \<and>
   Stem_update dt wind now (Stem_new bx by h) = Inr (Stem_new bx by h) \<and>
   Petal_update dt wind now (Petal_new i n cx cy r ud) = Inr (Petal_new i n cx cy r ud) \<and>
   Petal_update dt wind now (fst (Petal_startBloom delay (Petal_new i n cx cy r ud)))
     = Inr (Petal_new i n cx cy r ud) \<and>
   PetalManager_update dt wind nows (fst (PetalManager_startBloom us (PetalManager_new cx cy r draws)))
     = Inr (PetalManager_new cx cy r draws) \<and>
   CorePulse_update dt mi (CorePulse_new x y r ut) = CorePulse_new x y r ut \<and>
   (\<not> pt_visible p \<or> pt_bloomProgress p < 0.5 \<longrightarrow> \<not> Petal_containsPoint px py cx cy p) \<and>
   (\<not> cp_visible c \<or> cp_fillProgress c < 0.5 \<longrightarrow> \<not> CorePulse_containsPoint px py c)"
proof -
  have m: "list_all (\<lambda>p. \<not> pt_visible p) (pm_petals (PetalManager_new cx cy r draws))"
    by (simp add: PetalManager_new_def list_all_iff new_invisible)
  have b: "fst (PetalManager_startBloom us (PetalManager_new cx cy r draws)) = PetalManager_new cx cy r draws"
    by (simp add: PetalManager_startBloom_def Let_def)
  show ?thesis
    using PetalManager_update_invisible[OF m, of dt wind nows]
    by (simp add: Stem_update_invisible Petal_update_invisible CorePulse_update_invisible
        new_invisible b Petal_startBloom_def Petal_containsPoint_def CorePulse_containsPoint_def)
qed

text \<open>
  A new stem, petal and core, updated with undefined wind; a petal at bloom progress 0.4
  and a core at fill progress 0.4, both visible, tested at their own centre.
\<close>

theorem updates_and_hit_tests_before_visible_witness:
  "Stem_update 16 None 1000 (Stem_new 400 600 200) = Inr (Stem_new 400 600 200) \<and>
   \<not> Petal_containsPoint 0 0 0 0
       ((Petal_new 0 36 0 0 100 \<lparr> u_hueOffset = 0, u_lengthVariation = 0, u_widthVariation = 0,
           u_phase = 0, u_naturalFreq = 0, u_tiltStiffness = 0, u_bendStiffness = 0 \<rparr>)
         \<lparr> pt_visible := True, pt_bloomProgress := 0.4 \<rparr>) \<and>
   \<not> CorePulse_containsPoint 0 0 ((CorePulse_new 0 0 25 (\<lambda>i k. 0))\<lparr> cp_visible := True, cp_fillProgress := 0.4 \<rparr>)"
  using updates_and_hit_tests_before_visible[of
      "Stem_new 400 600 200" 16 None 1000
      "(Petal_new 0 36 0 0 100 \<lparr> u_hueOffset = 0, u_lengthVariation = 0, u_widthVariation = 0,
           u_phase = 0, u_naturalFreq = 0, u_tiltStiffness = 0, u_bendStiffness = 0 \<rparr>)
         \<lparr> pt_visible := True, pt_bloomProgress := 0.4 \<rparr>"
      "(CorePulse_new 0 0 25 (\<lambda>i k. 0))\<lparr> cp_visible := True, cp_fillProgress := 0.4 \<rparr>"
      None 400 600 200 0 36 0 0 100 _ _ _ _ _ _ _ _ 0 0]
  by simp

section \<open>Petal: display angle and geometry\<close>

lemma Petal_update_display:
  assumes "pt_visible p" "Petal_update dt wind now p = Inr p'"
  shows "displayAngle p' = pt_baseAngle p' + pt_bendAngle p' + pt_spinAngle p' +
           sin (now * 0.001 * pt_naturalFreq p * 0.3 + pt_phase p) * 0.008"
  using Petal_update_angle[OF assms] by (simp add: displayAngle_def)

lemma sway_bound: "\<bar>sin x * 0.008\<bar> \<le> (0.008::real)"
proof -
  have "\<bar>sin x\<bar> * 0.008 \<le> 1 * (0.008::real)" by (intro mult_right_mono) simp_all
  then show ?thesis by (simp add: abs_mult)
qed

text \<open>No operation on a petal writes its length, width, variation factors or base angle.\<close>

lemma petal_op_keeps:
  assumes "petal_op p p'"
  shows "pt_length p' = pt_length p" "pt_width p' = pt_width p"
    "pt_lengthVariation p' = pt_lengthVariation p" "pt_widthVariation p' = pt_widthVariation p"
    "pt_baseAngle p' = pt_baseAngle p"
  using assms
proof (induction rule: petal_op.induct)
  case (op_timer p t)
  {
    case 1 show ?case by (cases t) simp_all
  next
    case 2 show ?case by (cases t) simp_all
  next
    case 3 show ?case by (cases t) simp_all
  next
    case 4 show ?case by (cases t) simp_all
  next
    case 5 show ?case by (cases t) simp_all
  }
qed (simp_all add: Petal_startBloom_def Petal_setHovered_def Petal_triggerClick_def
      Petal_triggerRipple_def Petal_triggerBloom_def Let_def Petal_update_keeps)

text \<open>
  Only \<open>update\<close> writes \<open>angle\<close>, \<open>bendAngle\<close> or \<open>spinAngle\<close>, so every operation keeps
  the display angle within the micro-sway amplitude of the sum of the three components.
\<close>

lemma petal_op_sway:
  assumes "petal_op p p'"
    "\<bar>displayAngle p - (pt_baseAngle p + pt_bendAngle p + pt_spinAngle p)\<bar> \<le> 0.008"
  shows "\<bar>displayAngle p' - (pt_baseAngle p' + pt_bendAngle p' + pt_spinAngle p')\<bar> \<le> 0.008"
  using assms
proof (induction rule: petal_op.induct)
  case (op_timer p t)
  then show ?case by (cases t) (simp_all add: displayAngle_def)
next
  case (op_update deltaTime wind now p p')
  show ?case
  proof (cases "pt_visible p")
    case False
    then have "p' = p" using op_update.hyps by (simp add: Petal_update_def)
    then show ?thesis using op_update.prems by simp
  next
    case True
    have d: "displayAngle p' - (pt_baseAngle p' + pt_bendAngle p' + pt_spinAngle p')
        = sin (now * 0.001 * pt_naturalFreq p * 0.3 + pt_phase p) * 0.008"
      using Petal_update_display[OF True op_update.hyps] by simp
    show ?thesis unfolding d by (rule sway_bound)
  qed
qed (simp_all add: displayAngle_def Petal_startBloom_def Petal_setHovered_def
      Petal_triggerClick_def Petal_triggerRipple_def Petal_triggerBloom_def Let_def)

lemma petal_ops_keep:
  assumes "rtranclp petal_op p0 p"
  shows "pt_length p = pt_length p0 \<and> pt_width p = pt_width p0 \<and>
         pt_lengthVariation p = pt_lengthVariation p0 \<and>
         pt_widthVariation p = pt_widthVariation p0 \<and> pt_baseAngle p = pt_baseAngle p0 \<and>
         (\<bar>displayAngle p0 - (pt_baseAngle p0 + pt_bendAngle p0 + pt_spinAngle p0)\<bar> \<le> 0.008 \<longrightarrow>
          \<bar>displayAngle p - (pt_baseAngle p + pt_bendAngle p + pt_spinAngle p)\<bar> \<le> 0.008)"
  using assms
proof (induction rule: rtranclp_induct)
  case base
  show ?case by simp
next
  case (step p p')
  note k = petal_op_keeps[OF step.hyps(2)]
  have s: "\<bar>displayAngle p0 - (pt_baseAngle p0 + pt_bendAngle p0 + pt_spinAngle p0)\<bar> \<le> 0.008 \<longrightarrow>
      \<bar>displayAngle p' - (pt_baseAngle p' + pt_bendAngle p' + pt_spinAngle p')\<bar> \<le> 0.008"
    using step.IH petal_op_sway[OF step.hyps(2)] by blast
  have g: "pt_length p' = pt_length p0" "pt_width p' = pt_width p0"
    "pt_lengthVariation p' = pt_lengthVariation p0"
    "pt_widthVariation p' = pt_widthVariation p0" "pt_baseAngle p' = pt_baseAngle p0"
    using step.IH by (simp_all only: k)
  from g s show ?case by blast
qed

lemma new_petal_fields:
  "pt_length (Petal_new i n cx cy r u) = r * 0.8 * Utils_randomRange (u_lengthVariation u) 0.88 1.12"
  "pt_width (Petal_new i n cx cy r u) = r * 0.15 * Utils_randomRange (u_widthVariation u) 0.9 1.1"
  "pt_lengthVariation (Petal_new i n cx cy r u) = Utils_randomRange (u_lengthVariation u) 0.88 1.12"
  "pt_widthVariation (Petal_new i n cx cy r u) = Utils_randomRange (u_widthVariation u) 0.9 1.1"
  "pt_baseAngle (Petal_new i n cx cy r u) = real i / real n * pi * 2"
  "displayAngle (Petal_new i n cx cy r u) =
     pt_baseAngle (Petal_new i n cx cy r u) + pt_bendAngle (Petal_new i n cx cy r u)
       + pt_spinAngle (Petal_new i n cx cy r u)"
  by (simp_all add: Petal_new_def Let_def displayAngle_def)

lemma petal_ops_new:
  assumes "rtranclp petal_op (Petal_new i n cx cy r u) p"
  shows "pt_length p = r * 0.8 * Utils_randomRange (u_lengthVariation u) 0.88 1.12"
    "pt_width p = r * 0.15 * Utils_randomRange (u_widthVariation u) 0.9 1.1"
    "pt_lengthVariation p = Utils_randomRange (u_lengthVariation u) 0.88 1.12"
    "pt_widthVariation p = Utils_randomRange (u_widthVariation u) 0.9 1.1"
    "pt_baseAngle p = real i / real n * pi * 2"
    "\<bar>displayAngle p - (pt_baseAngle p + pt_bendAngle p + pt_spinAngle p)\<bar> \<le> 0.008"
proof -
  let ?p0 = "Petal_new i n cx cy r u"
  note k = petal_ops_keep[OF assms]
  have g: "pt_length p = pt_length ?p0" "pt_width p = pt_width ?p0"
    "pt_lengthVariation p = pt_lengthVariation ?p0"
    "pt_widthVariation p = pt_widthVariation ?p0" "pt_baseAngle p = pt_baseAngle ?p0"
    using k by blast+
  show "pt_length p = r * 0.8 * Utils_randomRange (u_lengthVariation u) 0.88 1.12"
    unfolding g(1) by (rule new_petal_fields(1))
  show "pt_width p = r * 0.15 * Utils_randomRange (u_widthVariation u) 0.9 1.1"
    unfolding g(2) by (rule new_petal_fields(2))
  show "pt_lengthVariation p = Utils_randomRange (u_lengthVariation u) 0.88 1.12"
    unfolding g(3) by (rule new_petal_fields(3))
  show "pt_widthVariation p = Utils_randomRange (u_widthVariation u) 0.9 1.1"
    unfolding g(4) by (rule new_petal_fields(4))
  show "pt_baseAngle p = real i / real n * pi * 2"
    unfolding g(5) by (rule new_petal_fields(5))
  have "\<bar>displayAngle ?p0 - (pt_baseAngle ?p0 + pt_bendAngle ?p0 + pt_spinAngle ?p0)\<bar> \<le> 0.008"
    unfolding new_petal_fields(6) by simp
  then show "\<bar>displayAngle p - (pt_baseAngle p + pt_bendAngle p + pt_spinAngle p)\<bar> \<le> 0.008"
    using k by blast
qed

text \<open>
  Every operation on a manager keeps the number of petals and acts on each petal by at
  most one petal operation.
\<close>

lemma list_update_op:
  assumes "petal_op (ps ! k) p'" "i < length ps"
  shows "ps[k := p'] ! i = ps ! i \<or> petal_op (ps ! i) (ps[k := p'] ! i)"
  using assms by (cases "i = k") simp_all

lemma ripple_at_op:
  assumes "ripple_at j u m = Inr m'"
  shows "length (pm_petals m') = length (pm_petals m)"
    and "i < length (pm_petals m) \<Longrightarrow>
         pm_petals m' ! i = pm_petals m ! i \<or> petal_op (pm_petals m ! i) (pm_petals m' ! i)"
proof -
  have m': "m' = m\<lparr> pm_petals := (pm_petals m)[nat j := Petal_triggerRipple u (pm_petals m ! nat j)] \<rparr>"
    using assms by (simp add: ripple_at_def split: if_splits)
  show "length (pm_petals m') = length (pm_petals m)" by (simp add: m')
  assume "i < length (pm_petals m)"
  then show "pm_petals m' ! i = pm_petals m ! i \<or> petal_op (pm_petals m ! i) (pm_petals m' ! i)"
    unfolding m' using list_update_op[OF op_triggerRipple] by simp
qed

lemma pm_op_petals:
  assumes "pm_op m m'"
  shows "length (pm_petals m') = length (pm_petals m) \<and>
         (\<forall>i < length (pm_petals m).
            pm_petals m' ! i = pm_petals m ! i \<or> petal_op (pm_petals m ! i) (pm_petals m' ! i))"
  using assms
proof (induction rule: pm_op.induct)
  case (pm_position m centerX centerY)
  show ?case by (simp add: updatePosition_def)
next
  case (pm_startBloom m us)
  show ?case by (simp add: PetalManager_startBloom_def Let_def)
next
  case (pm_hover m x y u)
  show ?case
    by (auto simp: handleHover_result handleHover_petals intro: op_setHovered)
next
  case (pm_click m x y u)
  show ?case
  proof (cases "getPetalAtPoint x y m")
    case None
    then show ?thesis by (simp add: handleClick_def)
  next
    case (Some k)
    have e: "pm_petals (fst (handleClick x y u m)) =
        (pm_petals m)[k := fst (Petal_triggerClick u (pm_petals m ! k))]"
      using Some by (simp add: handleClick_def Let_def case_prod_beta)
    show ?thesis
      unfolding e using list_update_op[OF op_triggerClick] by simp
  qed
next
  case (pm_timer t u m m' ts)
  show ?case
  proof (cases t)
    case (PetalTimer k pt)
    then have e: "pm_petals m' = (pm_petals m)[k := Petal_timer pt (pm_petals m ! k)]"
      using pm_timer.hyps by auto
    show ?thesis unfolding e using list_update_op[OF op_timer] by simp
  next
    case (RippleNeighbor src dir)
    then obtain j where "ripple_at j u m = Inr m'"
      using pm_timer.hyps by (auto split: option.splits sum.splits)
    then show ?thesis using ripple_at_op by blast
  next
    case (RippleSecond nb dir)
    then obtain j where "ripple_at j u m = Inr m'"
      using pm_timer.hyps by (auto split: option.splits sum.splits)
    then show ?thesis using ripple_at_op by blast
  qed
next
  case (pm_bloom m)
  show ?case by (simp add: triggerAllBloom_def op_triggerBloom)
next
  case (pm_curiosity m angle)
  show ?case by (simp add: setCuriositySide_def Let_def op_bendStiffness)
next
  case (pm_reset m us)
  show ?case by (simp add: resetCuriosity_def op_bendStiffness)
next
  case (pm_update deltaTime wind now m m')
  note u = PetalManager_update_nth[OF pm_update.hyps]
  show ?case using u(1) u(3) by (auto intro: op_update)
next
  case (pm_clear m u)
  show ?case
  proof (cases "pm_hoveredPetal m")
    case None
    then show ?thesis by (simp add: DaisyFlower_clearPetalHover_def)
  next
    case (Some h)
    have e: "pm_petals (DaisyFlower_clearPetalHover u m) =
        (pm_petals m)[h := Petal_setHovered False u (pm_petals m ! h)]"
      using Some by (simp add: DaisyFlower_clearPetalHover_def)
    show ?thesis unfolding e using list_update_op[OF op_setHovered] by simp
  qed
qed

lemma pm_ops_petals:
  assumes "rtranclp pm_op m0 m"
  shows "length (pm_petals m) = length (pm_petals m0) \<and>
         (\<forall>i < length (pm_petals m0). rtranclp petal_op (pm_petals m0 ! i) (pm_petals m ! i))"
  using assms
proof (induction rule: rtranclp_induct)
  case base
  show ?case by simp
next
  case (step m m')
  note s = pm_op_petals[OF step.hyps(2)]
  show ?case
  proof (intro conjI allI impI)
    show "length (pm_petals m') = length (pm_petals m0)" using s step.IH by simp
    fix i assume i: "i < length (pm_petals m0)"
    then have a: "rtranclp petal_op (pm_petals m0 ! i) (pm_petals m ! i)" using step.IH by simp
    have "pm_petals m' ! i = pm_petals m ! i \<or> petal_op (pm_petals m ! i) (pm_petals m' ! i)"
      using s i step.IH by simp
    then show "rtranclp petal_op (pm_petals m0 ! i) (pm_petals m' ! i)"
      using a by (auto intro: rtranclp.rtrancl_into_rtrancl)
  qed
qed

lemma new_petal_nth:
  "i < 36 \<Longrightarrow> pm_petals (PetalManager_new cx cy r draws) ! i = Petal_new i 36 cx cy r (draws i)"
  "length (pm_petals (PetalManager_new cx cy r draws)) = 36"
  by (simp_all add: PetalManager_new_def PHYSICS_petalCount_def)

lemma pm_ops_new:
  assumes "rtranclp pm_op (PetalManager_new cx cy r draws) m"
  shows "length (pm_petals m) = 36"
    and "i < 36 \<Longrightarrow> rtranclp petal_op (Petal_new i 36 cx cy r (draws i)) (pm_petals m ! i)"
  using pm_ops_petals[OF assms] by (simp_all add: new_petal_nth)

text \<open>The managers that the operations can produce are those produced from a new one.\<close>

lemma pm_ops_reachable:
  assumes "rtranclp pm_op (PetalManager_new cx cy r draws) m"
  shows "pm_reachable m"
  using assms
proof (induction rule: rtranclp_induct)
  case base
  show ?case by (rule reach_new)
next
  case (step m m')
  from step.hyps(2) step.IH show ?case
    by (induction rule: pm_op.induct)
       (auto intro: pm_reachable.intros simp: PetalManager_startBloom_def Let_def)
qed

lemma reachable_pm_ops:
  assumes "pm_reachable m"
  shows "\<exists>cx cy r draws. rtranclp pm_op (PetalManager_new cx cy r draws) m"
  using assms
proof (induction rule: pm_reachable.induct)
  case (reach_new centerX centerY radius draws)
  show ?case by blast
qed (blast intro: rtranclp.rtrancl_into_rtrancl pm_op.intros)+

lemma reachable_baseAngle:
  assumes "pm_reachable m" "i < length (pm_petals m)"
  shows "pt_baseAngle (pm_petals m ! i) = real i / 36 * pi * 2"
proof -
  obtain cx cy r draws where o: "rtranclp pm_op (PetalManager_new cx cy r draws) m"
    using reachable_pm_ops[OF assms(1)] by blast
  have i: "i < 36" using pm_ops_new(1)[OF o] assms(2) by simp
  show ?thesis using petal_ops_new(5)[OF pm_ops_new(2)[OF o i]] by simp
qed

lemma reachable_length:
  assumes "pm_reachable m"
  shows "length (pm_petals m) = 36"
proof -
  obtain cx cy r draws where o: "rtranclp pm_op (PetalManager_new cx cy r draws) m"
    using reachable_pm_ops[OF assms] by blast
  show ?thesis by (rule pm_ops_new(1)[OF o])
qed

lemma demo_step:
  "pm_op (PetalManager_new 0 0 100 (\<lambda>i. demo_draws))
     (fst (projr (PetalManager_timer (PetalTimer 0 SetVisible) 0
        (PetalManager_new 0 0 100 (\<lambda>i. demo_draws)))))"
  "pm_op (fst (projr (PetalManager_timer (PetalTimer 0 SetVisible) 0
        (PetalManager_new 0 0 100 (\<lambda>i. demo_draws))))) demo_manager"
proof -
  let ?m0 = "PetalManager_new 0 0 100 (\<lambda>i. demo_draws)"
  obtain m1 where t: "PetalManager_timer (PetalTimer 0 SetVisible) 0 ?m0 = Inr (m1, [])" by simp
  have m1: "fst (projr (PetalManager_timer (PetalTimer 0 SetVisible) 0 ?m0)) = m1" using t by simp
  have u: "PetalManager_update 1000 (Some \<lparr> vx = 0, vy = 0 \<rparr>) (\<lambda>i. 1000) m1 = Inr demo_manager"
    unfolding demo_manager_def m1 by (simp add: PetalManager_update_Some)
  show "pm_op ?m0 (fst (projr (PetalManager_timer (PetalTimer 0 SetVisible) 0 ?m0)))"
    unfolding m1 by (rule pm_timer[OF t])
  show "pm_op (fst (projr (PetalManager_timer (PetalTimer 0 SetVisible) 0 ?m0))) demo_manager"
    unfolding m1 by (rule pm_update[OF u])
qed

lemma demo_ops: "rtranclp pm_op (PetalManager_new 0 0 100 (\<lambda>i. demo_draws)) demo_manager"
  using demo_step by (blast intro: rtranclp.rtrancl_into_rtrancl)

lemma demo_petal0_base:
  "pt_baseAngle (pm_petals demo_manager ! 0) = 0"
  "pt_bendAngle (pm_petals demo_manager ! 0) = 0"
  by (simp_all add: demo_manager_def PetalManager_update_Some PetalManager_new_def
      PHYSICS_petalCount_def Petal_update_def Petal_new_def Let_def demo_draws_def
      Utils_randomRange_def upt_conv_Cons
      Petal_bloom_step_def Petal_bend_step_def Petal_angle_step_def Petal_tilt_step_def
      Petal_spin_step_def Petal_scale_step_def Petal_glow_step_def Petal_ripple_step_def)

lemma demo_petal0_tilt: "pt_tiltAngle (pm_petals demo_manager ! 0) = 0"
  by (simp add: demo_manager_def PetalManager_update_Some PetalManager_new_def
      PHYSICS_petalCount_def Petal_update_def Petal_new_def Let_def demo_draws_def
      Utils_randomRange_def upt_conv_Cons
      Petal_bloom_step_def Petal_bend_step_def Petal_angle_step_def Petal_tilt_step_def
      Petal_spin_step_def Petal_scale_step_def Petal_glow_step_def Petal_ripple_step_def)

lemma sin_105_pos: "0 < sin (1.05::real)"
proof -
  have "(1.05::real) < pi" using pi_ge_two by simp
  then show ?thesis by (intro sin_gt_zero) simp_all
qed

lemma hit_test_display:
  "getTipPosition centerX centerY (p\<lparr> pt_angle := a, pt_spinAngle := s \<rparr>) =
     getTipPosition centerX centerY (p\<lparr> pt_angle := a + s, pt_spinAngle := 0 \<rparr>)"
  "Petal_containsPoint px py centerX centerY (p\<lparr> pt_angle := a, pt_spinAngle := s \<rparr>) =
     Petal_containsPoint px py centerX centerY (p\<lparr> pt_angle := a + s, pt_spinAngle := 0 \<rparr>)"
  by (simp_all add: getTipPosition_def Petal_containsPoint_def displayAngle_def)

lemma Petal_draw_head:
  assumes "pt_visible p" "0 < pt_bloomProgress p"
  shows "take 4 (Petal_draw cx cy p) =
     [Save, Translate cx cy, Rotate (displayAngle p), Rotate (pt_tiltAngle p)]"
    and "[a. Rotate a \<leftarrow> Petal_draw cx cy p] = [displayAngle p, pt_tiltAngle p]"
  using assms by (cases "pt_glowIntensity p > 0.01"; simp add: Petal_draw_def Let_def)+

text \<open>
  Claim C5, as stated, fails. In the example state petal 0 has been updated once: its
  \<open>angle\<close> includes the natural micro-sway \<open>sin(time * naturalFreq * 0.3 + phase) * 0.008\<close>,
  so its display angle is not \<open>baseAngle + bendAngle + spinAngle\<close>.
\<close>

theorem petal_display_angle_has_sway:
  "displayAngle (pm_petals demo_manager ! 0) \<noteq>
     pt_baseAngle (pm_petals demo_manager ! 0) + pt_bendAngle (pm_petals demo_manager ! 0)
       + pt_spinAngle (pm_petals demo_manager ! 0)"
  using sin_105_pos
  by (simp add: displayAngle_def demo_petal0(6,7) demo_petal0_base)

text \<open>
  Claim C5, amended. The display angle is \<open>angle + spinAngle\<close>. Hit-testing
  (\<open>containsPoint\<close>, \<open>getTipPosition\<close>) depends on \<open>angle\<close> and \<open>spinAngle\<close> through their
  sum only; \<open>draw\<close>, when the petal is visible and has begun to bloom, rotates the canvas
  by the display angle and then by \<open>tiltAngle\<close>, and these are its only rotations. A new petal has display
  angle \<open>baseAngle + bendAngle + spinAngle\<close>. After an update of a visible petal the
  display angle is \<open>baseAngle + bendAngle + spinAngle + naturalSway\<close> with
  \<open>naturalSway = sin(time * naturalFreq * 0.3 + phase) * 0.008\<close>, \<open>time\<close> the clock in
  seconds. The constructor sets \<open>length = baseRadius * 0.8 * lengthVariation\<close> and
  \<open>width = baseRadius * 0.15 * widthVariation\<close>, with \<open>lengthVariation\<close> drawn by
  \<open>randomRange(0.88, 1.12)\<close> and \<open>widthVariation\<close> by \<open>randomRange(0.9, 1.1)\<close>, and
  \<open>baseAngle = index / totalPetals * 2\<pi>\<close>. One operation on a petal or on a manager
  changes none of length, width, the two variation factors and the base angle. So after
  any number of operations, on a petal from its construction and on petal \<open>k\<close> of a
  manager from the manager's construction, length, width and base angle are the values
  the constructor computed from its draws, and the display angle is within 0.008 of
  \<open>baseAngle + bendAngle + spinAngle\<close>.
\<close>

theorem petal_display_angle_and_geometry:
  "displayAngle p = pt_angle p + pt_spinAngle p \<and>
   getTipPosition centerX centerY (p\<lparr> pt_angle := a, pt_spinAngle := s \<rparr>) =
     getTipPosition centerX centerY (p\<lparr> pt_angle := a + s, pt_spinAngle := 0 \<rparr>) \<and>
   Petal_containsPoint px py centerX centerY (p\<lparr> pt_angle := a, pt_spinAngle := s \<rparr>) =
     Petal_containsPoint px py centerX centerY (p\<lparr> pt_angle := a + s, pt_spinAngle := 0 \<rparr>) \<and>
   (pt_visible p \<and> 0 < pt_bloomProgress p \<longrightarrow>
      take 4 (Petal_draw centerX centerY p) =
        [Save, Translate centerX centerY, Rotate (displayAngle p), Rotate (pt_tiltAngle p)] \<and>
      [a. Rotate a \<leftarrow> Petal_draw centerX centerY p] = [displayAngle p, pt_tiltAngle p]) \<and>
   displayAngle (Petal_new i n cx cy r u) =
     pt_baseAngle (Petal_new i n cx cy r u) + pt_bendAngle (Petal_new i n cx cy r u)
       + pt_spinAngle (Petal_new i n cx cy r u) \<and>
   (pt_visible p \<and> Petal_update dt wind now p = Inr p' \<longrightarrow>
      displayAngle p' = pt_baseAngle p' + pt_bendAngle p' + pt_spinAngle p' +
        sin (now * 0.001 * pt_naturalFreq p * 0.3 + pt_phase p) * 0.008) \<and>
   (petal_op p p' \<longrightarrow>
      pt_length p' = pt_length p \<and> pt_width p' = pt_width p \<and>
      pt_lengthVariation p' = pt_lengthVariation p \<and>
      pt_widthVariation p' = pt_widthVariation p \<and> pt_baseAngle p' = pt_baseAngle p) \<and>
   (pm_op m m' \<longrightarrow>
      length (pm_petals m') = length (pm_petals m) \<and>
      (k < length (pm_petals m) \<longrightarrow>
         pt_length (pm_petals m' ! k) = pt_length (pm_petals m ! k) \<and>
         pt_width (pm_petals m' ! k) = pt_width (pm_petals m ! k) \<and>
         pt_lengthVariation (pm_petals m' ! k) = pt_lengthVariation (pm_petals m ! k) \<and>
         pt_widthVariation (pm_petals m' ! k) = pt_widthVariation (pm_petals m ! k) \<and>
         pt_baseAngle (pm_petals m' ! k) = pt_baseAngle (pm_petals m ! k))) \<and>
   (rtranclp petal_op (Petal_new i n cx cy r u) q \<longrightarrow>
      pt_length q = r * 0.8 * Utils_randomRange (u_lengthVariation u) 0.88 1.12 \<and>
      pt_width q = r * 0.15 * Utils_randomRange (u_widthVariation u) 0.9 1.1 \<and>
      pt_baseAngle q = real i / real n * pi * 2 \<and>
      \<bar>displayAngle q - (pt_baseAngle q + pt_bendAngle q + pt_spinAngle q)\<bar> \<le> 0.008) \<and>
   (rtranclp pm_op (PetalManager_new cx cy r draws) m' \<longrightarrow>
      length (pm_petals m') = 36 \<and>
      (k < 36 \<longrightarrow>
         pt_length (pm_petals m' ! k) =
           r * 0.8 * Utils_randomRange (u_lengthVariation (draws k)) 0.88 1.12 \<and>
         pt_width (pm_petals m' ! k) =
           r * 0.15 * Utils_randomRange (u_widthVariation (draws k)) 0.9 1.1 \<and>
         pt_baseAngle (pm_petals m' ! k) = real k / 36 * pi * 2 \<and>
         \<bar>displayAngle (pm_petals m' ! k) -
            (pt_baseAngle (pm_petals m' ! k) + pt_bendAngle (pm_petals m' ! k)
               + pt_spinAngle (pm_petals m' ! k))\<bar> \<le> 0.008))"
proof -
  have a: "displayAngle p = pt_angle p + pt_spinAngle p" by (simp add: displayAngle_def)
  note a' = hit_test_display[where centerX = centerX and centerY = centerY and p = p and a = a and s = s]
  have b: "pt_visible p \<and> 0 < pt_bloomProgress p \<longrightarrow>
      take 4 (Petal_draw centerX centerY p) =
        [Save, Translate centerX centerY, Rotate (displayAngle p), Rotate (pt_tiltAngle p)] \<and>
      [a. Rotate a \<leftarrow> Petal_draw centerX centerY p] = [displayAngle p, pt_tiltAngle p]"
    using Petal_draw_head[of p centerX centerY] by blast
  have c: "displayAngle (Petal_new i n cx cy r u) =
     pt_baseAngle (Petal_new i n cx cy r u) + pt_bendAngle (Petal_new i n cx cy r u)
       + pt_spinAngle (Petal_new i n cx cy r u)"
    by (rule new_petal_fields(6))
  have d: "pt_visible p \<and> Petal_update dt wind now p = Inr p' \<longrightarrow>
      displayAngle p' = pt_baseAngle p' + pt_bendAngle p' + pt_spinAngle p' +
        sin (now * 0.001 * pt_naturalFreq p * 0.3 + pt_phase p) * 0.008"
    using Petal_update_display[of p dt wind now p'] by blast
  have e: "petal_op p p' \<longrightarrow>
      pt_length p' = pt_length p \<and> pt_width p' = pt_width p \<and>
      pt_lengthVariation p' = pt_lengthVariation p \<and>
      pt_widthVariation p' = pt_widthVariation p \<and> pt_baseAngle p' = pt_baseAngle p"
    using petal_op_keeps[of p p'] by blast
  have f: "pm_op m m' \<longrightarrow>
      length (pm_petals m') = length (pm_petals m) \<and>
      (k < length (pm_petals m) \<longrightarrow>
         pt_length (pm_petals m' ! k) = pt_length (pm_petals m ! k) \<and>
         pt_width (pm_petals m' ! k) = pt_width (pm_petals m ! k) \<and>
         pt_lengthVariation (pm_petals m' ! k) = pt_lengthVariation (pm_petals m ! k) \<and>
         pt_widthVariation (pm_petals m' ! k) = pt_widthVariation (pm_petals m ! k) \<and>
         pt_baseAngle (pm_petals m' ! k) = pt_baseAngle (pm_petals m ! k))"
  proof (intro impI conjI)
    assume o: "pm_op m m'"
    show "length (pm_petals m') = length (pm_petals m)" using pm_op_petals[OF o] by simp
    assume k: "k < length (pm_petals m)"
    have "pm_petals m' ! k = pm_petals m ! k \<or> petal_op (pm_petals m ! k) (pm_petals m' ! k)"
      using pm_op_petals[OF o] k by simp
    then have "pt_length (pm_petals m' ! k) = pt_length (pm_petals m ! k) \<and>
         pt_width (pm_petals m' ! k) = pt_width (pm_petals m ! k) \<and>
         pt_lengthVariation (pm_petals m' ! k) = pt_lengthVariation (pm_petals m ! k) \<and>
         pt_widthVariation (pm_petals m' ! k) = pt_widthVariation (pm_petals m ! k) \<and>
         pt_baseAngle (pm_petals m' ! k) = pt_baseAngle (pm_petals m ! k)"
      using petal_op_keeps[of "pm_petals m ! k" "pm_petals m' ! k"] by auto
    then show "pt_length (pm_petals m' ! k) = pt_length (pm_petals m ! k)"
      "pt_width (pm_petals m' ! k) = pt_width (pm_petals m ! k)"
      "pt_lengthVariation (pm_petals m' ! k) = pt_lengthVariation (pm_petals m ! k)"
      "pt_widthVariation (pm_petals m' ! k) = pt_widthVariation (pm_petals m ! k)"
      "pt_baseAngle (pm_petals m' ! k) = pt_baseAngle (pm_petals m ! k)"
      by simp_all
  qed
  have g: "rtranclp petal_op (Petal_new i n cx cy r u) q \<longrightarrow>
      pt_length q = r * 0.8 * Utils_randomRange (u_lengthVariation u) 0.88 1.12 \<and>
      pt_width q = r * 0.15 * Utils_randomRange (u_widthVariation u) 0.9 1.1 \<and>
      pt_baseAngle q = real i / real n * pi * 2 \<and>
      \<bar>displayAngle q - (pt_baseAngle q + pt_bendAngle q + pt_spinAngle q)\<bar> \<le> 0.008"
    using petal_ops_new[of i n cx cy r u q] by blast
  have h: "rtranclp pm_op (PetalManager_new cx cy r draws) m' \<longrightarrow>
      length (pm_petals m') = 36 \<and>
      (k < 36 \<longrightarrow>
         pt_length (pm_petals m' ! k) =
           r * 0.8 * Utils_randomRange (u_lengthVariation (draws k)) 0.88 1.12 \<and>
         pt_width (pm_petals m' ! k) =
           r * 0.15 * Utils_randomRange (u_widthVariation (draws k)) 0.9 1.1 \<and>
         pt_baseAngle (pm_petals m' ! k) = real k / 36 * pi * 2 \<and>
         \<bar>displayAngle (pm_petals m' ! k) -
            (pt_baseAngle (pm_petals m' ! k) + pt_bendAngle (pm_petals m' ! k)
               + pt_spinAngle (pm_petals m' ! k))\<bar> \<le> 0.008)"
  proof (intro impI conjI)
    assume o: "rtranclp pm_op (PetalManager_new cx cy r draws) m'"
    show "length (pm_petals m') = 36" by (rule pm_ops_new(1)[OF o])
    assume k: "k < 36"
    note n = petal_ops_new[OF pm_ops_new(2)[OF o k]]
    show "pt_length (pm_petals m' ! k) =
           r * 0.8 * Utils_randomRange (u_lengthVariation (draws k)) 0.88 1.12"
      by (rule n(1))
    show "pt_width (pm_petals m' ! k) =
           r * 0.15 * Utils_randomRange (u_widthVariation (draws k)) 0.9 1.1"
      by (rule n(2))
    show "pt_baseAngle (pm_petals m' ! k) = real k / 36 * pi * 2" using n(5) by simp
    show "\<bar>displayAngle (pm_petals m' ! k) -
            (pt_baseAngle (pm_petals m' ! k) + pt_bendAngle (pm_petals m' ! k)
               + pt_spinAngle (pm_petals m' ! k))\<bar> \<le> 0.008"
      by (rule n(6))
  qed
  from a a' b c d e f g h show ?thesis by blast
qed

text \<open>
  Petal 0 of a new manager with every draw 0.5, made visible and updated once, alone and
  in the manager (the example state): it is drawn rotated by the micro-sway and by the
  tilt 0, and its length 80 and width 15 are the constructor's.
\<close>

theorem petal_display_angle_and_geometry_witness:
  "take 4 (Petal_draw 0 0 (pm_petals demo_manager ! 0)) =
     [Save, Translate 0 0, Rotate (sin (1.05 + pi) * 0.008), Rotate 0] \<and>
   displayAngle (projr (Petal_update 1000 (Some \<lparr> vx = 0, vy = 0 \<rparr>) 1000
       (Petal_timer SetVisible (Petal_new 0 36 0 0 100 demo_draws)))) =
     pt_baseAngle (projr (Petal_update 1000 (Some \<lparr> vx = 0, vy = 0 \<rparr>) 1000
       (Petal_timer SetVisible (Petal_new 0 36 0 0 100 demo_draws)))) +
     pt_bendAngle (projr (Petal_update 1000 (Some \<lparr> vx = 0, vy = 0 \<rparr>) 1000
       (Petal_timer SetVisible (Petal_new 0 36 0 0 100 demo_draws)))) +
     pt_spinAngle (projr (Petal_update 1000 (Some \<lparr> vx = 0, vy = 0 \<rparr>) 1000
       (Petal_timer SetVisible (Petal_new 0 36 0 0 100 demo_draws)))) +
     sin (1.05 + pi) * 0.008 \<and>
   pt_length (projr (Petal_update 1000 (Some \<lparr> vx = 0, vy = 0 \<rparr>) 1000
       (Petal_timer SetVisible (Petal_new 0 36 0 0 100 demo_draws)))) = 80 \<and>
   pt_width (projr (Petal_update 1000 (Some \<lparr> vx = 0, vy = 0 \<rparr>) 1000
       (Petal_timer SetVisible (Petal_new 0 36 0 0 100 demo_draws)))) = 15 \<and>
   pt_length (projr (Petal_update 1000 (Some \<lparr> vx = 0, vy = 0 \<rparr>) 1000
       (Petal_timer SetVisible (Petal_new 0 36 0 0 100 demo_draws)))) =
     pt_length (Petal_timer SetVisible (Petal_new 0 36 0 0 100 demo_draws)) \<and>
   length (pm_petals demo_manager) = 36 \<and>
   pt_length (pm_petals demo_manager ! 0) = 80 \<and>
   pt_width (pm_petals demo_manager ! 0) = 15 \<and>
   pt_baseAngle (pm_petals demo_manager ! 0) = 0 \<and>
   pt_length (pm_petals demo_manager ! 0) =
     pt_length (pm_petals (fst (projr (PetalManager_timer (PetalTimer 0 SetVisible) 0
        (PetalManager_new 0 0 100 (\<lambda>i. demo_draws))))) ! 0) \<and>
   \<bar>displayAngle (pm_petals demo_manager ! 0) -
      (pt_baseAngle (pm_petals demo_manager ! 0) + pt_bendAngle (pm_petals demo_manager ! 0)
         + pt_spinAngle (pm_petals demo_manager ! 0))\<bar> \<le> 0.008"
proof -
  let ?n = "Petal_new 0 36 0 0 100 demo_draws"
  let ?p = "Petal_timer SetVisible ?n"
  let ?p' = "projr (Petal_update 1000 (Some \<lparr> vx = 0, vy = 0 \<rparr>) 1000 ?p)"
  let ?m0 = "PetalManager_new 0 0 100 (\<lambda>i. demo_draws)"
  let ?m1 = "fst (projr (PetalManager_timer (PetalTimer 0 SetVisible) 0 ?m0))"
  let ?d = "pm_petals demo_manager ! 0"
  have v: "pt_visible ?p" by simp
  have u: "Petal_update 1000 (Some \<lparr> vx = 0, vy = 0 \<rparr>) 1000 ?p = Inr ?p'"
    by (simp add: Petal_update_def Let_def)
  have o: "petal_op ?p ?p'" by (rule op_update[OF u])
  have os: "rtranclp petal_op ?n ?p'"
    using op_timer[of ?n SetVisible] o by (blast intro: rtranclp.rtrancl_into_rtrancl)
  have l1: "(0::nat) < length (pm_petals ?m1)" by (simp add: new_petal_nth)
  have f: "pt_naturalFreq ?p = 3.5" "pt_phase ?p = pi"
    by (simp_all add: Petal_new_def Let_def demo_draws_def Utils_randomRange_def)
  have e: "1000 * 0.001 * 3.5 * 0.3 + pi = 1.05 + pi" by simp
  have c: "100 * 0.8 * Utils_randomRange (u_lengthVariation demo_draws) 0.88 1.12 = 80"
    "100 * 0.15 * Utils_randomRange (u_widthVariation demo_draws) 0.9 1.1 = 15"
    "real 0 / real 36 * pi * 2 = 0" "real 0 / 36 * pi * 2 = 0"
    by (simp_all add: demo_draws_def Utils_randomRange_def)
  have k0: "(0::nat) < 36" by simp
  have dv: "pt_visible ?d \<and> 0 < pt_bloomProgress ?d" by (simp add: demo_petal0)
  have da: "displayAngle ?d = sin (1.05 + pi) * 0.008"
    by (simp add: displayAngle_def demo_petal0)
  note t1 = petal_display_angle_and_geometry[where p = ?d and centerX = 0 and centerY = 0]
  note t2 = petal_display_angle_and_geometry[where p = ?p and p' = ?p' and dt = 1000
      and wind = "Some \<lparr> vx = 0, vy = 0 \<rparr>" and now = 1000 and i = 0 and n = 36 and cx = 0
      and cy = 0 and r = 100 and u = demo_draws and q = ?p' and draws = "\<lambda>i. demo_draws"
      and m = ?m1 and m' = demo_manager and k = 0]
  have w1: "take 4 (Petal_draw 0 0 ?d) =
     [Save, Translate 0 0, Rotate (sin (1.05 + pi) * 0.008), Rotate 0]"
    using t1 dv unfolding da demo_petal0_tilt by blast
  have w2: "displayAngle ?p' = pt_baseAngle ?p' + pt_bendAngle ?p' + pt_spinAngle ?p' +
      sin (1.05 + pi) * 0.008"
    using t2 v u unfolding f e by blast
  have w3: "pt_length ?p' = 80" "pt_width ?p' = 15"
    using t2 os unfolding c by blast+
  have w4: "pt_length ?p' = pt_length ?p"
    using t2 o by blast
  have w5: "length (pm_petals demo_manager) = 36" "pt_length ?d = 80" "pt_width ?d = 15"
    "pt_baseAngle ?d = 0"
    "\<bar>displayAngle ?d - (pt_baseAngle ?d + pt_bendAngle ?d + pt_spinAngle ?d)\<bar> \<le> 0.008"
    using t2 demo_ops k0 unfolding c by blast+
  have w6: "pt_length ?d = pt_length (pm_petals ?m1 ! 0)"
    using t2 demo_step(2) l1 by blast
  from w1 w2 w3 w4 w5 w6 show ?thesis by blast
qed
section \<open>PetalManager: curiosity side and reset\<close>

lemma fold_quarter_turn:
  fixes d :: real
  assumes "\<bar>d\<bar> \<le> 2 * pi"
  shows "((if \<bar>d\<bar> > pi then pi * 2 - \<bar>d\<bar> else \<bar>d\<bar>) < pi / 2)
           \<longleftrightarrow> (\<exists>k::int. \<bar>d - 2 * pi * of_int k\<bar> < pi / 2)"
proof
  assume f: "(if \<bar>d\<bar> > pi then pi * 2 - \<bar>d\<bar> else \<bar>d\<bar>) < pi / 2"
  show "\<exists>k::int. \<bar>d - 2 * pi * of_int k\<bar> < pi / 2"
  proof (cases "\<bar>d\<bar> > pi")
    case False
    with f have "\<bar>d - 2 * pi * of_int (0::int)\<bar> < pi / 2" by simp
    then show ?thesis by blast
  next
    case True
    show ?thesis
    proof (cases "0 < d")
      case True
      with f \<open>\<bar>d\<bar> > pi\<close> assms have "\<bar>d - 2 * pi * of_int (1::int)\<bar> < pi / 2" by simp
      then show ?thesis by blast
    next
      case False
      with f \<open>\<bar>d\<bar> > pi\<close> assms have "\<bar>d - 2 * pi * of_int (- 1::int)\<bar> < pi / 2" by simp
      then show ?thesis by blast
    qed
  qed
next
  assume "\<exists>k::int. \<bar>d - 2 * pi * of_int k\<bar> < pi / 2"
  then obtain k :: int where k: "\<bar>d - 2 * pi * of_int k\<bar> < pi / 2" by blast
  have h1: "\<bar>2 * pi * of_int k\<bar> \<le> \<bar>d\<bar> + \<bar>d - 2 * pi * of_int k\<bar>" by linarith
  have h2: "\<bar>2 * pi * of_int k\<bar> = pi * (2 * \<bar>real_of_int k\<bar>)" by (simp add: abs_mult)
  have "pi * (2 * \<bar>real_of_int k\<bar>) < pi * (5 / 2)"
    using h1 k assms unfolding h2 by linarith
  then have "2 * \<bar>real_of_int k\<bar> < 5 / 2" using pi_gt_zero by (simp only: mult_less_cancel_left_pos)
  then have "\<bar>k\<bar> \<le> 1" by linarith
  then have kk: "k = 0 \<or> k = 1 \<or> k = - 1" by linarith
  have k0: "k = 0 \<Longrightarrow> \<bar>d\<bar> < pi / 2" using k by simp
  have k1: "k = 1 \<Longrightarrow> \<bar>d - 2 * pi\<bar> < pi / 2" using k by simp
  have k2: "k = - 1 \<Longrightarrow> \<bar>d + 2 * pi\<bar> < pi / 2" using k by simp
  have b: "\<bar>d\<bar> < pi / 2 \<or> \<bar>d - 2 * pi\<bar> < pi / 2 \<or> \<bar>d + 2 * pi\<bar> < pi / 2"
    using kk k0 k1 k2 by blast
  show "(if \<bar>d\<bar> > pi then pi * 2 - \<bar>d\<bar> else \<bar>d\<bar>) < pi / 2"
  proof (cases "\<bar>d\<bar> > pi")
    case True
    then have "pi * 2 - \<bar>d\<bar> < pi / 2" using b assms pi_gt_zero by linarith
    with True show ?thesis by simp
  next
    case False
    then have "\<bar>d\<bar> < pi / 2" using b assms pi_gt_zero by linarith
    with False show ?thesis by simp
  qed
qed

lemma setCuriositySide_nth:
  "i < length (pm_petals m) \<Longrightarrow>
   pm_petals (setCuriositySide angle m) ! i =
     (pm_petals m ! i)\<lparr> pt_bendStiffness :=
        (if (if \<bar>pt_baseAngle (pm_petals m ! i) - angle\<bar> > pi
             then pi * 2 - \<bar>pt_baseAngle (pm_petals m ! i) - angle\<bar>
             else \<bar>pt_baseAngle (pm_petals m ! i) - angle\<bar>) < pi / 2 then 1.5 else 1) \<rparr>"
  by (simp add: setCuriositySide_def Let_def)

lemma resetCuriosity_nth:
  "i < length (pm_petals m) \<Longrightarrow>
   pm_petals (resetCuriosity us m) ! i =
     (pm_petals m ! i)\<lparr> pt_bendStiffness := Utils_randomRange (us i) 0.8 1.2 \<rparr>"
  by (simp add: resetCuriosity_def)

text \<open>
  The fold \<open>if (angleDiff > \<pi>) angleDiff = 2\<pi> - angleDiff\<close> gives the distance on the
  circle only for differences of at most a full turn. Beyond a full turn the folded
  difference is negative, and the petal is put on the curious side wherever it is.
\<close>

lemma setCuriositySide_beyond_turn:
  assumes "i < length (pm_petals m)" "\<bar>pt_baseAngle (pm_petals m ! i) - angle\<bar> > 2 * pi"
  shows "pt_bendStiffness (pm_petals (setCuriositySide angle m) ! i) = 1.5"
proof -
  let ?d = "\<bar>pt_baseAngle (pm_petals m ! i) - angle\<bar>"
  have "?d > pi" "pi * 2 - ?d < pi / 2" using assms(2) pi_gt_zero by linarith+
  then show ?thesis unfolding setCuriositySide_nth[OF assms(1)] by simp
qed

text \<open>
  The base angles of a flower's petals lie in \<open>[0, 2\<pi>)\<close>, so they are all within a full
  turn of an angle between 0 and \<open>2\<pi>\<close>.
\<close>

lemma reachable_within_turn:
  assumes "pm_reachable m" "i < length (pm_petals m)" "0 \<le> angle" "angle \<le> 2 * pi"
  shows "\<bar>pt_baseAngle (pm_petals m ! i) - angle\<bar> \<le> 2 * pi"
proof -
  have i: "i < 36" using reachable_length[OF assms(1)] assms(2) by simp
  have b: "pt_baseAngle (pm_petals m ! i) = real i / 36 * pi * 2"
    by (rule reachable_baseAngle[OF assms(1,2)])
  have "real i / 36 \<le> 1" using i by simp
  then have "pi * (real i / 36) \<le> pi * 1" using pi_gt_zero by (intro mult_left_mono) simp_all
  then have u: "real i / 36 * pi * 2 \<le> 2 * pi" by simp
  have l: "0 \<le> real i / 36 * pi * 2" by simp
  show ?thesis unfolding b using u l assms(3,4) by linarith
qed

lemma atan2_lower_left: "atan2 (- 1 - 0) (- 1 - 0) = - (3 * pi / 4)"
  by (simp add: atan2_def arctan_one)

lemma petal35_far:
  "\<not> (\<exists>k::int. \<bar>35 * pi / 18 - - (3 * pi / 4) - 2 * pi * of_int k\<bar> < pi / 2)"
proof
  assume "\<exists>k::int. \<bar>35 * pi / 18 - - (3 * pi / 4) - 2 * pi * of_int k\<bar> < pi / 2"
  then obtain k :: int where k: "\<bar>35 * pi / 18 - - (3 * pi / 4) - 2 * pi * of_int k\<bar> < pi / 2"
    by blast
  have e: "35 * pi / 18 - - (3 * pi / 4) - 2 * pi * of_int k = pi * (97 / 36 - 2 * of_int k)"
    by (simp add: algebra_simps)
  have "pi * \<bar>97 / 36 - 2 * real_of_int k\<bar> < pi * (1 / 2)"
    using k pi_gt_zero unfolding e by (simp add: abs_mult)
  then have "\<bar>97 / 36 - 2 * real_of_int k\<bar> < 1 / 2"
    using pi_gt_zero by (simp only: mult_less_cancel_left_pos)
  then have "1 < real_of_int k" "real_of_int k < 2" by linarith+
  then have "1 < k" "k < 2" by linarith+
  then show False by linarith
qed

text \<open>
  Claim C8, as stated, fails, in both halves. A new manager whose draws are all 0.5 gives
  petal 0 the bend stiffness 0.115; after \<open>setCuriositySide(0)\<close> and \<open>resetCuriosity()\<close>
  with draw 0.25 it is 0.9: the reset draws a new value and does not restore the one
  from construction. And with the cursor one unit left of and above the flower centre,
  \<open>DaisyFlower.setCuriositySide\<close> passes the angle \<open>-3\<pi>/4\<close> (225 degrees on the circle):
  petal 35, at 350 degrees and so 125 degrees away, is given 1.5.
\<close>

theorem curiosity_reset_and_far_petal:
  "pt_bendStiffness (pm_petals (PetalManager_new 0 0 100 (\<lambda>i. demo_draws)) ! 0) = 0.115 \<and>
   pt_bendStiffness (pm_petals (resetCuriosity (\<lambda>i. 0.25)
       (setCuriositySide 0 (PetalManager_new 0 0 100 (\<lambda>i. demo_draws)))) ! 0) = 0.9 \<and>
   pt_bendStiffness (pm_petals (resetCuriosity (\<lambda>i. 0.25)
       (setCuriositySide 0 (PetalManager_new 0 0 100 (\<lambda>i. demo_draws)))) ! 0) \<noteq>
   pt_bendStiffness (pm_petals (PetalManager_new 0 0 100 (\<lambda>i. demo_draws)) ! 0) \<and>
   atan2 (- 1 - 0) (- 1 - 0) = - (3 * pi / 4) \<and>
   pt_baseAngle (pm_petals (PetalManager_new 0 0 100 (\<lambda>i. demo_draws)) ! 35) = 35 * pi / 18 \<and>
   pt_bendStiffness (pm_petals (DaisyFlower_setCuriositySide (- 1) (- 1) 0 0
       (PetalManager_new 0 0 100 (\<lambda>i. demo_draws))) ! 35) = 1.5 \<and>
   \<not> (\<exists>k::int. \<bar>pt_baseAngle (pm_petals (PetalManager_new 0 0 100 (\<lambda>i. demo_draws)) ! 35)
                    - atan2 (- 1 - 0) (- 1 - 0) - 2 * pi * of_int k\<bar> < pi / 2)"
proof -
  let ?m = "PetalManager_new 0 0 100 (\<lambda>i. demo_draws)"
  have r: "pt_bendStiffness (pm_petals ?m ! 0) = 0.115"
    "pt_bendStiffness (pm_petals (resetCuriosity (\<lambda>i. 0.25) (setCuriositySide 0 ?m)) ! 0) = 0.9"
    "pt_bendStiffness (pm_petals (resetCuriosity (\<lambda>i. 0.25) (setCuriositySide 0 ?m)) ! 0) \<noteq>
     pt_bendStiffness (pm_petals ?m ! 0)"
    by (simp_all add: resetCuriosity_nth setCuriositySide_def new_petal_nth Petal_new_def Let_def
        demo_draws_def Utils_randomRange_def)
  have b: "pt_baseAngle (pm_petals ?m ! 35) = 35 * pi / 18"
    by (simp add: new_petal_nth Petal_new_def Let_def)
  have l: "35 < length (pm_petals ?m)" by (simp add: new_petal_nth)
  have "35 * pi / 18 - - (3 * pi / 4) = pi * (97 / 36)" by (simp add: algebra_simps)
  moreover have "pi * 2 < pi * (97 / 36)" using pi_gt_zero by (simp only: mult_less_cancel_left_pos)
  ultimately have "\<bar>pt_baseAngle (pm_petals ?m ! 35) - - (3 * pi / 4)\<bar> > 2 * pi"
    unfolding b by simp
  then have s: "pt_bendStiffness (pm_petals (DaisyFlower_setCuriositySide (- 1) (- 1) 0 0 ?m) ! 35) = 1.5"
    unfolding DaisyFlower_setCuriositySide_def Let_def atan2_lower_left
    by (rule setCuriositySide_beyond_turn[OF l])
  have f: "\<not> (\<exists>k::int. \<bar>pt_baseAngle (pm_petals ?m ! 35) - atan2 (- 1 - 0) (- 1 - 0)
      - 2 * pi * of_int k\<bar> < pi / 2)"
    unfolding b atan2_lower_left by (rule petal35_far)
  from r atan2_lower_left b s f show ?thesis by blast
qed

text \<open>
  Claim C8, amended. \<open>setCuriositySide(angle)\<close> changes only \<open>bendStiffness\<close>. On a petal
  whose base angle differs from \<open>angle\<close> by at most a full turn it sets 1.5 when the base
  angle is less than a quarter turn from \<open>angle\<close> on the circle, and 1 otherwise; on a
  flower's manager that is every petal when \<open>angle\<close> is between 0 and \<open>2\<pi>\<close>. (On a
  petal more than a full turn from \<open>angle\<close> the code sets 1.5 wherever the petal is;
  the amended claim leaves this case out.)
  \<open>resetCuriosity()\<close> changes only \<open>bendStiffness\<close> and sets it, for every petal, to a
  newly drawn value \<open>randomRange(0.8, 1.2)\<close>, which lies in \<open>[0.8, 1.2)\<close>.
\<close>

theorem curiosity_side_and_reset:
  "(i < length (pm_petals m) \<and> \<bar>pt_baseAngle (pm_petals m ! i) - angle\<bar> \<le> 2 * pi \<longrightarrow>
      pt_bendStiffness (pm_petals (setCuriositySide angle m) ! i) =
        (if \<exists>k::int. \<bar>pt_baseAngle (pm_petals m ! i) - angle - 2 * pi * of_int k\<bar> < pi / 2
         then 1.5 else 1)) \<and>
   (pm_reachable m \<and> i < length (pm_petals m) \<and> 0 \<le> angle \<and> angle \<le> 2 * pi \<longrightarrow>
      pt_bendStiffness (pm_petals (setCuriositySide angle m) ! i) =
        (if \<exists>k::int. \<bar>pt_baseAngle (pm_petals m ! i) - angle - 2 * pi * of_int k\<bar> < pi / 2
         then 1.5 else 1)) \<and>
   (i < length (pm_petals m) \<and> \<bar>pt_baseAngle (pm_petals m ! i) - angle\<bar> > 2 * pi \<longrightarrow>
      pt_bendStiffness (pm_petals (setCuriositySide angle m) ! i) = 1.5) \<and>
   (i < length (pm_petals m) \<longrightarrow>
      pm_petals (setCuriositySide angle m) ! i =
        (pm_petals m ! i)\<lparr> pt_bendStiffness := pt_bendStiffness (pm_petals (setCuriositySide angle m) ! i) \<rparr>) \<and>
   (i < length (pm_petals m) \<longrightarrow>
      pt_bendStiffness (pm_petals (resetCuriosity us m) ! i) = Utils_randomRange (us i) 0.8 1.2 \<and>
      pm_petals (resetCuriosity us m) ! i =
        (pm_petals m ! i)\<lparr> pt_bendStiffness := Utils_randomRange (us i) 0.8 1.2 \<rparr>) \<and>
   (0 \<le> us i \<and> us i < 1 \<longrightarrow>
      0.8 \<le> Utils_randomRange (us i) 0.8 1.2 \<and> Utils_randomRange (us i) 0.8 1.2 < 1.2) \<and>
   length (pm_petals (setCuriositySide angle m)) = length (pm_petals m) \<and>
   length (pm_petals (resetCuriosity us m)) = length (pm_petals m)"
proof -
  have a: "i < length (pm_petals m) \<and> \<bar>pt_baseAngle (pm_petals m ! i) - angle\<bar> \<le> 2 * pi \<longrightarrow>
      pt_bendStiffness (pm_petals (setCuriositySide angle m) ! i) =
        (if \<exists>k::int. \<bar>pt_baseAngle (pm_petals m ! i) - angle - 2 * pi * of_int k\<bar> < pi / 2
         then 1.5 else 1)"
  proof (intro impI, elim conjE)
    assume i: "i < length (pm_petals m)" and d: "\<bar>pt_baseAngle (pm_petals m ! i) - angle\<bar> \<le> 2 * pi"
    show "pt_bendStiffness (pm_petals (setCuriositySide angle m) ! i) =
        (if \<exists>k::int. \<bar>pt_baseAngle (pm_petals m ! i) - angle - 2 * pi * of_int k\<bar> < pi / 2
         then 1.5 else 1)"
      unfolding setCuriositySide_nth[OF i] fold_quarter_turn[OF d] by simp
  qed
  have a': "pm_reachable m \<and> i < length (pm_petals m) \<and> 0 \<le> angle \<and> angle \<le> 2 * pi \<longrightarrow>
      pt_bendStiffness (pm_petals (setCuriositySide angle m) ! i) =
        (if \<exists>k::int. \<bar>pt_baseAngle (pm_petals m ! i) - angle - 2 * pi * of_int k\<bar> < pi / 2
         then 1.5 else 1)"
    using a reachable_within_turn[of m i angle] by blast
  have a'': "i < length (pm_petals m) \<and> \<bar>pt_baseAngle (pm_petals m ! i) - angle\<bar> > 2 * pi \<longrightarrow>
      pt_bendStiffness (pm_petals (setCuriositySide angle m) ! i) = 1.5"
    using setCuriositySide_beyond_turn[of i m angle] by blast
  have b: "i < length (pm_petals m) \<longrightarrow>
      pm_petals (setCuriositySide angle m) ! i =
        (pm_petals m ! i)\<lparr> pt_bendStiffness := pt_bendStiffness (pm_petals (setCuriositySide angle m) ! i) \<rparr>"
    by (simp add: setCuriositySide_nth)
  have c: "i < length (pm_petals m) \<longrightarrow>
      pt_bendStiffness (pm_petals (resetCuriosity us m) ! i) = Utils_randomRange (us i) 0.8 1.2 \<and>
      pm_petals (resetCuriosity us m) ! i =
        (pm_petals m ! i)\<lparr> pt_bendStiffness := Utils_randomRange (us i) 0.8 1.2 \<rparr>"
    by (simp add: resetCuriosity_nth)
  have d: "0 \<le> us i \<and> us i < 1 \<longrightarrow>
      0.8 \<le> Utils_randomRange (us i) 0.8 1.2 \<and> Utils_randomRange (us i) 0.8 1.2 < 1.2"
    by (simp add: Utils_randomRange_def)
  have e: "length (pm_petals (setCuriositySide angle m)) = length (pm_petals m)"
    "length (pm_petals (resetCuriosity us m)) = length (pm_petals m)"
    by (simp_all add: setCuriositySide_def resetCuriosity_def)
  from a a' a'' b c d e show ?thesis by blast
qed

text \<open>
  A new manager and angle 0: petal 3 (30 degrees) gets 1.5, petal 18 (180 degrees) gets 1,
  and the reset with draw 0.25 gives petal 3 the value 0.9. At angle \<open>-3\<pi>/4\<close> petal 35
  is more than a full turn away and gets 1.5.
\<close>

theorem curiosity_side_and_reset_witness:
  "pt_bendStiffness (pm_petals (setCuriositySide 0 (PetalManager_new 0 0 100 (\<lambda>i. demo_draws))) ! 3) = 1.5 \<and>
   pt_bendStiffness (pm_petals (setCuriositySide 0 (PetalManager_new 0 0 100 (\<lambda>i. demo_draws))) ! 18) = 1 \<and>
   pt_bendStiffness (pm_petals (resetCuriosity (\<lambda>i. 0.25)
      (setCuriositySide 0 (PetalManager_new 0 0 100 (\<lambda>i. demo_draws)))) ! 3) = 0.9 \<and>
   pt_bendStiffness (pm_petals (setCuriositySide (- (3 * pi / 4))
      (PetalManager_new 0 0 100 (\<lambda>i. demo_draws))) ! 35) = 1.5"
proof -
  let ?m = "PetalManager_new 0 0 100 (\<lambda>i. demo_draws)"
  have b35: "pt_baseAngle (pm_petals ?m ! 35) = 35 * pi / 18"
    by (simp add: new_petal_nth Petal_new_def Let_def)
  have l35: "35 < length (pm_petals ?m)" by (simp add: new_petal_nth)
  have "35 * pi / 18 - - (3 * pi / 4) = pi * (97 / 36)" by (simp add: algebra_simps)
  moreover have "pi * 2 < pi * (97 / 36)" using pi_gt_zero by (simp only: mult_less_cancel_left_pos)
  ultimately have d35: "\<bar>pt_baseAngle (pm_petals ?m ! 35) - - (3 * pi / 4)\<bar> > 2 * pi"
    unfolding b35 by simp
  have w4: "pt_bendStiffness (pm_petals (setCuriositySide (- (3 * pi / 4)) ?m) ! 35) = 1.5"
    using curiosity_side_and_reset[of 35 ?m "- (3 * pi / 4)" us] l35 d35 by blast
  have b3: "pt_baseAngle (pm_petals ?m ! 3) = pi / 6" and b18: "pt_baseAngle (pm_petals ?m ! 18) = pi"
    by (simp_all add: new_petal_nth Petal_new_def Let_def)
  have l: "3 < length (pm_petals ?m)" "18 < length (pm_petals ?m)"
    "3 < length (pm_petals (setCuriositySide 0 ?m))"
    by (simp_all add: new_petal_nth setCuriositySide_def)
  have in3: "\<exists>k::int. \<bar>pt_baseAngle (pm_petals ?m ! 3) - 0 - 2 * pi * of_int k\<bar> < pi / 2"
    by (rule exI[of _ 0]) (simp add: b3)
  have out18: "\<not> (\<exists>k::int. \<bar>pt_baseAngle (pm_petals ?m ! 18) - 0 - 2 * pi * of_int k\<bar> < pi / 2)"
  proof
    assume "\<exists>k::int. \<bar>pt_baseAngle (pm_petals ?m ! 18) - 0 - 2 * pi * of_int k\<bar> < pi / 2"
    then have "(if \<bar>pi - 0\<bar> > pi then pi * 2 - \<bar>pi - 0\<bar> else \<bar>pi - 0\<bar>) < pi / 2"
      using fold_quarter_turn[of "pi - 0"] by (simp add: b18)
    then show False by simp
  qed
  have d3: "\<bar>pt_baseAngle (pm_petals ?m ! 3) - 0\<bar> \<le> 2 * pi"
    and d18: "\<bar>pt_baseAngle (pm_petals ?m ! 18) - 0\<bar> \<le> 2 * pi"
    by (simp_all add: b3 b18)
  have r: "pm_reachable ?m" by (rule reach_new)
  have z: "(0::real) \<le> 0 \<and> (0::real) \<le> 2 * pi" by simp
  have w0: "pt_bendStiffness (pm_petals (setCuriositySide 0 ?m) ! 18) =
      (if \<exists>k::int. \<bar>pt_baseAngle (pm_petals ?m ! 18) - 0 - 2 * pi * of_int k\<bar> < pi / 2
       then 1.5 else 1)"
    using curiosity_side_and_reset[of 18 ?m 0 us] r l(2) z by blast
  have w1: "pt_bendStiffness (pm_petals (setCuriositySide 0 ?m) ! 3) = 1.5"
    using curiosity_side_and_reset[of 3 ?m 0 us] l(1) d3 in3 by simp
  have w2: "pt_bendStiffness (pm_petals (setCuriositySide 0 ?m) ! 18) = 1"
    using w0 out18 by simp
  have w3: "pt_bendStiffness (pm_petals (resetCuriosity (\<lambda>i. 0.25) (setCuriositySide 0 ?m)) ! 3) = 0.9"
    using curiosity_side_and_reset[of 3 "setCuriositySide 0 ?m" angle "\<lambda>i. 0.25"] l(3)
    by (simp add: Utils_randomRange_def)
  from w1 w2 w3 w4 show ?thesis by blast
qed


section \<open>PetalManager: click and ripple\<close>

lemma indexed_ok_iff:
  "indexed_ok m \<longleftrightarrow> pm_petalCount m = 36 \<and> length (pm_petals m) = 36 \<and>
     (\<forall>i < 36. pt_index (pm_petals m ! i) = i)"
  by (auto simp: indexed_ok_def list_all_iff PHYSICS_petalCount_def)

lemma list_update_index:
  assumes "pt_index p' = pt_index (ps ! k)"
  shows "pt_index (ps[k := p'] ! i) = pt_index (ps ! i)"
proof (cases "k < length ps")
  case True
  then show ?thesis using assms by (simp add: nth_list_update)
next
  case False
  then have "ps[k := p'] = ps" by (simp add: list_update_beyond)
  then show ?thesis by simp
qed

lemma Petal_index_keeps [simp]:
  "pt_index (fst (Petal_triggerClick u p)) = pt_index p"
  "pt_index (Petal_triggerRipple u p) = pt_index p"
  "pt_index (fst (Petal_triggerBloom p)) = pt_index p"
  "pt_index (Petal_timer t p) = pt_index p"
  "pt_index (Petal_setHovered b u p) = pt_index p"
  by (cases t; simp add: Petal_triggerClick_def Petal_triggerRipple_def Petal_triggerBloom_def
      Petal_setHovered_def Let_def)+

lemma reachable_indexed: "pm_reachable m \<Longrightarrow> indexed_ok m"
proof (induction rule: pm_reachable.induct)
  case (reach_new centerX centerY radius draws)
  show ?case
    by (simp add: indexed_ok_iff PetalManager_new_def PHYSICS_petalCount_def Petal_new_def Let_def)
next
  case (reach_position m centerX centerY)
  then show ?case by (simp add: indexed_ok_iff updatePosition_def)
next
  case (reach_hover m x y u)
  have r: "pm_petalCount (fst (handleHover x y u m)) = pm_petalCount m"
    by (auto simp: handleHover_def Let_def split: option.splits prod.splits)
  show ?case
    using reach_hover.IH
    unfolding indexed_ok_iff handleHover_result r
    by (auto simp: handleHover_petals)
next
  case (reach_click m x y u)
  then show ?case
    unfolding indexed_ok_iff
    by (auto simp: handleClick_def Let_def case_prod_beta list_update_index split: option.splits)
next
  case (reach_timer m t u m' ts)
  then show ?case
    unfolding indexed_ok_iff
    by (cases t)
       (auto simp: ripple_at_def list_update_index split: option.splits sum.splits if_splits)
next
  case (reach_bloom m)
  then show ?case by (simp add: indexed_ok_iff triggerAllBloom_def)
next
  case (reach_curiosity m angle)
  then show ?case by (simp add: indexed_ok_iff setCuriositySide_def Let_def)
next
  case (reach_reset m us)
  then show ?case by (simp add: indexed_ok_iff resetCuriosity_def)
next
  case (reach_update m deltaTime wind now m')
  note u = PetalManager_update_nth[OF reach_update.hyps(2)]
  have r: "pm_petalCount m' = pm_petalCount m"
    using reach_update.hyps(2) by (auto simp: PetalManager_update_def Let_def split: if_splits)
  show ?case
    using reach_update.IH u(1) Petal_update_keeps(8)[OF u(3)]
    unfolding indexed_ok_iff r by auto
next
  case (reach_clear m u)
  then show ?case
    unfolding indexed_ok_iff
    by (auto simp: DaisyFlower_clearPetalHover_def list_update_index split: option.splits)
qed

lemma js_rem_pos: "0 < a \<Longrightarrow> 0 < b \<Longrightarrow> js_rem a b = Some (a mod b)"
  by (simp add: js_rem_def)

lemma ripple_neighbor_fires:
  assumes "indexed_ok m" "k < 36" "dir = 1 \<or> dir = - 1"
  shows "PetalManager_timer (RippleNeighbor (int k) dir) u m =
     Inr (m\<lparr> pm_petals := (pm_petals m)[nat ((int k + dir) mod 36) :=
                Petal_triggerRipple u (pm_petals m ! nat ((int k + dir) mod 36))] \<rparr>,
          [(TIMING_rippleDelay, RippleSecond ((int k + dir) mod 36) dir)])"
proof -
  have c: "pm_petalCount m = 36" "length (pm_petals m) = 36"
    using assms(1) by (simp_all add: indexed_ok_iff)
  have p: "0 < int k + dir + 36" using assms(3) by auto
  have j: "js_rem (int k + dir + 36) 36 = Some ((int k + dir) mod 36)"
    using js_rem_pos[OF p, of 36] by simp
  have b: "0 \<le> (int k + dir) mod 36" "nat ((int k + dir) mod 36) < 36"
    by simp_all
  show ?thesis
    using b by (simp add: c j ripple_at_def)
qed

lemma ripple_second_fires:
  assumes "indexed_ok m" "0 \<le> nb" "nb < 36" "dir = 1 \<or> dir = - 1"
  shows "PetalManager_timer (RippleSecond nb dir) u m =
     Inr (m\<lparr> pm_petals := (pm_petals m)[nat ((nb + dir) mod 36) :=
                Petal_triggerRipple u (pm_petals m ! nat ((nb + dir) mod 36))] \<rparr>, [])"
proof -
  have c: "pm_petalCount m = 36" "length (pm_petals m) = 36"
    using assms(1) by (simp_all add: indexed_ok_iff)
  have p: "0 < nb + dir + 36" using assms(2,4) by auto
  have j: "js_rem (nb + dir + 36) 36 = Some ((nb + dir) mod 36)"
    using js_rem_pos[OF p, of 36] by simp
  have b: "0 \<le> (nb + dir) mod 36" "nat ((nb + dir) mod 36) < 36"
    by simp_all
  show ?thesis
    using b by (simp add: c j ripple_at_def)
qed

lemma handleClick_timers:
  assumes "indexed_ok m" "getPetalAtPoint x y m = Some k"
  shows "snd (snd (handleClick x y u m)) =
     [(200, PetalTimer k ResetTargetScale),
      (TIMING_rippleDelay, RippleNeighbor (int k) (- 1)),
      (TIMING_rippleDelay * 2, RippleNeighbor (int k) 1)]"
    and "fst (snd (handleClick x y u m)) = Some k"
proof -
  have k: "k < 36" using getPetalAtPoint_bound[OF assms(2)] assms(1) by (simp add: indexed_ok_iff)
  then have i: "pt_index (pm_petals m ! k) = k" using assms(1) by (simp add: indexed_ok_iff)
  show "snd (snd (handleClick x y u m)) =
     [(200, PetalTimer k ResetTargetScale),
      (TIMING_rippleDelay, RippleNeighbor (int k) (- 1)),
      (TIMING_rippleDelay * 2, RippleNeighbor (int k) 1)]"
    by (simp add: handleClick_def assms(2) Let_def case_prod_beta i PetalManager_triggerRipple_def
        Petal_triggerClick_def upt_conv_Cons)
  show "fst (snd (handleClick x y u m)) = Some k"
    by (simp add: handleClick_def assms(2) Let_def case_prod_beta)
qed


lemma mod36_step: "((a::int) mod 36 + b) mod 36 = (a + b) mod 36"
  by (simp add: mod_add_left_eq)

text \<open>
  Claim C2, as stated, fails. A click on petal 0 of the example state sets the timer of
  direction \<open>-1\<close> with delay 40 and that of direction \<open>1\<close> with delay 80. The latter
  ripples petal 1, an immediate neighbour; the former ripples petal 35 and sets a timer of
  delay 40 that ripples petal 34, a second-ring neighbour. So petal 1 is due at 80 and
  petal 34 at 40 + 40: the delays do not put the immediate neighbour first.
\<close>

theorem click_ripple_delays_tie:
  "snd (snd (handleClick 40 0 0.5 demo_manager)) =
     [(200, PetalTimer 0 ResetTargetScale), (40, RippleNeighbor 0 (- 1)), (80, RippleNeighbor 0 1)] \<and>
   snd (projr (PetalManager_timer (RippleNeighbor 0 1) 0.5 (fst (handleClick 40 0 0.5 demo_manager))))
     = [(40, RippleSecond 1 1)] \<and>
   pt_rippleActive (pm_petals (fst (projr (PetalManager_timer (RippleNeighbor 0 1) 0.5
       (fst (handleClick 40 0 0.5 demo_manager))))) ! 1) \<and>
   snd (projr (PetalManager_timer (RippleNeighbor 0 (- 1)) 0.5 (fst (handleClick 40 0 0.5 demo_manager))))
     = [(40, RippleSecond 35 (- 1))] \<and>
   pt_rippleActive (pm_petals (fst (projr (PetalManager_timer (RippleSecond 35 (- 1)) 0.5
       (fst (handleClick 40 0 0.5 demo_manager))))) ! 34) \<and>
   \<not> ((80::real) < 40 + 40)"
proof -
  let ?m = "fst (handleClick 40 0 0.5 demo_manager)"
  have i0: "indexed_ok demo_manager" by (rule reachable_indexed[OF demo_reachable])
  have i: "indexed_ok ?m" by (rule reachable_indexed[OF reach_click[OF demo_reachable]])
  have l: "length (pm_petals ?m) = 36" using i by (simp add: indexed_ok_iff)
  have t: "snd (snd (handleClick 40 0 0.5 demo_manager)) =
     [(200, PetalTimer 0 ResetTargetScale), (40, RippleNeighbor 0 (- 1)), (80, RippleNeighbor 0 1)]"
    using handleClick_timers(1)[OF i0 demo_hit, of "0.5"] by (simp add: TIMING_rippleDelay_def)
  have r1: "PetalManager_timer (RippleNeighbor 0 1) 0.5 ?m =
      Inr (?m\<lparr> pm_petals := (pm_petals ?m)[1 := Petal_triggerRipple 0.5 (pm_petals ?m ! 1)] \<rparr>,
           [(40, RippleSecond 1 1)])"
    using ripple_neighbor_fires[OF i, of 0 1 "0.5"] by (simp add: TIMING_rippleDelay_def)
  have r2: "PetalManager_timer (RippleNeighbor 0 (- 1)) 0.5 ?m =
      Inr (?m\<lparr> pm_petals := (pm_petals ?m)[35 := Petal_triggerRipple 0.5 (pm_petals ?m ! 35)] \<rparr>,
           [(40, RippleSecond 35 (- 1))])"
    using ripple_neighbor_fires[OF i, of 0 "- 1" "0.5"] by (simp add: TIMING_rippleDelay_def)
  have r3: "PetalManager_timer (RippleSecond 35 (- 1)) 0.5 ?m =
      Inr (?m\<lparr> pm_petals := (pm_petals ?m)[34 := Petal_triggerRipple 0.5 (pm_petals ?m ! 34)] \<rparr>, [])"
    using ripple_second_fires[OF i, of 35 "- 1" "0.5"] by simp
  show ?thesis
    unfolding t r1 r2 r3
    using l by (simp add: Petal_triggerRipple_def)
qed

text \<open>
  Claim C2, amended. On a hit on petal \<open>k\<close>, \<open>handleClick\<close> sets the ripple timer of
  direction \<open>-1\<close> with delay \<open>rippleDelay\<close> and that of direction \<open>1\<close> with delay
  \<open>2 * rippleDelay\<close> (besides the clicked petal's own scale timer). Fired on any manager
  that the operations can produce, the timer of a direction calls \<open>triggerRipple\<close> on the
  immediate neighbour \<open>(k + direction) mod 36\<close> and sets a timer of delay \<open>rippleDelay\<close>
  that calls it on \<open>(k + 2 * direction) mod 36\<close>. With every timer fired when due, the
  ripple is due at \<open>rippleDelay\<close> on \<open>k - 1\<close>, at \<open>2 * rippleDelay\<close> on both \<open>k + 1\<close>
  and \<open>k - 2\<close>, and at \<open>3 * rippleDelay\<close> on \<open>k + 2\<close>: on each side the immediate
  neighbour comes before the second-ring one, and \<open>k + 1\<close> is due together with \<open>k - 2\<close>.
\<close>

theorem click_ripple_schedule:
  assumes "pm_reachable m" "getPetalAtPoint x y m = Some k" "pm_reachable m1" "pm_reachable m2"
  shows
  "fst (snd (handleClick x y u m)) = Some k \<and>
   snd (snd (handleClick x y u m)) =
     [(200, PetalTimer k ResetTargetScale),
      (TIMING_rippleDelay, RippleNeighbor (int k) (- 1)),
      (TIMING_rippleDelay * 2, RippleNeighbor (int k) 1)] \<and>
   PetalManager_timer (RippleNeighbor (int k) (- 1)) u1 m1 =
     Inr (m1\<lparr> pm_petals := (pm_petals m1)[nat ((int k - 1) mod 36) :=
                 Petal_triggerRipple u1 (pm_petals m1 ! nat ((int k - 1) mod 36))] \<rparr>,
          [(TIMING_rippleDelay, RippleSecond ((int k - 1) mod 36) (- 1))]) \<and>
   PetalManager_timer (RippleSecond ((int k - 1) mod 36) (- 1)) u2 m2 =
     Inr (m2\<lparr> pm_petals := (pm_petals m2)[nat ((int k - 2) mod 36) :=
                 Petal_triggerRipple u2 (pm_petals m2 ! nat ((int k - 2) mod 36))] \<rparr>, []) \<and>
   PetalManager_timer (RippleNeighbor (int k) 1) u1 m1 =
     Inr (m1\<lparr> pm_petals := (pm_petals m1)[nat ((int k + 1) mod 36) :=
                 Petal_triggerRipple u1 (pm_petals m1 ! nat ((int k + 1) mod 36))] \<rparr>,
          [(TIMING_rippleDelay, RippleSecond ((int k + 1) mod 36) 1)]) \<and>
   PetalManager_timer (RippleSecond ((int k + 1) mod 36) 1) u2 m2 =
     Inr (m2\<lparr> pm_petals := (pm_petals m2)[nat ((int k + 2) mod 36) :=
                 Petal_triggerRipple u2 (pm_petals m2 ! nat ((int k + 2) mod 36))] \<rparr>, []) \<and>
   TIMING_rippleDelay < TIMING_rippleDelay + TIMING_rippleDelay \<and>
   TIMING_rippleDelay * 2 < TIMING_rippleDelay * 2 + TIMING_rippleDelay \<and>
   TIMING_rippleDelay < TIMING_rippleDelay * 2 \<and>
   TIMING_rippleDelay * 2 = TIMING_rippleDelay + TIMING_rippleDelay"
proof -
  have i: "indexed_ok m" "indexed_ok m1" "indexed_ok m2"
    using assms by (simp_all add: reachable_indexed)
  have k: "k < 36" using getPetalAtPoint_bound[OF assms(2)] i(1) by (simp add: indexed_ok_iff)
  have e: "(int k - 1) mod 36 - 1 = (int k - 1) mod 36 + (- 1)" by simp
  have a1: "PetalManager_timer (RippleNeighbor (int k) (- 1)) u1 m1 =
     Inr (m1\<lparr> pm_petals := (pm_petals m1)[nat ((int k - 1) mod 36) :=
                 Petal_triggerRipple u1 (pm_petals m1 ! nat ((int k - 1) mod 36))] \<rparr>,
          [(TIMING_rippleDelay, RippleSecond ((int k - 1) mod 36) (- 1))])"
    using ripple_neighbor_fires[OF i(2) k, of "- 1" u1] by simp
  have a2: "PetalManager_timer (RippleSecond ((int k - 1) mod 36) (- 1)) u2 m2 =
     Inr (m2\<lparr> pm_petals := (pm_petals m2)[nat ((int k - 2) mod 36) :=
                 Petal_triggerRipple u2 (pm_petals m2 ! nat ((int k - 2) mod 36))] \<rparr>, [])"
  proof -
    have m: "((int k - 1) mod 36 + - 1) mod 36 = (int k - 2) mod 36"
      using mod36_step[of "int k - 1" "- 1"] by simp
    have "PetalManager_timer (RippleSecond ((int k - 1) mod 36) (- 1)) u2 m2 =
     Inr (m2\<lparr> pm_petals := (pm_petals m2)[nat (((int k - 1) mod 36 + - 1) mod 36) :=
                 Petal_triggerRipple u2 (pm_petals m2 ! nat (((int k - 1) mod 36 + - 1) mod 36))] \<rparr>, [])"
      by (rule ripple_second_fires[OF i(3)]) simp_all
    then show ?thesis by (simp only: m)
  qed
  have b1: "PetalManager_timer (RippleNeighbor (int k) 1) u1 m1 =
     Inr (m1\<lparr> pm_petals := (pm_petals m1)[nat ((int k + 1) mod 36) :=
                 Petal_triggerRipple u1 (pm_petals m1 ! nat ((int k + 1) mod 36))] \<rparr>,
          [(TIMING_rippleDelay, RippleSecond ((int k + 1) mod 36) 1)])"
    using ripple_neighbor_fires[OF i(2) k, of 1 u1] by simp
  have b2: "PetalManager_timer (RippleSecond ((int k + 1) mod 36) 1) u2 m2 =
     Inr (m2\<lparr> pm_petals := (pm_petals m2)[nat ((int k + 2) mod 36) :=
                 Petal_triggerRipple u2 (pm_petals m2 ! nat ((int k + 2) mod 36))] \<rparr>, [])"
  proof -
    have m: "((int k + 1) mod 36 + 1) mod 36 = (int k + 2) mod 36"
      using mod36_step[of "int k + 1" 1] by (simp add: add.commute)
    have "PetalManager_timer (RippleSecond ((int k + 1) mod 36) 1) u2 m2 =
     Inr (m2\<lparr> pm_petals := (pm_petals m2)[nat (((int k + 1) mod 36 + 1) mod 36) :=
                 Petal_triggerRipple u2 (pm_petals m2 ! nat (((int k + 1) mod 36 + 1) mod 36))] \<rparr>, [])"
      by (rule ripple_second_fires[OF i(3)]) simp_all
    then show ?thesis by (simp only: m)
  qed
  have d: "TIMING_rippleDelay < TIMING_rippleDelay + TIMING_rippleDelay"
    "TIMING_rippleDelay * 2 < TIMING_rippleDelay * 2 + TIMING_rippleDelay"
    "TIMING_rippleDelay < TIMING_rippleDelay * 2"
    "TIMING_rippleDelay * 2 = TIMING_rippleDelay + TIMING_rippleDelay"
    by (simp_all add: TIMING_rippleDelay_def)
  from handleClick_timers[OF i(1) assms(2), of u] a1 a2 b1 b2 d show ?thesis by blast
qed

text \<open>The click on petal 0 of the example state.\<close>

theorem click_ripple_schedule_witness:
  "fst (snd (handleClick 40 0 0.5 demo_manager)) = Some 0 \<and>
   snd (snd (handleClick 40 0 0.5 demo_manager)) =
     [(200, PetalTimer 0 ResetTargetScale), (40, RippleNeighbor 0 (- 1)), (80, RippleNeighbor 0 1)] \<and>
   snd (projr (PetalManager_timer (RippleNeighbor 0 (- 1)) 0.5 (fst (handleClick 40 0 0.5 demo_manager))))
     = [(40, RippleSecond 35 (- 1))] \<and>
   snd (projr (PetalManager_timer (RippleNeighbor 0 1) 0.5 (fst (handleClick 40 0 0.5 demo_manager))))
     = [(40, RippleSecond 1 1)]"
proof -
  let ?m = "fst (handleClick 40 0 0.5 demo_manager)"
  have r: "pm_reachable ?m" by (rule reach_click[OF demo_reachable])
  note t = click_ripple_schedule[OF demo_reachable demo_hit r r, of "0.5" "0.5" "0.5"]
  show ?thesis using t by (simp add: TIMING_rippleDelay_def)
qed


section \<open>Petal: the hit test at a petal tip\<close>

lemma atan2_third_quadrant:
  assumes "0 < t" "t < pi / 2" "0 < L"
  shows "atan2 (L * sin (t + pi)) (L * cos (t + pi)) = t - pi"
proof -
  have c: "0 < cos t" using assms by (intro cos_gt_zero) simp_all
  have s: "0 < sin t" using assms by (intro sin_gt_zero2) simp_all
  have x: "L * cos (t + pi) < 0" using c assms(3) by (simp add: mult_pos_pos)
  have y: "L * sin (t + pi) < 0" using s assms(3) by (simp add: mult_pos_pos)
  have q: "(L * sin (t + pi)) / (L * cos (t + pi)) = tan t"
    using assms(3) by (simp add: tan_def)
  have a: "arctan (tan t) = t" using assms by (intro arctan_tan) simp_all
  show ?thesis
    unfolding atan2_def q a using x y by simp
qed

lemma hypot_polar: "0 \<le> L \<Longrightarrow> hypot (L * cos t) (L * sin t) = L"
proof -
  assume L: "0 \<le> L"
  have "L * cos t * (L * cos t) + L * sin t * (L * sin t) = L\<^sup>2 * ((cos t)\<^sup>2 + (sin t)\<^sup>2)"
    unfolding power2_eq_square by (simp only: distrib_left mult_ac)
  also have "\<dots> = L\<^sup>2" by simp
  finally show ?thesis using L by (simp add: hypot_def)
qed

lemma bloom_petal:
  assumes "i < 36"
  shows "pm_petals full_bloom_manager ! i =
     (Petal_new i 36 0 0 100 (bloom_draws i))\<lparr> pt_visible := True, pt_bloomProgress := 1 \<rparr>"
  using assms by (simp add: full_bloom_manager_def PetalManager_new_def PHYSICS_petalCount_def Let_def)

lemma bloom_petal19:
  "pt_visible (pm_petals full_bloom_manager ! 19)"
  "pt_bloomProgress (pm_petals full_bloom_manager ! 19) = 1"
  "pt_scale (pm_petals full_bloom_manager ! 19) = 1"
  "pt_length (pm_petals full_bloom_manager ! 19) = 80"
  "displayAngle (pm_petals full_bloom_manager ! 19) = pi / 18 + pi"
  by (simp_all add: bloom_petal Petal_new_def Let_def bloom_draws_def demo_draws_def
      Utils_randomRange_def displayAngle_def)

lemma bloom_petal35:
  "pt_visible (pm_petals full_bloom_manager ! 35)"
  "pt_bloomProgress (pm_petals full_bloom_manager ! 35) = 1"
  "pt_scale (pm_petals full_bloom_manager ! 35) = 1"
  "pt_length (pm_petals full_bloom_manager ! 35) = 84.8"
  "pt_width (pm_petals full_bloom_manager ! 35) = 15"
  "displayAngle (pm_petals full_bloom_manager ! 35) = 35 * pi / 18"
  by (simp_all add: bloom_petal Petal_new_def Let_def bloom_draws_def demo_draws_def
      Utils_randomRange_def displayAngle_def)

lemma tip19:
  "getTipPosition 0 0 (pm_petals full_bloom_manager ! 19) =
     \<lparr> vx = 80 * cos (pi / 18 + pi), vy = 80 * sin (pi / 18 + pi) \<rparr>"
  by (simp add: getTipPosition_def bloom_petal19)

lemma tip19_in_petal35:
  "Petal_containsPoint (80 * cos (pi / 18 + pi)) (80 * sin (pi / 18 + pi)) 0 0
     (pm_petals full_bloom_manager ! 35)"
proof -
  have t: "0 < pi / 18" "pi / 18 < pi / 2" using pi_gt_zero by simp_all
  have h: "hypot (80 * cos (pi / 18 + pi)) (80 * sin (pi / 18 + pi)) = 80"
    by (rule hypot_polar) simp
  have a: "atan2 (80 * sin (pi / 18 + pi)) (80 * cos (pi / 18 + pi)) = pi / 18 - pi"
    by (rule atan2_third_quadrant[OF t]) simp
  have d: "\<bar>pi / 18 - pi - 35 * pi / 18\<bar> = 52 * pi / 18"
    using pi_gt_zero by simp
  have g: "pi < 52 * pi / 18" using pi_gt_zero by simp
  have f: "pi * 2 - 52 * pi / 18 < 0" using pi_gt_zero by simp
  have w: "(0::real) < (15 * (1 - 80 / (84.8 * 1 * 1) * 0.5)) / 80" by simp
  have fw: "pi * 2 - 52 * pi / 18 < (15 * (1 - 80 / (84.8 * 1 * 1) * 0.5)) / 80"
    using f w by linarith
  show ?thesis
    unfolding Petal_containsPoint_def Let_def bloom_petal35(2-6) diff_zero h a d
    using g fw bloom_petal35(1) by simp
qed

lemma petal_scan_last:
  assumes "0 < n" "Petal_containsPoint x y (pm_centerX m) (pm_centerY m) (pm_petals m ! (n - 1))"
  shows "petal_scan n x y m = Some (n - 1)"
  using assms by (cases n) simp_all

lemma containsPoint_beyond_turn:
  assumes "pt_visible p" "0.5 \<le> pt_bloomProgress p"
    and "0 < hypot (px - cx) (py - cy)"
    and "hypot (px - cx) (py - cy) \<le> pt_length p * pt_scale p * pt_bloomProgress p"
    and "pt_length p * 0.1 \<le> hypot (px - cx) (py - cy)"
    and "0 < pt_width p"
    and "2 * pi < \<bar>atan2 (py - cy) (px - cx) - displayAngle p\<bar>"
  shows "Petal_containsPoint px py cx cy p"
proof -
  define dist where "dist = hypot (px - cx) (py - cy)"
  define len where "len = pt_length p * pt_scale p * pt_bloomProgress p"
  define diff where "diff = \<bar>atan2 (py - cy) (px - cx) - displayAngle p\<bar>"
  have d: "0 < dist" "dist \<le> len" "pt_length p * 0.1 \<le> dist"
    using assms(3,4,5) by (simp_all add: dist_def len_def)
  have "dist / len \<le> 1" using d by simp
  then have "0 < 1 - dist / len * 0.5" by simp
  then have w: "0 < (pt_width p * (1 - dist / len * 0.5)) / dist"
    using assms(6) d(1) by simp
  have g: "pi < diff" "pi * 2 - diff < 0"
    using assms(7) pi_gt_zero by (simp_all add: diff_def)
  have "pi * 2 - diff < (pt_width p * (1 - dist / len * 0.5)) / dist"
    using g(2) w by linarith
  then show ?thesis
    unfolding Petal_containsPoint_def Let_def dist_def[symmetric] len_def[symmetric] diff_def[symmetric]
    using assms(1,2) d g(1) by simp
qed

text \<open>
  Claim C4 against the code. The hit test folds an angle difference above \<open>\<pi>\<close> as
  \<open>2\<pi> - difference\<close>. \<open>Math.atan2\<close> lies in \<open>(-\<pi>, \<pi>]\<close> and the display angle of a petal
  is about its base angle in \<open>[0, 2\<pi>)\<close>, so the difference can exceed \<open>2\<pi>\<close>; the folded
  value is then negative and the angle test passes whatever the petal's width
  (\<open>containsPoint_beyond_turn\<close>). On the flower at full bloom and at rest, the tip of
  petal 19 (190 degrees, \<open>atan2\<close> gives -170 degrees) is inside petal 35 (350 degrees), and
  \<open>getPetalAtPoint\<close> at that tip returns petal 35.
\<close>

theorem tip_of_petal_19_hits_petal_35:
  "pt_visible (pm_petals full_bloom_manager ! 19) \<and>
   pt_bloomProgress (pm_petals full_bloom_manager ! 19) = 1 \<and>
   pt_visible (pm_petals full_bloom_manager ! 35) \<and>
   pt_bloomProgress (pm_petals full_bloom_manager ! 35) = 1 \<and>
   Petal_containsPoint
     (vx (getTipPosition 0 0 (pm_petals full_bloom_manager ! 19)))
     (vy (getTipPosition 0 0 (pm_petals full_bloom_manager ! 19)))
     0 0 (pm_petals full_bloom_manager ! 35) \<and>
   getPetalAtPoint
     (vx (getTipPosition 0 0 (pm_petals full_bloom_manager ! 19)))
     (vy (getTipPosition 0 0 (pm_petals full_bloom_manager ! 19)))
     full_bloom_manager = Some 35"
proof -
  have c: "pm_centerX full_bloom_manager = 0" "pm_centerY full_bloom_manager = 0"
    "length (pm_petals full_bloom_manager) = 36"
    by (simp_all add: full_bloom_manager_def PetalManager_new_def PHYSICS_petalCount_def Let_def)
  have h: "Petal_containsPoint
     (vx (getTipPosition 0 0 (pm_petals full_bloom_manager ! 19)))
     (vy (getTipPosition 0 0 (pm_petals full_bloom_manager ! 19)))
     0 0 (pm_petals full_bloom_manager ! 35)"
    unfolding tip19 using tip19_in_petal35 by simp
  have "petal_scan 36
     (vx (getTipPosition 0 0 (pm_petals full_bloom_manager ! 19)))
     (vy (getTipPosition 0 0 (pm_petals full_bloom_manager ! 19)))
     full_bloom_manager = Some (36 - 1)"
    by (rule petal_scan_last) (simp_all add: c h)
  then have g: "getPetalAtPoint
     (vx (getTipPosition 0 0 (pm_petals full_bloom_manager ! 19)))
     (vy (getTipPosition 0 0 (pm_petals full_bloom_manager ! 19)))
     full_bloom_manager = Some 35"
    by (simp add: getPetalAtPoint_def c)
  from h g bloom_petal19(1,2) bloom_petal35(1,2) show ?thesis by blast
qed


text \<open>So a petal other than petal 19 contains the tip of petal 19.\<close>

theorem tip_of_petal_19_hits_petal_35_witness:
  "\<exists>j. j \<noteq> 19 \<and> j < length (pm_petals full_bloom_manager) \<and>
     Petal_containsPoint
       (vx (getTipPosition 0 0 (pm_petals full_bloom_manager ! 19)))
       (vy (getTipPosition 0 0 (pm_petals full_bloom_manager ! 19)))
       0 0 (pm_petals full_bloom_manager ! j)"
proof -
  have l: "length (pm_petals full_bloom_manager) = 36"
    by (simp add: full_bloom_manager_def PetalManager_new_def PHYSICS_petalCount_def Let_def)
  show ?thesis
    using tip_of_petal_19_hits_petal_35 l by (intro exI[of _ 35]) simp
qed


end
